theory Spec2Isabelle
  imports Complex_Main
begin

section \<open>Model tiers and hardware snapshots\<close>

text \<open>
  The setup wizard \<^verbatim>\<open>setup.py\<close> keeps the hardware snapshot in a dictionary with the keys
  \<^verbatim>\<open>has_gpu, gpu_type, gpu_name, vram, ram, cores\<close> and the model catalog in the list
  \<^verbatim>\<open>MODEL_TIERS\<close> of tuples \<^verbatim>\<open>(min_vram, min_ram, label, extract, verify, write)\<close>.
  Python floats are taken as the real numbers they denote; the comparisons of the tier
  scan are then the order of the reals. The values \<^verbatim>\<open>nan\<close> and \<^verbatim>\<open>inf\<close> are not
  represented.
\<close>

record hw =
  hw_has_gpu :: bool
  hw_gpu_type :: string
  hw_gpu_name :: "string option"
  hw_vram :: real
  hw_ram :: real
  hw_cores :: "nat option"

record tier =
  tier_min_vram :: real
  tier_min_ram :: real
  tier_label :: string
  tier_extract :: string
  tier_verify :: string
  tier_write :: string

definition mk_tier :: "real \<Rightarrow> real \<Rightarrow> string \<Rightarrow> string \<Rightarrow> string \<Rightarrow> string \<Rightarrow> tier" where
  "mk_tier mv mr l e v w =
     \<lparr>tier_min_vram = mv, tier_min_ram = mr, tier_label = l,
      tier_extract = e, tier_verify = v, tier_write = w\<rparr>"

definition MODEL_TIERS :: "tier list" where
  "MODEL_TIERS =
    [mk_tier 24 32 ''High-end GPU (24 GB+ VRAM)'' ''qwen3:8b'' ''qwen3:30b'' ''gemma3:27b'',
     mk_tier 16 32 ''Mid-range GPU (16 GB VRAM)'' ''qwen3:8b'' ''qwen3:14b'' ''gemma3:12b'',
     mk_tier 12 32 ''Entry GPU (12 GB VRAM)'' ''qwen3:8b'' ''qwen3:8b'' ''gemma3:9b'',
     mk_tier 0 64 ''High-end CPU (64 GB+ RAM)'' ''qwen3:8b'' ''qwen3:14b'' ''gemma3:9b'',
     mk_tier 0 32 ''Mid-range CPU (32 GB+ RAM)'' ''qwen3:8b'' ''qwen3:8b'' ''llama3:8b'',
     mk_tier 0 16 ''Minimum (16 GB RAM)'' ''phi3:mini'' ''phi3:mini'' ''phi3:mini'']"

text \<open>
  The state of the "find best tier" loop of \<^verbatim>\<open>step_models\<close>: the three model names and
  the tier name, preset before the loop and overwritten by the first matching entry.
\<close>

record selection =
  sel_extract :: string
  sel_verify :: string
  sel_write :: string
  sel_tier_name :: string

definition default_selection :: selection where
  "default_selection =
     \<lparr>sel_extract = ''phi3:mini'', sel_verify = ''phi3:mini'', sel_write = ''phi3:mini'',
      sel_tier_name = ''Minimum''\<rparr>"

definition tier_matches :: "real \<Rightarrow> real \<Rightarrow> tier \<Rightarrow> bool" where
  "tier_matches vram ram t \<longleftrightarrow> vram \<ge> tier_min_vram t \<and> ram \<ge> tier_min_ram t"

definition selection_of_tier :: "tier \<Rightarrow> selection" where
  "selection_of_tier t =
     \<lparr>sel_extract = tier_extract t, sel_verify = tier_verify t, sel_write = tier_write t,
      sel_tier_name = tier_label t\<rparr>"

text \<open>
  \<^verbatim>\<open>for min_vram, min_ram, label, e, v, w in MODEL_TIERS:
      if vram >= min_vram and ram >= min_ram:
          extract, verify, write = e, v, w; tier_name = label; break\<close>
\<close>

fun tier_loop :: "real \<Rightarrow> real \<Rightarrow> tier list \<Rightarrow> selection \<Rightarrow> selection" where
  "tier_loop vram ram [] acc = acc"
| "tier_loop vram ram (t # ts) acc =
     (if tier_matches vram ram t
      then acc\<lparr>sel_extract := tier_extract t, sel_verify := tier_verify t,
               sel_write := tier_write t, sel_tier_name := tier_label t\<rparr>
      else tier_loop vram ram ts acc)"

definition find_best_tier :: "hw \<Rightarrow> selection" where
  "find_best_tier h = tier_loop (hw_vram h) (hw_ram h) MODEL_TIERS default_selection"

text \<open>
  The capability rank of a selection is the position of its tier name among the labels of
  the catalog, counted from 0 (the most capable entry); a tier name that is no label of the
  catalog gets the catalog's length, below every entry.
\<close>

fun label_position :: "string \<Rightarrow> tier list \<Rightarrow> nat" where
  "label_position l [] = 0"
| "label_position l (t # ts) = (if tier_label t = l then 0 else Suc (label_position l ts))"

definition capability_rank :: "selection \<Rightarrow> nat" where
  "capability_rank s = label_position (sel_tier_name s) MODEL_TIERS"

text \<open>
  The number of catalog entries the loop passes before the first matching one (the
  catalog's length when none matches).
\<close>

fun first_match :: "real \<Rightarrow> real \<Rightarrow> tier list \<Rightarrow> nat" where
  "first_match v r [] = 0"
| "first_match v r (t # ts) = (if tier_matches v r t then 0 else Suc (first_match v r ts))"

section \<open>Python values, exceptions and the outside world\<close>

text \<open>
  Exceptions are values. \<^verbatim>\<open>except Exception\<close> catches every exception of the model but
  \<^verbatim>\<open>SystemExit\<close>, which \<^verbatim>\<open>sys.exit\<close> raises and which derives from \<^verbatim>\<open>BaseException\<close>.
\<close>

datatype exn =
    CalledProcessError | FileNotFoundError | TimeoutExpired | OSError
  | IndexError | ValueError | OverflowError | KeyError | AttributeError | TypeError
  | JSONDecodeError | ImportError | FileExistsError | EOFError
  | SystemExit nat

fun is_Exception :: "exn \<Rightarrow> bool" where
  "is_Exception (SystemExit c) = False"
| "is_Exception x = True"

subsection \<open>Strings\<close>

text \<open>
  A string is a list of characters with code points below 256. \<^verbatim>\<open>str.strip()\<close> removes
  the characters for which \<^verbatim>\<open>str.isspace\<close> holds from both ends.
\<close>

definition is_space :: "char \<Rightarrow> bool" where
  "is_space c \<longleftrightarrow> c \<in> set [CHR 0x09, CHR 0x0A, CHR 0x0B, CHR 0x0C, CHR 0x0D, CHR 0x1C,
      CHR 0x1D, CHR 0x1E, CHR 0x1F, CHR 0x20, CHR 0x85, CHR 0xA0]"

definition strip :: "string \<Rightarrow> string" where
  "strip s = rev (dropWhile is_space (rev (dropWhile is_space s)))"

text \<open>\<^verbatim>\<open>s.split(c)\<close> for a separator of one character.\<close>

fun split_on :: "char \<Rightarrow> string \<Rightarrow> string list" where
  "split_on c [] = [[]]"
| "split_on c (x # xs) =
     (if x = c then [] # split_on c xs
      else (case split_on c xs of [] \<Rightarrow> [[x]] | p # ps \<Rightarrow> (x # p) # ps))"

text \<open>
  \<^verbatim>\<open>s.split(c, 1)[1]\<close>: what follows the first \<open>c\<close>; \<^verbatim>\<open>IndexError\<close> (here \<open>None\<close>) when
  \<open>s\<close> has no \<open>c\<close>. \<^verbatim>\<open>s.split(c)[-1]\<close>: what follows the last \<open>c\<close>, all of \<open>s\<close> when it has
  none.
\<close>

definition after_first :: "char \<Rightarrow> string \<Rightarrow> string option" where
  "after_first c s = (case dropWhile (\<lambda>x. x \<noteq> c) s of [] \<Rightarrow> None | _ # rest \<Rightarrow> Some rest)"

definition after_last :: "char \<Rightarrow> string \<Rightarrow> string" where
  "after_last c s = rev (takeWhile (\<lambda>x. x \<noteq> c) (rev s))"

definition startswith :: "string \<Rightarrow> string \<Rightarrow> bool" where
  "startswith s p \<longleftrightarrow> take (length p) s = p"

text \<open>\<^verbatim>\<open>p in s\<close>: \<open>p\<close> occurs in \<open>s\<close> as a substring.\<close>

fun contains :: "string \<Rightarrow> string \<Rightarrow> bool" where
  "contains [] p = (p = [])"
| "contains (c # cs) p = (startswith (c # cs) p \<or> contains cs p)"

text \<open>
  \<^verbatim>\<open>s.upper()\<close> on the letters a to z. The wizard only looks for "GPU" in the result, and
  no other character below 256 has G, P or U in its upper case.
\<close>

definition upper_char :: "char \<Rightarrow> char" where
  "upper_char c =
     (let n = (of_char c :: nat) in if 97 \<le> n \<and> n \<le> 122 then char_of (n - 32) else c)"

definition upper :: "string \<Rightarrow> string" where
  "upper s = map upper_char s"

text \<open>The truth value of an optional string: \<^verbatim>\<open>None\<close> and \<^verbatim>\<open>""\<close> are false.\<close>

fun truthy :: "string option \<Rightarrow> bool" where
  "truthy None = False"
| "truthy (Some s) = (s \<noteq> [])"

subsection \<open>Numbers\<close>

text \<open>
  \<^verbatim>\<open>a / b\<close> on two ints with \<open>b > 0\<close>: the quotient as a float, \<^verbatim>\<open>OverflowError\<close> when it
  is beyond the largest float (rounding is not modelled).
\<close>

definition int_true_div :: "int \<Rightarrow> int \<Rightarrow> exn + real" where
  "int_true_div a b =
     (if \<bar>a\<bar> \<ge> (2 ^ 1024 - 2 ^ 970) * b then Inl OverflowError
      else Inr (real_of_int a / real_of_int b))"

text \<open>
  An int as the operand of a float operation (\<^verbatim>\<open>n / 1e9\<close>): it is converted to the nearest
  float, \<^verbatim>\<open>OverflowError\<close> when that is beyond the largest float.
\<close>

definition int_as_float :: "int \<Rightarrow> exn + real" where
  "int_as_float n = (if \<bar>n\<bar> \<ge> 2 ^ 1024 - 2 ^ 970 then Inl OverflowError else Inr (real_of_int n))"

subsection \<open>JSON values\<close>

text \<open>
  What \<^verbatim>\<open>json.loads\<close> gives: a number written without fraction and exponent is an \<^verbatim>\<open>int\<close> of
  any size, every other number a \<^verbatim>\<open>float\<close>.
\<close>

datatype json =
    JNull | JBool bool | JInt int | JFloat real | JStr string | JArr "json list"
  | JObj "(string \<times> json) list"

text \<open>
  \<^verbatim>\<open>data.get(key, default)\<close>: only a dict has \<^verbatim>\<open>get\<close>. \<^verbatim>\<open>json.loads\<close> keeps the last
  value of a repeated key.
\<close>

fun json_get :: "json \<Rightarrow> string \<Rightarrow> json \<Rightarrow> exn + json" where
  "json_get (JObj kvs) k d = Inr (case map_of (rev kvs) k of None \<Rightarrow> d | Some v \<Rightarrow> v)"
| "json_get j k d = Inl AttributeError"

subsection \<open>Processes\<close>

text \<open>
  What happens to a command that is started: it exits with a return code and an output,
  its program is not found, it runs past the timeout, or starting it fails otherwise.
\<close>

datatype proc = Exited int string | NotFound | TimedOut | LaunchError

text \<open>
  \<^verbatim>\<open>subprocess.run(cmd, capture_output=capture, text=True, check=check, timeout=...)\<close>
  followed by \<^verbatim>\<open>r.stdout\<close> (\<open>None\<close> unless captured).
\<close>

fun subprocess_run :: "proc \<Rightarrow> bool \<Rightarrow> bool \<Rightarrow> exn + (int \<times> string option)" where
  "subprocess_run (Exited rc out) capture check =
     (if check \<and> rc \<noteq> 0 then Inl CalledProcessError
      else Inr (rc, if capture then Some out else None))"
| "subprocess_run NotFound capture check = Inl FileNotFoundError"
| "subprocess_run TimedOut capture check = Inl TimeoutExpired"
| "subprocess_run LaunchError capture check = Inl OSError"

text \<open>
  \<^verbatim>\<open>def run(cmd, capture=False, check=True, timeout=120)\<close>: the three exceptions named in
  its \<^verbatim>\<open>except\<close> clause are raised again when \<open>check\<close> is set, and give \<open>None\<close> otherwise.
\<close>

definition run_result :: "proc \<Rightarrow> bool \<Rightarrow> bool \<Rightarrow> exn + string option" where
  "run_result p capture check =
     (case subprocess_run p capture check of
        Inr (rc, out) \<Rightarrow> Inr (if capture then map_option strip out else None)
      | Inl x \<Rightarrow>
          (if x \<in> {CalledProcessError, FileNotFoundError, TimeoutExpired}
           then (if check then Inl x else Inr None)
           else Inl x))"

subsection \<open>The world\<close>

text \<open>
  The files and directories below the project root, named by their paths relative to it.
  What a file holds is recorded by the template that rendered it.
\<close>

datatype content =
    ConfigYaml string string string string string
  | DotEnv string string string string string bool string real real
  | SearxngSettings string
  | LimiterToml
  | Text string

datatype node = File content | Dir

text \<open>
  Every action on the outside is written to a trace; the length of the trace is the time
  at which the next answer of the outside is asked for.
\<close>

datatype event =
    Exec "string list" | Popen "string list" | HttpGet string | HttpPost string
  | Sleep nat | Import string | ReadLine | WriteText string | Mkdir string

record world =
  fs :: "string \<Rightarrow> node option"
  stdin :: "string list"
  trace :: "event list"

text \<open>
  The answers of the outside: the platform, the interpreter, the commands, the two HTTP
  services, and the library functions \<^verbatim>\<open>json.loads\<close>, \<^verbatim>\<open>float\<close> and \<^verbatim>\<open>int\<close> (\<open>None\<close> where
  they raise \<^verbatim>\<open>JSONDecodeError\<close> or \<^verbatim>\<open>ValueError\<close>), which are taken as given.
\<close>

record env =
  platform_system :: string
  python_ok :: bool
  can_import :: "string \<Rightarrow> nat \<Rightarrow> bool"
  exec :: "string list \<Rightarrow> nat \<Rightarrow> proc"
  popen_ok :: "string list \<Rightarrow> nat \<Rightarrow> bool"
  get_resp :: "string \<Rightarrow> nat \<Rightarrow> string option"
  post_resp :: "string \<Rightarrow> nat \<Rightarrow> string option"
  json_loads :: "string \<Rightarrow> json option"
  py_float :: "string \<Rightarrow> real option"
  py_int :: "string \<Rightarrow> int option"
  virtual_memory_total :: nat
  cpu_count_physical :: "nat option"
  cpu_count_logical :: "nat option"
  token_hex :: string

definition now :: "world \<Rightarrow> nat" where
  "now w = length (trace w)"

definition emit :: "event \<Rightarrow> world \<Rightarrow> world" where
  "emit ev w = w\<lparr>trace := trace w @ [ev]\<rparr>"

definition run :: "env \<Rightarrow> string list \<Rightarrow> bool \<Rightarrow> bool \<Rightarrow> world \<Rightarrow> (exn + string option) \<times> world" where
  "run e cmd capture check w = (run_result (exec e cmd (now w)) capture check, emit (Exec cmd) w)"

text \<open>\<^verbatim>\<open>http_get\<close> and \<^verbatim>\<open>http_post_json\<close> turn every exception into \<open>None\<close>.\<close>

definition http_get :: "env \<Rightarrow> string \<Rightarrow> world \<Rightarrow> string option \<times> world" where
  "http_get e url w = (get_resp e url (now w), emit (HttpGet url) w)"

definition http_post_json :: "env \<Rightarrow> string \<Rightarrow> world \<Rightarrow> string option \<times> world" where
  "http_post_json e url w = (post_resp e url (now w), emit (HttpPost url) w)"

definition OLLAMA_URL :: string where
  "OLLAMA_URL = ''http://localhost:11434''"

definition SEARXNG_URL :: string where
  "SEARXNG_URL = ''http://localhost:8080''"

subsection \<open>Sequencing\<close>

text \<open>
  A computation takes the world and returns a value or an exception, and the world after
  it. \<open>bind\<close> runs the second computation when the first returned a value.
\<close>

definition bind :: "(exn + 'a) \<times> world \<Rightarrow> ('a \<Rightarrow> world \<Rightarrow> (exn + 'b) \<times> world) \<Rightarrow> (exn + 'b) \<times> world" where
  "bind m f = (case m of (Inl x, w) \<Rightarrow> (Inl x, w) | (Inr a, w) \<Rightarrow> f a w)"

text \<open>\<^verbatim>\<open>try: m except (the exceptions in handled): h\<close>\<close>

definition catch :: "(exn \<Rightarrow> bool) \<Rightarrow> (exn + 'a) \<times> world \<Rightarrow> (world \<Rightarrow> (exn + 'a) \<times> world) \<Rightarrow> (exn + 'a) \<times> world" where
  "catch handled m h =
     (case m of
        (Inl x, w) \<Rightarrow> (if handled x then h w else (Inl x, w))
      | (Inr a, w) \<Rightarrow> (Inr a, w))"

section \<open>Hardware detection\<close>

text \<open>A detection result: found, name, VRAM in GB.\<close>

type_synonym gpu = "bool \<times> string option \<times> real"

definition not_found :: gpu where
  "not_found = (False, None, 0)"

text \<open>
  \<^verbatim>\<open>try: ... except Exception: pass\<close> followed by \<^verbatim>\<open>return False, None, 0.0\<close>: the body
  gives \<open>Some\<close> result when it returns, \<open>None\<close> when it runs to its end.
\<close>

definition or_not_found :: "(exn + gpu option) \<times> world \<Rightarrow> (exn + gpu) \<times> world" where
  "or_not_found r =
     (case r of
        (Inr (Some g), w) \<Rightarrow> (Inr g, w)
      | (Inr None, w) \<Rightarrow> (Inr not_found, w)
      | (Inl x, w) \<Rightarrow> (if is_Exception x then (Inr not_found, w) else (Inl x, w)))"

definition nvidia_smi :: "string list" where
  "nvidia_smi = [''nvidia-smi'', ''--query-gpu=name,memory.total'', ''--format=csv,noheader,nounits'']"

text \<open>
  \<^verbatim>\<open>parts = out.split(","); name = parts[0].strip();
  vram = float(parts[1].strip()) / 1024; return True, name, vram\<close>
\<close>

definition nvidia_parse :: "env \<Rightarrow> string \<Rightarrow> exn + gpu option" where
  "nvidia_parse e out =
     (case split_on CHR '','' out of
        p0 # p1 # rest \<Rightarrow>
          (case py_float e (strip p1) of
             None \<Rightarrow> Inl ValueError
           | Some mib \<Rightarrow> Inr (Some (True, Some (strip p0), mib / 1024)))
      | _ \<Rightarrow> Inl IndexError)"

definition detect_nvidia :: "env \<Rightarrow> world \<Rightarrow> (exn + gpu) \<times> world" where
  "detect_nvidia e w = or_not_found
     (case run e nvidia_smi True False w of
        (Inl x, w') \<Rightarrow> (Inl x, w')
      | (Inr out, w') \<Rightarrow>
          (if truthy out then (nvidia_parse e (the out), w') else (Inr None, w')))"

text \<open>\<^verbatim>\<open>AMD_VRAM_TABLE\<close>, in the order in which the dictionary is written and iterated.\<close>

definition AMD_VRAM_TABLE :: "(string \<times> real) list" where
  "AMD_VRAM_TABLE =
    [(''7900 XTX'', 24), (''7900 XT'', 20), (''7800 XT'', 16),
     (''7700 XT'', 12), (''7600'', 8), (''6950 XT'', 16),
     (''6900 XT'', 16), (''6800 XT'', 16), (''6800'', 16),
     (''6750 XT'', 12), (''6700 XT'', 12)]"

text \<open>
  \<^verbatim>\<open>for pattern, known_vram in AMD_VRAM_TABLE.items():
      if pattern in gpu_name: vram = known_vram; break\<close>
\<close>

fun amd_table_loop :: "(string \<times> real) list \<Rightarrow> string \<Rightarrow> real \<Rightarrow> real" where
  "amd_table_loop [] name vram = vram"
| "amd_table_loop ((pattern, known_vram) # rest) name vram =
     (if contains name pattern then known_vram else amd_table_loop rest name vram)"

text \<open>
  \<^verbatim>\<open>raw = line.split(":", 1)[1].strip(); vram = int(raw) / (1024 ** 3) if raw else 0.0\<close>
\<close>

definition adapter_ram_raw :: "env \<Rightarrow> string \<Rightarrow> exn + real" where
  "adapter_ram_raw e line =
     (case after_first CHR '':'' line of
        None \<Rightarrow> Inl IndexError
      | Some rest \<Rightarrow>
          (let raw = strip rest in
           if raw = [] then Inr 0
           else (case py_int e raw of
                   None \<Rightarrow> Inl ValueError
                 | Some n \<Rightarrow> int_true_div n (1024 ^ 3))))"

text \<open>
  The branch of an \<^verbatim>\<open>AdapterRAM\<close> line: the table first, the reported value only when the
  table left \<open>vram\<close> at 0.0; \<^verbatim>\<open>ValueError\<close> and \<^verbatim>\<open>IndexError\<close> of the parse are passed over.
\<close>

definition adapter_ram_vram :: "env \<Rightarrow> string \<Rightarrow> string \<Rightarrow> exn + real" where
  "adapter_ram_vram e gpu_name line =
     (let vram = amd_table_loop AMD_VRAM_TABLE gpu_name 0 in
      if vram = 0 then
        (case adapter_ram_raw e line of
           Inr v \<Rightarrow> Inr v
         | Inl x \<Rightarrow> (if x \<in> {ValueError, IndexError} then Inr vram else Inl x))
      else Inr vram)"

text \<open>The loop over the lines of the WMI output, with \<open>gpu_name\<close> as its state.\<close>

fun amd_windows_scan :: "env \<Rightarrow> string option \<Rightarrow> string list \<Rightarrow> exn + gpu option" where
  "amd_windows_scan e gpu_name [] = Inr None"
| "amd_windows_scan e gpu_name (l # ls) =
     (let line = strip l in
      if startswith line ''Name'' \<and> (contains line ''Radeon'' \<or> contains line ''AMD'') then
        amd_windows_scan e
          (if contains line '':'' then map_option strip (after_first CHR '':'' line) else None) ls
      else if startswith line ''AdapterRAM'' \<and> truthy gpu_name then
        (case adapter_ram_vram e (the gpu_name) line of
           Inl x \<Rightarrow> Inl x
         | Inr vram \<Rightarrow> Inr (Some (True, gpu_name, vram)))
      else amd_windows_scan e gpu_name ls)"

definition wmi_query :: "string list" where
  "wmi_query = [''powershell'', ''-Command'',
     ''Get-WmiObject Win32_VideoController | Select-Object Name,AdapterRAM | Format-List'']"

definition detect_amd_windows :: "env \<Rightarrow> world \<Rightarrow> (exn + gpu) \<times> world" where
  "detect_amd_windows e w =
     (if platform_system e \<noteq> ''Windows'' then (Inr not_found, w)
      else or_not_found
        (case run e wmi_query True False w of
           (Inl x, w') \<Rightarrow> (Inl x, w')
         | (Inr out, w') \<Rightarrow>
             (if \<not> truthy out then (Inr (Some not_found), w')
              else (amd_windows_scan e None (split_on CHR 0x0A (the out)), w'))))"

text \<open>
  The loop of \<^verbatim>\<open>_detect_amd_rocm\<close> that looks for the product name: it stops at the first
  line that names a card series or model, or that mentions Radeon or AMD.
\<close>

fun rocm_name :: "string list \<Rightarrow> string option" where
  "rocm_name [] = None"
| "rocm_name (line # ls) =
     (if contains line ''Card series:'' \<or> contains line ''Card model:''
      then Some (strip (after_last CHR '':'' line))
      else if contains line ''Radeon'' \<or> contains line ''AMD'' then Some (strip line)
      else rocm_name ls)"

definition rocm_smi :: "string list" where
  "rocm_smi = [''rocm-smi'', ''--showproductname'']"

definition detect_amd_rocm :: "env \<Rightarrow> world \<Rightarrow> (exn + gpu) \<times> world" where
  "detect_amd_rocm e w = or_not_found
     (case run e rocm_smi True False w of
        (Inl x, w') \<Rightarrow> (Inl x, w')
      | (Inr out, w') \<Rightarrow>
          (if truthy out \<and> contains (the out) ''GPU'' then
             (let name = rocm_name (split_on CHR 0x0A (the out)) in
              if truthy name
              then (Inr (Some (True, name, amd_table_loop AMD_VRAM_TABLE (the name) 0)), w')
              else (Inr None, w'))
           else (Inr None, w')))"

text \<open>\<^verbatim>\<open>_check_ollama_gpu\<close>: whether \<^verbatim>\<open>ollama ps\<close> mentions a GPU; it catches every exception.\<close>

definition check_ollama_gpu :: "env \<Rightarrow> world \<Rightarrow> (exn + bool) \<times> world" where
  "check_ollama_gpu e w =
     (case run e [''ollama'', ''ps''] True False w of
        (Inl x, w') \<Rightarrow> (if is_Exception x then (Inr False, w') else (Inl x, w'))
      | (Inr out, w') \<Rightarrow> (Inr (truthy out \<and> contains (upper (the out)) ''GPU''), w'))"

text \<open>
  \<^verbatim>\<open>cores = psutil.cpu_count(logical=False) or psutil.cpu_count()\<close>: \<open>None\<close> and 0 are
  false.
\<close>

definition cpu_cores :: "env \<Rightarrow> nat option" where
  "cpu_cores e =
     (case cpu_count_physical e of
        None \<Rightarrow> cpu_count_logical e
      | Some n \<Rightarrow> (if n = 0 then cpu_count_logical e else Some n))"

text \<open>
  The AMD part of \<^verbatim>\<open>step_hardware\<close>, run when no NVIDIA GPU was found: the WMI query on
  Windows, then \<^verbatim>\<open>rocm-smi\<close> if that found nothing, then the informational look at
  \<^verbatim>\<open>ollama ps\<close>.
\<close>

definition detect_amd :: "env \<Rightarrow> world \<Rightarrow> (exn + gpu) \<times> world" where
  "detect_amd e w =
     bind (if platform_system e = ''Windows'' then detect_amd_windows e w
           else (Inr (False, None, 0), w))
       (\<lambda>(found_win, name_win, vram_win) w1.
          bind (if \<not> found_win then detect_amd_rocm e w1
                else (Inr (found_win, name_win, vram_win), w1))
            (\<lambda>(found_amd, amd_name, amd_vram) w2.
               if found_amd then
                 bind (check_ollama_gpu e w2)
                   (\<lambda>using_gpu w3. (Inr (found_amd, amd_name, amd_vram), w3))
               else (Inr (found_amd, amd_name, amd_vram), w2)))"

text \<open>
  \<^verbatim>\<open>step_hardware\<close>. It starts with \<^verbatim>\<open>import psutil\<close>. The total memory is a 64-bit
  count of bytes, so its division by \<open>1024 ** 3\<close> does not overflow.
\<close>

definition step_hardware :: "env \<Rightarrow> world \<Rightarrow> (exn + hw) \<times> world" where
  "step_hardware e w =
     (if \<not> can_import e ''psutil'' (now w) then (Inl ImportError, emit (Import ''psutil'') w)
      else
        bind (detect_nvidia e (emit (Import ''psutil'') w))
          (\<lambda>(found_nv, nv_name, nv_vram) w1.
             bind (if found_nv then (Inr (True, ''nvidia'', nv_name, nv_vram), w1)
                   else bind (detect_amd e w1)
                          (\<lambda>(found_amd, amd_name, amd_vram) w2.
                             if found_amd then (Inr (True, ''amd'', amd_name, amd_vram), w2)
                             else (Inr (False, ''none'', None, 0), w2)))
               (\<lambda>(has_gpu, gpu_type, gpu_name, vram) w3.
                  (Inr \<lparr>hw_has_gpu = has_gpu, hw_gpu_type = gpu_type, hw_gpu_name = gpu_name,
                        hw_vram = vram,
                        hw_ram = real (virtual_memory_total e) / 1024 ^ 3,
                        hw_cores = cpu_cores e\<rparr>, w3))))"

text \<open>
  A command gave nothing to read: it was not found, timed out, could not be started, or
  printed only white space.
\<close>

fun no_output :: "proc \<Rightarrow> bool" where
  "no_output (Exited rc out) = (strip out = [])"
| "no_output p = True"

text \<open>Whether a line of the WMI output names an AMD adapter.\<close>

definition amd_name_line :: "string \<Rightarrow> bool" where
  "amd_name_line l \<longleftrightarrow>
     startswith (strip l) ''Name'' \<and> (contains (strip l) ''Radeon'' \<or> contains (strip l) ''AMD'')"

section \<open>The steps of the wizard\<close>

text \<open>
  A step takes the world and returns a value or an exception, and the world after it.
  Printing (\<^verbatim>\<open>ok\<close>, \<^verbatim>\<open>fail\<close>, \<^verbatim>\<open>warn\<close>, \<^verbatim>\<open>info\<close>, \<^verbatim>\<open>banner\<close>) is left out. What a started
  program does to the machine is not modelled beyond the trace entry of its start.
\<close>

subsection \<open>Files and directories\<close>

definition path_exists :: "world \<Rightarrow> string \<Rightarrow> bool" where
  "path_exists w p \<longleftrightarrow> fs w p \<noteq> None"

definition is_dir :: "world \<Rightarrow> string \<Rightarrow> bool" where
  "is_dir w p \<longleftrightarrow> fs w p = Some Dir"

text \<open>\<^verbatim>\<open>Path.mkdir(exist_ok=True)\<close>: \<^verbatim>\<open>FileExistsError\<close> when the path is a file.\<close>

definition mkdir_exist_ok :: "string \<Rightarrow> world \<Rightarrow> (exn + unit) \<times> world" where
  "mkdir_exist_ok p w =
     (case fs w p of
        Some Dir \<Rightarrow> (Inr (), w)
      | Some (File c) \<Rightarrow> (Inl FileExistsError, w)
      | None \<Rightarrow> (Inr (), emit (Mkdir p) (w\<lparr>fs := (fs w)(p \<mapsto> Dir)\<rparr>)))"

text \<open>\<^verbatim>\<open>Path.write_text\<close>; the wizard calls it only for a path that does not exist.\<close>

definition write_text :: "string \<Rightarrow> content \<Rightarrow> world \<Rightarrow> world" where
  "write_text p c w = emit (WriteText p) (w\<lparr>fs := (fs w)(p \<mapsto> File c)\<rparr>)"

definition REQUIREMENTS_FILE :: string where "REQUIREMENTS_FILE = ''Requirements.txt''"
definition COMPOSE_FILE :: string where "COMPOSE_FILE = ''docker-compose.searxng.yml''"
definition CONFIG_FILE :: string where "CONFIG_FILE = ''config.yaml''"
definition ENV_FILE :: string where "ENV_FILE = ''.env''"
definition SEARXNG_DIR :: string where "SEARXNG_DIR = ''searxng''"

subsection \<open>Questions\<close>

definition lower_char :: "char \<Rightarrow> char" where
  "lower_char c =
     (let n = (of_char c :: nat) in if 65 \<le> n \<and> n \<le> 90 then char_of (n + 32) else c)"

definition lower :: "string \<Rightarrow> string" where
  "lower s = map lower_char s"

text \<open>\<^verbatim>\<open>input(prompt)\<close>: the next line of the standard input, \<^verbatim>\<open>EOFError\<close> at its end.\<close>

definition input_line :: "world \<Rightarrow> (exn + string) \<times> world" where
  "input_line w =
     (case stdin w of
        [] \<Rightarrow> (Inl EOFError, emit ReadLine w)
      | l # ls \<Rightarrow> (Inr l, emit ReadLine (w\<lparr>stdin := ls\<rparr>)))"

text \<open>
  \<^verbatim>\<open>ask\<close> repeats its question until the answer is empty, y, yes, n or no. The loop runs
  over the lines that are left on the standard input.
\<close>

fun ask_loop :: "bool \<Rightarrow> string list \<Rightarrow> world \<Rightarrow> (exn + bool) \<times> world" where
  "ask_loop d [] w = (Inl EOFError, emit ReadLine (w\<lparr>stdin := []\<rparr>))"
| "ask_loop d (l # ls) w =
     (let answer = lower (strip l); w' = emit ReadLine (w\<lparr>stdin := ls\<rparr>) in
      if answer = [] then (Inr d, w')
      else if answer = ''y'' \<or> answer = ''yes'' then (Inr True, w')
      else if answer = ''n'' \<or> answer = ''no'' then (Inr False, w')
      else ask_loop d ls w')"

definition ask :: "bool \<Rightarrow> world \<Rightarrow> (exn + bool) \<times> world" where
  "ask d w = ask_loop d (stdin w) w"

subsection \<open>Step 1: Python and its packages\<close>

definition packages_checked :: "(string \<times> string) list" where
  "packages_checked =
    [(''pydantic'', ''pydantic''), (''requests'', ''requests''), (''fastapi'', ''fastapi''),
     (''tqdm'', ''tqdm''), (''PyYAML'', ''yaml''), (''beautifulsoup4'', ''bs4''),
     (''python-dotenv'', ''dotenv''), (''psutil'', ''psutil''), (''jinja2'', ''jinja2''),
     (''uvicorn'', ''uvicorn'')]"

definition packages_verified :: "(string \<times> string) list" where
  "packages_verified =
    [(''pydantic'', ''pydantic''), (''requests'', ''requests''), (''fastapi'', ''fastapi''),
     (''tqdm'', ''tqdm''), (''PyYAML'', ''yaml''), (''psutil'', ''psutil'')]"

text \<open>
  \<^verbatim>\<open>for pkg, module in [...]: try: __import__(module) except ImportError: missing.append(pkg)\<close>
\<close>

fun missing_packages :: "env \<Rightarrow> (string \<times> string) list \<Rightarrow> world \<Rightarrow> string list \<times> world" where
  "missing_packages e [] w = ([], w)"
| "missing_packages e ((pkg, modname) # rest) w =
     (case missing_packages e rest (emit (Import modname) w) of
        (missing, w') \<Rightarrow> (if can_import e modname (now w) then missing else pkg # missing, w'))"

definition pip_install :: "string list" where
  "pip_install = [''sys.executable'', ''-m'', ''pip'', ''install'', ''-r'', ''Requirements.txt'']"

definition step_python_deps :: "env \<Rightarrow> bool \<Rightarrow> world \<Rightarrow> (exn + bool) \<times> world" where
  "step_python_deps e check_only w =
     (if \<not> python_ok e then (Inr False, w)
      else
        (case missing_packages e packages_checked w of
           (missing, w1) \<Rightarrow>
             (if missing = [] then (Inr True, w1)
              else if check_only then (Inr False, w1)
              else if \<not> path_exists w1 REQUIREMENTS_FILE then (Inr False, w1)
              else
                bind (catch (\<lambda>x. x = CalledProcessError \<or> x = TimeoutExpired)
                        (bind (subprocess_run (exec e pip_install (now w1)) False True,
                               emit (Exec pip_install) w1)
                           (\<lambda>r w2. (Inr True, w2)))
                        (\<lambda>w2. (Inr False, w2)))
                  (\<lambda>installed w2.
                     if \<not> installed then (Inr False, w2)
                     else (case missing_packages e packages_verified w2 of
                             (still_missing, w3) \<Rightarrow> (Inr (still_missing = []), w3))))))"

subsection \<open>Step 2: Ollama\<close>

definition ollama_tags :: string where
  "ollama_tags = OLLAMA_URL @ ''/api/tags''"

definition ollama_serve :: "string list" where
  "ollama_serve = [''ollama'', ''serve'']"

text \<open>
  \<^verbatim>\<open>for i in range(12): time.sleep(5); resp = http_get(...); if resp: return True\<close>, with
  the number of rounds that are left as the argument.
\<close>

fun ollama_wait :: "env \<Rightarrow> nat \<Rightarrow> world \<Rightarrow> bool \<times> world" where
  "ollama_wait e 0 w = (False, w)"
| "ollama_wait e (Suc n) w =
     (case http_get e ollama_tags (emit (Sleep 5) w) of
        (resp, w') \<Rightarrow> (if truthy resp then (True, w') else ollama_wait e n w'))"

text \<open>
  \<^verbatim>\<open>subprocess.Popen(["ollama", "serve"], ...)\<close> in a \<^verbatim>\<open>try\<close> that catches every exception;
  the Windows branch and the other one differ in the flags of the call only.
\<close>

definition popen :: "env \<Rightarrow> string list \<Rightarrow> world \<Rightarrow> (exn + unit) \<times> world" where
  "popen e cmd w = (if popen_ok e cmd (now w) then Inr () else Inl OSError, emit (Popen cmd) w)"

definition step_ollama :: "env \<Rightarrow> bool \<Rightarrow> world \<Rightarrow> (exn + bool) \<times> world" where
  "step_ollama e check_only w =
     bind (catch is_Exception
             (bind (run e [''ollama'', ''--version''] True False w) (\<lambda>ver w1. (Inr (truthy ver), w1)))
             (\<lambda>w1. (Inr False, w1)))
       (\<lambda>cli_ok w1.
          if \<not> cli_ok then (Inr False, w1)
          else
            (case http_get e ollama_tags w1 of
               (resp, w2) \<Rightarrow>
                 (if truthy resp then (Inr True, w2)
                  else if check_only then (Inr False, w2)
                  else
                    bind (catch is_Exception
                            (bind (popen e ollama_serve w2) (\<lambda>u w3. (Inr True, w3)))
                            (\<lambda>w3. (Inr False, w3)))
                      (\<lambda>started w3.
                         if \<not> started then (Inr False, w3)
                         else (case ollama_wait e 12 w3 of (ready, w4) \<Rightarrow> (Inr ready, w4))))))"

text \<open>The Ollama command line tool is installed: \<^verbatim>\<open>ollama --version\<close> prints something.\<close>

definition cli_present :: "env \<Rightarrow> world \<Rightarrow> bool" where
  "cli_present e w \<longleftrightarrow>
     (\<exists>rc out. exec e [''ollama'', ''--version''] (now w) = Exited rc out \<and> strip out \<noteq> [])"

subsection \<open>Step 3: Docker and FFmpeg\<close>

definition winget_ffmpeg :: "string list" where
  "winget_ffmpeg = [''winget'', ''install'', ''--id'', ''Gyan.FFmpeg'',
     ''--accept-source-agreements'', ''--accept-package-agreements'']"

definition apt_ffmpeg :: "string list" where
  "apt_ffmpeg = [''sudo'', ''apt-get'', ''install'', ''-y'', ''ffmpeg'']"

definition brew_ffmpeg :: "string list" where
  "brew_ffmpeg = [''brew'', ''install'', ''ffmpeg'']"

text \<open>
  \<^verbatim>\<open>_check_ffmpeg\<close>: when \<^verbatim>\<open>ffmpeg -version\<close> prints nothing, it tries to install FFmpeg
  with the package manager of the platform. It has no \<open>check_only\<close> argument.
\<close>

definition check_ffmpeg :: "env \<Rightarrow> world \<Rightarrow> (exn + bool) \<times> world" where
  "check_ffmpeg e w =
     bind (catch is_Exception
             (bind (run e [''ffmpeg'', ''-version''] True False w) (\<lambda>ver w1. (Inr (truthy ver), w1)))
             (\<lambda>w1. (Inr False, w1)))
       (\<lambda>present w1.
          if present then (Inr True, w1)
          else if platform_system e = ''Windows'' then
            catch (\<lambda>x. x = FileNotFoundError \<or> x = TimeoutExpired)
              (bind (subprocess_run (exec e winget_ffmpeg (now w1)) False False,
                     emit (Exec winget_ffmpeg) w1)
                 (\<lambda>r w2. (Inr (fst r = 0), w2)))
              (\<lambda>w2. (Inr False, w2))
          else if platform_system e = ''Linux'' then
            catch is_Exception
              (bind (subprocess_run (exec e apt_ffmpeg (now w1)) False True,
                     emit (Exec apt_ffmpeg) w1)
                 (\<lambda>r w2. (Inr True, w2)))
              (\<lambda>w2. (Inr False, w2))
          else if platform_system e = ''Darwin'' then
            catch is_Exception
              (bind (subprocess_run (exec e brew_ffmpeg (now w1)) False True,
                     emit (Exec brew_ffmpeg) w1)
                 (\<lambda>r w2. (Inr True, w2)))
              (\<lambda>w2. (Inr False, w2))
          else (Inr False, w1))"

definition step_docker_and_ffmpeg :: "env \<Rightarrow> bool \<Rightarrow> world \<Rightarrow> (exn + bool) \<times> world" where
  "step_docker_and_ffmpeg e check_only w =
     bind (catch is_Exception
             (bind (run e [''docker'', ''--version''] True False w) (\<lambda>ver w1. (Inr (truthy ver), w1)))
             (\<lambda>w1. (Inr False, w1)))
       (\<lambda>docker_ok w1.
          if \<not> docker_ok then (Inr False, w1)
          else
            bind (catch is_Exception
                    (bind (run e [''docker'', ''compose'', ''version''] True False w1)
                       (\<lambda>ver w2. (Inr (truthy ver), w2)))
                    (\<lambda>w2. (Inr False, w2)))
              (\<lambda>compose_ok w2.
                 if \<not> compose_ok then (Inr False, w2)
                 else
                   bind (catch is_Exception
                           (bind (run e [''docker'', ''info''] True True w2) (\<lambda>out w3. (Inr True, w3)))
                           (\<lambda>w3. (Inr False, w3)))
                     (\<lambda>daemon_ok w3.
                        if \<not> daemon_ok then (Inr False, w3)
                        else bind (check_ffmpeg e w3) (\<lambda>ffmpeg w4. (Inr True, w4)))))"

subsection \<open>Step 5: the models\<close>

record models =
  m_extract :: string
  m_verify :: string
  m_write :: string

text \<open>
  \<^verbatim>\<open>_ollama_models\<close>: the set \<^verbatim>\<open>{m["name"] for m in data.get("models", [])}\<close>. Iterating a
  dict gives its keys, iterating a string its characters; subscripting anything but a
  dict with \<^verbatim>\<open>"name"\<close> is a \<^verbatim>\<open>TypeError\<close>, as is putting a list or a dict into a set.
\<close>

fun json_iter :: "json \<Rightarrow> exn + json list" where
  "json_iter (JArr xs) = Inr xs"
| "json_iter (JObj kvs) = Inr (map JStr (remdups (map fst kvs)))"
| "json_iter (JStr s) = Inr (map (\<lambda>c. JStr [c]) s)"
| "json_iter j = Inl TypeError"

fun model_name :: "json \<Rightarrow> exn + json" where
  "model_name (JObj kvs) =
     (case map_of (rev kvs) ''name'' of
        None \<Rightarrow> Inl KeyError
      | Some (JArr xs) \<Rightarrow> Inl TypeError
      | Some (JObj xs) \<Rightarrow> Inl TypeError
      | Some v \<Rightarrow> Inr v)"
| "model_name j = Inl TypeError"

fun model_names :: "json list \<Rightarrow> exn + json set" where
  "model_names [] = Inr {}"
| "model_names (m # ms) =
     (case model_name m of
        Inl x \<Rightarrow> Inl x
      | Inr n \<Rightarrow> (case model_names ms of Inl x \<Rightarrow> Inl x | Inr s \<Rightarrow> Inr (insert n s)))"

definition tags_models :: "env \<Rightarrow> string \<Rightarrow> exn + json set" where
  "tags_models e resp =
     (case json_loads e resp of
        None \<Rightarrow> Inl JSONDecodeError
      | Some data \<Rightarrow>
          (case json_get data ''models'' (JArr []) of
             Inl x \<Rightarrow> Inl x
           | Inr ms \<Rightarrow> (case json_iter ms of Inl x \<Rightarrow> Inl x | Inr xs \<Rightarrow> model_names xs)))"

definition ollama_models :: "env \<Rightarrow> world \<Rightarrow> (exn + json set) \<times> world" where
  "ollama_models e w =
     (case http_get e ollama_tags w of
        (resp, w1) \<Rightarrow>
          (if \<not> truthy resp then (Inr {}, w1)
           else catch (\<lambda>x. x = JSONDecodeError \<or> x = KeyError)
                  (tags_models e (the resp), w1) (\<lambda>w2. (Inr {}, w2))))"

text \<open>
  \<^verbatim>\<open>for model in needed: try: subprocess.run(["ollama", "pull", model], check=True)
  except subprocess.CalledProcessError: ...\<close>. The call has no timeout; a download that
  never ends is not modelled.
\<close>

fun pull_models :: "env \<Rightarrow> string list \<Rightarrow> world \<Rightarrow> (exn + unit) \<times> world" where
  "pull_models e [] w = (Inr (), w)"
| "pull_models e (model # rest) w =
     bind (catch (\<lambda>x. x = CalledProcessError)
             (bind (subprocess_run (exec e [''ollama'', ''pull'', model] (now w)) False True,
                    emit (Exec [''ollama'', ''pull'', model]) w)
                (\<lambda>r w1. (Inr (), w1)))
             (\<lambda>w1. (Inr (), w1)))
       (\<lambda>u w1. pull_models e rest w1)"

text \<open>\<^verbatim>\<open>input(...).strip() or current\<close>\<close>

definition input_or :: "string \<Rightarrow> world \<Rightarrow> (exn + string) \<times> world" where
  "input_or current w =
     bind (input_line w) (\<lambda>l w1. (Inr (if strip l = [] then current else strip l), w1))"

text \<open>
  \<^verbatim>\<open>step_models\<close>. The models are listed without repetition in the order extract, verify,
  write; the order in which Python iterates the set is not modelled.
\<close>

definition step_models :: "env \<Rightarrow> hw \<Rightarrow> bool \<Rightarrow> world \<Rightarrow> (exn + models) \<times> world" where
  "step_models e h check_only w =
     (let s = find_best_tier h in
      bind (if check_only then (Inr True, w) else ask True w)
        (\<lambda>accepted w1.
           bind (if \<not> check_only \<and> \<not> accepted then
                   bind (input_or (sel_extract s) w1) (\<lambda>extract w2.
                   bind (input_or (sel_verify s) w2) (\<lambda>verify w3.
                   bind (input_or (sel_write s) w3) (\<lambda>write w4.
                     (Inr \<lparr>m_extract = extract, m_verify = verify, m_write = write\<rparr>, w4))))
                 else (Inr \<lparr>m_extract = sel_extract s, m_verify = sel_verify s,
                            m_write = sel_write s\<rparr>, w1))
             (\<lambda>ms w2.
                bind (ollama_models e w2)
                  (\<lambda>available w3.
                     let unique = remdups [m_extract ms, m_verify ms, m_write ms];
                         needed = filter (\<lambda>m. JStr m \<notin> available) unique in
                     if needed = [] then (Inr ms, w3)
                     else if check_only then (Inr ms, w3)
                     else
                       bind (ask True w3)
                         (\<lambda>download w4.
                            if \<not> download then (Inr ms, w4)
                            else bind (pull_models e needed w4)
                                   (\<lambda>u w5. bind (ollama_models e w5)
                                      (\<lambda>available2 w6. (Inr ms, w6))))))))"

subsection \<open>Step 6: SearXNG\<close>

definition searxng_probe :: string where
  "searxng_probe = SEARXNG_URL @ ''/search?q=test&format=json''"

text \<open>\<^verbatim>\<open>_searxng_is_running\<close>: any response counts, an empty one too.\<close>

definition searxng_is_running :: "env \<Rightarrow> world \<Rightarrow> bool \<times> world" where
  "searxng_is_running e w = (case http_get e searxng_probe w of (resp, w') \<Rightarrow> (resp \<noteq> None, w'))"

definition create_searxng_config :: "env \<Rightarrow> world \<Rightarrow> (exn + unit) \<times> world" where
  "create_searxng_config e w =
     bind (mkdir_exist_ok SEARXNG_DIR w)
       (\<lambda>u w1.
          let w2 = (if \<not> path_exists w1 ''searxng/settings.yml''
                    then write_text ''searxng/settings.yml'' (SearxngSettings (token_hex e)) w1
                    else w1);
              w3 = (if \<not> path_exists w2 ''searxng/limiter.toml''
                    then write_text ''searxng/limiter.toml'' LimiterToml w2
                    else w2)
          in (Inr (), w3))"

definition compose_up :: "string list" where
  "compose_up = [''docker'', ''compose'', ''-f'', ''docker-compose.searxng.yml'', ''up'', ''-d'']"

definition compose_ps :: "string list" where
  "compose_ps = [''docker'', ''compose'', ''-f'', ''docker-compose.searxng.yml'', ''ps'']"

text \<open>
  \<^verbatim>\<open>for i in range(18): time.sleep(5); if _searxng_is_running(): return True\<close>
\<close>

fun searxng_wait :: "env \<Rightarrow> nat \<Rightarrow> world \<Rightarrow> bool \<times> world" where
  "searxng_wait e 0 w = (False, w)"
| "searxng_wait e (Suc n) w =
     (case searxng_is_running e (emit (Sleep 5) w) of
        (running, w') \<Rightarrow> (if running then (True, w') else searxng_wait e n w'))"

definition step_searxng :: "env \<Rightarrow> bool \<Rightarrow> world \<Rightarrow> (exn + bool) \<times> world" where
  "step_searxng e check_only w =
     (case searxng_is_running e w of
        (running, w1) \<Rightarrow>
          (if running then (Inr True, w1)
           else if check_only then (Inr False, w1)
           else if \<not> path_exists w1 COMPOSE_FILE then (Inr False, w1)
           else
             bind (create_searxng_config e w1)
               (\<lambda>u w2.
                  bind (catch (\<lambda>x. x = CalledProcessError \<or> x = TimeoutExpired)
                          (bind (run e compose_up False True w2) (\<lambda>out w3. (Inr True, w3)))
                          (\<lambda>w3. (Inr False, w3)))
                    (\<lambda>started w3.
                       if \<not> started then (Inr False, w3)
                       else
                         (case searxng_wait e 18 w3 of
                            (ready, w4) \<Rightarrow>
                              (if ready then (Inr True, w4)
                               else
                                 catch is_Exception
                                   (bind (run e compose_ps True False w4) (\<lambda>out w5. (Inr False, w5)))
                                   (\<lambda>w5. (Inr False, w5))))))))"

subsection \<open>Step 7: the configuration files\<close>

definition runtime_dirs :: "string list" where
  "runtime_dirs = [''cache'', ''runs'', ''store'', ''inbox'', ''logs'']"

text \<open>\<^verbatim>\<open>for d in dirs: (PROJECT_ROOT / d).mkdir(exist_ok=True)\<close>\<close>

fun make_dirs :: "string list \<Rightarrow> world \<Rightarrow> (exn + unit) \<times> world" where
  "make_dirs [] w = (Inr (), w)"
| "make_dirs (d # ds) w = bind (mkdir_exist_ok d w) (\<lambda>u w1. make_dirs ds w1)"

text \<open>
  \<^verbatim>\<open>step_config\<close>. The check of an existing \<^verbatim>\<open>config.yaml\<close> reads the file inside a \<^verbatim>\<open>try\<close>
  that catches every exception and only prints, so it is left out. The directories are
  made at the end of the function, after the parts that look at \<open>check_only\<close>.
\<close>

definition step_config :: "env \<Rightarrow> models \<Rightarrow> hw \<Rightarrow> bool \<Rightarrow> world \<Rightarrow> (exn + bool) \<times> world" where
  "step_config e ms h check_only w =
     (if \<not> path_exists w CONFIG_FILE \<and> check_only then (Inr False, w)
      else
        (let w1 = (if path_exists w CONFIG_FILE then w
                   else write_text CONFIG_FILE
                          (ConfigYaml OLLAMA_URL SEARXNG_URL (m_extract ms) (m_verify ms) (m_write ms)) w);
             w2 = (if path_exists w1 ENV_FILE then w1
                   else if check_only then w1
                   else write_text ENV_FILE
                          (DotEnv OLLAMA_URL SEARXNG_URL (m_extract ms) (m_verify ms) (m_write ms)
                             (hw_has_gpu h) (hw_gpu_type h) (hw_vram h) (hw_ram h)) w1)
         in bind (make_dirs runtime_dirs w2) (\<lambda>u w3. (Inr True, w3))))"

subsection \<open>Step 8: validation and smoke test\<close>

text \<open>
  \<^verbatim>\<open>for role, model in models.items(): if model in available: ... else: all_ok = False\<close>
\<close>

definition models_available :: "models \<Rightarrow> json set \<Rightarrow> bool" where
  "models_available ms available \<longleftrightarrow>
     JStr (m_extract ms) \<in> available \<and> JStr (m_verify ms) \<in> available \<and> JStr (m_write ms) \<in> available"

text \<open>The first half of \<^verbatim>\<open>step_validate_and_test\<close>: it computes \<open>all_ok\<close>.\<close>

definition service_checks :: "env \<Rightarrow> models \<Rightarrow> world \<Rightarrow> (exn + bool) \<times> world" where
  "service_checks e ms w =
     (case http_get e ollama_tags w of
        (resp, w1) \<Rightarrow>
          bind (if truthy resp
                then bind (ollama_models e w1) (\<lambda>available w2. (Inr (models_available ms available), w2))
                else (Inr False, w1))
            (\<lambda>ollama_ok w2.
               case searxng_is_running e w2 of
                 (running, w3) \<Rightarrow>
                   (Inr (ollama_ok \<and> running \<and> path_exists w3 CONFIG_FILE
                         \<and> (\<forall>d \<in> set runtime_dirs. is_dir w3 d)), w3)))"

text \<open>
  What the smoke test does with the body of the LLM's answer:
  \<^verbatim>\<open>data = json.loads(llm_resp); text = data.get("response", "").strip();
  duration = data.get("total_duration", 0) / 1e9\<close>, with \<^verbatim>\<open>JSONDecodeError\<close> caught and
  nothing else. Only a string has \<^verbatim>\<open>strip\<close>; an int, a float and a bool can be divided by
  a float, the int after its conversion to a float.
\<close>

definition llm_body :: "env \<Rightarrow> string \<Rightarrow> exn + unit" where
  "llm_body e body =
     (case json_loads e body of
        None \<Rightarrow> Inr ()
      | Some data \<Rightarrow>
          (case json_get data ''response'' (JStr []) of
             Inl x \<Rightarrow> Inl x
           | Inr (JStr s) \<Rightarrow>
               (case json_get data ''total_duration'' (JInt 0) of
                  Inl x \<Rightarrow> Inl x
                | Inr (JInt n) \<Rightarrow> (case int_as_float n of Inl x \<Rightarrow> Inl x | Inr d \<Rightarrow> Inr ())
                | Inr (JFloat d) \<Rightarrow> Inr ()
                | Inr (JBool b) \<Rightarrow> Inr ()
                | Inr j \<Rightarrow> Inl TypeError)
           | Inr j \<Rightarrow> Inl AttributeError))"

text \<open>
  And with the body of the search answer:
  \<^verbatim>\<open>data = json.loads(search_resp); n = len(data.get("results", []))\<close>, again with
  \<^verbatim>\<open>JSONDecodeError\<close> caught and nothing else. A list, a dict and a string have a length.
\<close>

definition search_body :: "env \<Rightarrow> string \<Rightarrow> exn + unit" where
  "search_body e body =
     (case json_loads e body of
        None \<Rightarrow> Inr ()
      | Some data \<Rightarrow>
          (case json_get data ''results'' (JArr []) of
             Inl x \<Rightarrow> Inl x
           | Inr (JArr xs) \<Rightarrow> Inr ()
           | Inr (JObj kvs) \<Rightarrow> Inr ()
           | Inr (JStr s) \<Rightarrow> Inr ()
           | Inr j \<Rightarrow> Inl TypeError))"

definition ollama_generate :: string where
  "ollama_generate = OLLAMA_URL @ ''/api/generate''"

definition searxng_query :: string where
  "searxng_query = SEARXNG_URL @ ''/search?q=python+programming&format=json''"

text \<open>The second half of \<^verbatim>\<open>step_validate_and_test\<close>: the smoke test, which computes \<open>smoke_ok\<close>.\<close>

definition smoke_test :: "env \<Rightarrow> models \<Rightarrow> world \<Rightarrow> (exn + bool) \<times> world" where
  "smoke_test e ms w =
     (case http_post_json e ollama_generate w of
        (llm_resp, w1) \<Rightarrow>
          bind (if truthy llm_resp then (llm_body e (the llm_resp), w1) else (Inr (), w1))
            (\<lambda>u w2.
               case http_get e searxng_query w2 of
                 (search_resp, w3) \<Rightarrow>
                   bind (if truthy search_resp then (search_body e (the search_resp), w3)
                         else (Inr (), w3))
                     (\<lambda>u w4.
                        case http_get e ''https://httpbin.org/get'' w4 of
                          (fetch_resp, w5) \<Rightarrow>
                            (let w6 = (if truthy fetch_resp then w5
                                       else snd (http_get e ''https://example.com'' w5))
                             in (Inr (truthy llm_resp \<and> truthy search_resp), w6)))))"

definition step_validate_and_test :: "env \<Rightarrow> models \<Rightarrow> bool \<Rightarrow> world \<Rightarrow> (exn + bool) \<times> world" where
  "step_validate_and_test e ms check_only w =
     bind (service_checks e ms w)
       (\<lambda>all_ok w1. if \<not> all_ok then (Inr False, w1) else smoke_test e ms w1)"

subsection \<open>The whole run\<close>

text \<open>
  \<^verbatim>\<open>main\<close>; \<^verbatim>\<open>sys.exit(n)\<close> raises \<^verbatim>\<open>SystemExit\<close>. \<^verbatim>\<open>os.chdir(PROJECT_ROOT)\<close> is the reason
  why all paths are taken relative to the project root.
\<close>

definition main :: "env \<Rightarrow> string list \<Rightarrow> world \<Rightarrow> (exn + unit) \<times> world" where
  "main e argv w =
     (let check_only = (''--check'' \<in> set argv) in
      bind (if check_only then (Inr True, w) else ask True w) (\<lambda>continue w0.
      if \<not> check_only \<and> \<not> continue then (Inl (SystemExit 0), w0) else
      bind (step_python_deps e check_only w0) (\<lambda>deps_ok w1.
      if \<not> deps_ok then (Inl (SystemExit 1), w1) else
      bind (step_ollama e check_only w1) (\<lambda>ollama_ok w2.
      if \<not> ollama_ok then (Inl (SystemExit 1), w2) else
      bind (step_docker_and_ffmpeg e check_only w2) (\<lambda>docker_ok w3.
      if \<not> docker_ok then (Inl (SystemExit 1), w3) else
      bind (step_hardware e w3) (\<lambda>h w4.
      bind (step_models e h check_only w4) (\<lambda>ms w5.
      bind (step_searxng e check_only w5) (\<lambda>searxng_ok w6.
      if \<not> searxng_ok \<and> check_only then (Inl (SystemExit 1), w6) else
      bind (step_config e ms h check_only w6) (\<lambda>config_ok w7.
      if \<not> config_ok \<and> check_only then (Inl (SystemExit 1), w7) else
      bind (step_validate_and_test e ms check_only w7) (\<lambda>success w8.
      if success then (Inr (), w8) else (Inl (SystemExit 1), w8)))))))))))"

text \<open>
  The script's last lines: \<^verbatim>\<open>SystemExit\<close> ends the process with its code, any other
  exception is reported and ends it with 1, a normal return with 0.
\<close>

definition script :: "env \<Rightarrow> string list \<Rightarrow> world \<Rightarrow> nat \<times> world" where
  "script e argv w =
     (case main e argv w of
        (Inr u, w') \<Rightarrow> (0, w')
      | (Inl (SystemExit c), w') \<Rightarrow> (c, w')
      | (Inl x, w') \<Rightarrow> (1, w'))"

text \<open>
  Between two worlds nothing changed in the file system but that some of the directories
  \<open>ds\<close>, absent before, exist now.
\<close>

definition only_dirs_added :: "string list \<Rightarrow> world \<Rightarrow> world \<Rightarrow> bool" where
  "only_dirs_added ds w w' \<longleftrightarrow>
     (\<forall>p. fs w' p = fs w p \<or> (p \<in> set ds \<and> fs w p = None \<and> fs w' p = Some Dir))"

section \<open>Example machines\<close>

text \<open>
  A machine on which no command is installed and no service answers, and a project
  directory with nothing in it. The closed examples below change them field by field.
\<close>

definition bare_env :: env where
  "bare_env =
     \<lparr>platform_system = ''Linux'', python_ok = True, can_import = (\<lambda>m t. True),
      exec = (\<lambda>cmd t. NotFound), popen_ok = (\<lambda>cmd t. False),
      get_resp = (\<lambda>url t. None), post_resp = (\<lambda>url t. None),
      json_loads = (\<lambda>s. None), py_float = (\<lambda>s. None), py_int = (\<lambda>s. None),
      virtual_memory_total = 8 * 1024 ^ 3, cpu_count_physical = Some 4,
      cpu_count_logical = Some 8, token_hex = ''00''\<rparr>"

definition empty_world :: world where
  "empty_world = \<lparr>fs = (\<lambda>p. None), stdin = [], trace = []\<rparr>"

text \<open>
  A machine on which everything the wizard asks for is installed and running: the Ollama
  command line tool and service with the model \<^verbatim>\<open>phi3:mini\<close>, Docker, FFmpeg, SearXNG, and
  a network. It has no GPU tool and 8 GB of RAM.
\<close>

definition tags_body :: string where
  \<open>tags_body = ''{"models": [{"name": "phi3:mini"}]}''\<close>

definition generate_body :: string where
  \<open>generate_body = ''{"response": "Hello", "total_duration": 1200000000}''\<close>

definition results_body :: string where
  \<open>results_body = ''{"results": []}''\<close>

text \<open>A body that is valid JSON and not an object: the empty array.\<close>

definition array_body :: string where
  "array_body = ''[]''"

definition ready_env :: env where
  "ready_env = bare_env
     \<lparr>exec := (\<lambda>cmd t.
         if cmd = [''ollama'', ''--version''] then Exited 0 ''ollama version is 0.5.7''
         else if cmd = [''docker'', ''--version''] then Exited 0 ''Docker version 27.0.3''
         else if cmd = [''docker'', ''compose'', ''version''] then Exited 0 ''Docker Compose version v2.28.1''
         else if cmd = [''docker'', ''info''] then Exited 0 ''Server Version: 27.0.3''
         else if cmd = [''ffmpeg'', ''-version''] then Exited 0 ''ffmpeg version 6.1''
         else NotFound),
      get_resp := (\<lambda>url t.
         if url = ollama_tags then Some tags_body
         else if url = searxng_probe \<or> url = searxng_query then Some results_body
         else if url = ''https://httpbin.org/get'' then Some ''{}''
         else None),
      post_resp := (\<lambda>url t. if url = ollama_generate then Some generate_body else None),
      json_loads := (\<lambda>s.
         if s = tags_body then Some (JObj [(''models'', JArr [JObj [(''name'', JStr ''phi3:mini'')]])])
         else if s = generate_body
           then Some (JObj [(''response'', JStr ''Hello''), (''total_duration'', JInt 1200000000)])
         else if s = results_body then Some (JObj [(''results'', JArr [])])
         else if s = ''{}'' then Some (JObj [])
         else if s = array_body then Some (JArr [])
         else None)\<rparr>"

text \<open>
  The same machine with an LLM that answers the generate request with the empty array, and
  the same machine with a search that answers the query of the smoke test with it.
\<close>

definition array_llm_env :: env where
  "array_llm_env =
     ready_env\<lparr>post_resp := (\<lambda>url t. if url = ollama_generate then Some array_body else None)\<rparr>"

definition array_search_env :: env where
  "array_search_env =
     ready_env\<lparr>get_resp := (\<lambda>url t.
        if url = searxng_query then Some array_body else get_resp ready_env url t)\<rparr>"

definition phi3_models :: models where
  "phi3_models = \<lparr>m_extract = ''phi3:mini'', m_verify = ''phi3:mini'', m_write = ''phi3:mini''\<rparr>"

text \<open>A project directory that holds a \<^verbatim>\<open>config.yaml\<close> and nothing else.\<close>

definition configured_world :: world where
  "configured_world =
     empty_world\<lparr>fs := (\<lambda>p. if p = CONFIG_FILE then Some (File (Text ''ollama: searx:'')) else None)\<rparr>"

text \<open>A project directory that holds a \<^verbatim>\<open>config.yaml\<close> and the five runtime directories.\<close>

definition installed_world :: world where
  "installed_world =
     empty_world\<lparr>fs := (\<lambda>p. if p = CONFIG_FILE then Some (File (Text ''ollama: searx:''))
                            else if p \<in> set runtime_dirs then Some Dir else None)\<rparr>"

section \<open>Properties of tier resolution\<close>

subsection \<open>The loop in general\<close>

lemma tier_loop_no_match:
  "\<forall>t \<in> set ts. \<not> tier_matches v r t \<Longrightarrow> tier_loop v r ts acc = acc"
  by (induction ts) auto

lemma tier_loop_first_match:
  "ts = pre @ t # post \<Longrightarrow> \<forall>u \<in> set pre. \<not> tier_matches v r u \<Longrightarrow> tier_matches v r t \<Longrightarrow>
   tier_loop v r ts default_selection = selection_of_tier t"
  by (induction pre arbitrary: ts) (auto simp: selection_of_tier_def default_selection_def)

lemma tier_loop_cases:
  "(\<exists>pre t post. ts = pre @ t # post \<and> (\<forall>u \<in> set pre. \<not> tier_matches v r u) \<and> tier_matches v r t)
   \<or> (\<forall>t \<in> set ts. \<not> tier_matches v r t)"
proof (induction ts)
  case Nil
  then show ?case by simp
next
  case (Cons a ts)
  show ?case
  proof (cases "tier_matches v r a")
    case True
    then have "a # ts = [] @ a # ts \<and> (\<forall>u \<in> set []. \<not> tier_matches v r u) \<and> tier_matches v r a"
      by simp
    then show ?thesis by blast
  next
    case False
    from Cons.IH show ?thesis
    proof
      assume "\<exists>pre t post. ts = pre @ t # post \<and> (\<forall>u \<in> set pre. \<not> tier_matches v r u) \<and> tier_matches v r t"
      then obtain pre t post where
        "ts = pre @ t # post" "\<forall>u \<in> set pre. \<not> tier_matches v r u" "tier_matches v r t"
        by blast
      with False have "a # ts = (a # pre) @ t # post \<and>
          (\<forall>u \<in> set (a # pre). \<not> tier_matches v r u) \<and> tier_matches v r t"
        by simp
      then show ?thesis by blast
    next
      assume "\<forall>t \<in> set ts. \<not> tier_matches v r t"
      with False show ?thesis by simp
    qed
  qed
qed

lemma first_match_mono:
  "v \<le> v' \<Longrightarrow> r \<le> r' \<Longrightarrow> first_match v' r' ts \<le> first_match v r ts"
  by (induction ts) (auto simp: tier_matches_def)

lemma tier_loop_name:
  "sel_tier_name (tier_loop v r ts acc) =
     (case find (tier_matches v r) ts of None \<Rightarrow> sel_tier_name acc | Some t \<Rightarrow> tier_label t)"
  by (induction ts) auto

lemma label_position_nth:
  "distinct (map tier_label ts) \<Longrightarrow> i < length ts \<Longrightarrow> label_position (tier_label (ts ! i)) ts = i"
proof (induction ts arbitrary: i)
  case Nil
  then show ?case by simp
next
  case (Cons t ts)
  show ?case
  proof (cases i)
    case 0
    then show ?thesis by simp
  next
    case (Suc j)
    with Cons.prems have j: "j < length ts" by simp
    then have "ts ! j \<in> set ts" by simp
    then have "tier_label (ts ! j) \<in> tier_label ` set ts" by (rule imageI)
    with Cons.prems(1) have "tier_label t \<noteq> tier_label (ts ! j)" by auto
    moreover from Cons.prems(1) j have "label_position (tier_label (ts ! j)) ts = j"
      by (intro Cons.IH) auto
    ultimately show ?thesis using Suc by simp
  qed
qed

lemma label_position_absent:
  "l \<notin> tier_label ` set ts \<Longrightarrow> label_position l ts = length ts"
  by (induction ts) auto

lemma label_position_first_match:
  "distinct (map tier_label ts) \<Longrightarrow> sel_tier_name acc \<notin> tier_label ` set ts \<Longrightarrow>
   label_position (sel_tier_name (tier_loop v r ts acc)) ts = first_match v r ts"
proof (induction ts)
  case Nil
  then show ?case by simp
next
  case (Cons t ts)
  show ?case
  proof (cases "tier_matches v r t")
    case True
    then show ?thesis by simp
  next
    case False
    have neq: "sel_tier_name (tier_loop v r ts acc) \<noteq> tier_label t"
    proof (cases "find (tier_matches v r) ts")
      case None
      with Cons.prems(2) show ?thesis by (simp add: tier_loop_name)
    next
      case (Some u)
      then have "u \<in> set ts" by (auto simp: find_Some_iff)
      then have "tier_label u \<in> tier_label ` set ts" by (rule imageI)
      with Cons.prems(1) have "tier_label u \<noteq> tier_label t" by auto
      with Some show ?thesis by (simp add: tier_loop_name)
    qed
    from Cons.prems have "label_position (sel_tier_name (tier_loop v r ts acc)) ts = first_match v r ts"
      by (intro Cons.IH) auto
    with False neq show ?thesis by auto
  qed
qed

subsection \<open>The catalog of the source\<close>

lemma catalog_match_iff:
  "(\<exists>t \<in> set MODEL_TIERS. tier_matches v r t) \<longleftrightarrow> (0 \<le> v \<and> 16 \<le> r)"
  by (auto simp: MODEL_TIERS_def mk_tier_def tier_matches_def)

lemma catalog_last:
  "tier_min_vram (last MODEL_TIERS) = 0 \<and> tier_min_ram (last MODEL_TIERS) = 16"
  by (simp add: MODEL_TIERS_def mk_tier_def)

lemma catalog_labels_distinct: "distinct (map tier_label MODEL_TIERS)"
  by (simp add: MODEL_TIERS_def mk_tier_def)

lemma default_label_fresh: "sel_tier_name default_selection \<notin> tier_label ` set MODEL_TIERS"
  by (simp add: MODEL_TIERS_def mk_tier_def default_selection_def)

lemma default_not_in_catalog: "default_selection \<notin> set (map selection_of_tier MODEL_TIERS)"
  by (simp add: MODEL_TIERS_def mk_tier_def default_selection_def selection_of_tier_def)

lemma find_best_tier_no_match:
  "\<not> (\<exists>t \<in> set MODEL_TIERS. tier_matches (hw_vram h) (hw_ram h) t) \<Longrightarrow>
   find_best_tier h = default_selection"
  unfolding find_best_tier_def by (rule tier_loop_no_match) blast

lemma find_best_tier_in_catalog:
  assumes "\<exists>t \<in> set MODEL_TIERS. tier_matches (hw_vram h) (hw_ram h) t"
  shows "find_best_tier h \<in> set (map selection_of_tier MODEL_TIERS)"
proof -
  from tier_loop_cases[of MODEL_TIERS "hw_vram h" "hw_ram h"] assms
  obtain pre t post where d: "MODEL_TIERS = pre @ t # post"
    and "\<forall>u \<in> set pre. \<not> tier_matches (hw_vram h) (hw_ram h) u"
    and "tier_matches (hw_vram h) (hw_ram h) t"
    by blast
  then have "find_best_tier h = selection_of_tier t"
    unfolding find_best_tier_def by (rule tier_loop_first_match)
  moreover from d have "t \<in> set MODEL_TIERS" by (metis in_set_conv_decomp)
  ultimately show ?thesis by simp
qed

lemma rank_first_match:
  "capability_rank (find_best_tier h) = first_match (hw_vram h) (hw_ram h) MODEL_TIERS"
  unfolding capability_rank_def find_best_tier_def
  by (rule label_position_first_match[OF catalog_labels_distinct default_label_fresh])

lemma find_best_tier_24_32:
  "hw_vram h = 24 \<Longrightarrow> hw_ram h = 32 \<Longrightarrow> find_best_tier h = selection_of_tier (hd MODEL_TIERS)"
  by (simp add: find_best_tier_def MODEL_TIERS_def mk_tier_def tier_matches_def
      selection_of_tier_def default_selection_def)

text \<open>
  C1, as the code has it. For every snapshot with \<open>vram \<ge> 0\<close> and \<open>ram \<ge> 0\<close> the loop
  returns: a selection taken from a catalog entry when \<open>ram \<ge> 16\<close>, and the preset
  selection (tier name "Minimum", all three models \<^verbatim>\<open>phi3:mini\<close>) when \<open>ram < 16\<close>. The
  catalog's final entry has \<open>min_vram = 0\<close> and \<open>min_ram = 16\<close>: it matches every such
  snapshot with \<open>ram \<ge> 16\<close>, and no other.
\<close>

theorem find_best_tier_total:
  assumes "0 \<le> hw_vram h" and "0 \<le> hw_ram h"
  shows "(16 \<le> hw_ram h \<longrightarrow> find_best_tier h \<in> set (map selection_of_tier MODEL_TIERS))
       \<and> (hw_ram h < 16 \<longrightarrow> find_best_tier h = default_selection)
       \<and> tier_min_vram (last MODEL_TIERS) = 0 \<and> tier_min_ram (last MODEL_TIERS) = 16
       \<and> (tier_matches (hw_vram h) (hw_ram h) (last MODEL_TIERS) \<longleftrightarrow> 16 \<le> hw_ram h)"
proof -
  have a: "16 \<le> hw_ram h \<longrightarrow> find_best_tier h \<in> set (map selection_of_tier MODEL_TIERS)"
  proof
    assume "16 \<le> hw_ram h"
    with assms(1) have "\<exists>t \<in> set MODEL_TIERS. tier_matches (hw_vram h) (hw_ram h) t"
      by (simp only: catalog_match_iff)
    then show "find_best_tier h \<in> set (map selection_of_tier MODEL_TIERS)"
      by (rule find_best_tier_in_catalog)
  qed
  have b: "hw_ram h < 16 \<longrightarrow> find_best_tier h = default_selection"
  proof
    assume "hw_ram h < 16"
    then have "\<not> (\<exists>t \<in> set MODEL_TIERS. tier_matches (hw_vram h) (hw_ram h) t)"
      by (simp only: catalog_match_iff) simp
    then show "find_best_tier h = default_selection"
      by (rule find_best_tier_no_match)
  qed
  have c: "tier_matches (hw_vram h) (hw_ram h) (last MODEL_TIERS) \<longleftrightarrow> 16 \<le> hw_ram h"
    using assms(1) by (simp add: tier_matches_def catalog_last)
  from a b c catalog_last show ?thesis by blast
qed

theorem find_best_tier_total_witness:
  "find_best_tier \<lparr>hw_has_gpu = False, hw_gpu_type = ''none'', hw_gpu_name = None,
      hw_vram = 0, hw_ram = 20, hw_cores = Some 4\<rparr> \<in> set (map selection_of_tier MODEL_TIERS)
   \<and> find_best_tier \<lparr>hw_has_gpu = False, hw_gpu_type = ''none'', hw_gpu_name = None,
      hw_vram = 0, hw_ram = 12, hw_cores = Some 4\<rparr> = default_selection"
  using find_best_tier_total[of "\<lparr>hw_has_gpu = False, hw_gpu_type = ''none'', hw_gpu_name = None,
      hw_vram = 0, hw_ram = 20, hw_cores = Some 4\<rparr>"]
    find_best_tier_total[of "\<lparr>hw_has_gpu = False, hw_gpu_type = ''none'', hw_gpu_name = None,
      hw_vram = 0, hw_ram = 12, hw_cores = Some 4\<rparr>"]
  by simp

text \<open>
  C1 as stated fails: the snapshot with \<open>vram = 0\<close> and \<open>ram = 8\<close> meets the input
  constraint, the selection returned for it is not one of the catalog, and the final
  entry of the catalog asks for 16 GB of RAM, not 0.
\<close>

theorem find_best_tier_total_counterexample:
  "0 \<le> hw_vram \<lparr>hw_has_gpu = False, hw_gpu_type = ''none'', hw_gpu_name = None,
      hw_vram = 0, hw_ram = 8, hw_cores = Some 4\<rparr>
   \<and> 0 \<le> hw_ram \<lparr>hw_has_gpu = False, hw_gpu_type = ''none'', hw_gpu_name = None,
      hw_vram = 0, hw_ram = 8, hw_cores = Some 4\<rparr>
   \<and> find_best_tier \<lparr>hw_has_gpu = False, hw_gpu_type = ''none'', hw_gpu_name = None,
      hw_vram = 0, hw_ram = 8, hw_cores = Some 4\<rparr> \<notin> set (map selection_of_tier MODEL_TIERS)
   \<and> tier_min_ram (last MODEL_TIERS) \<noteq> 0"
proof -
  have "find_best_tier \<lparr>hw_has_gpu = False, hw_gpu_type = ''none'', hw_gpu_name = None,
      hw_vram = 0, hw_ram = 8, hw_cores = Some 4\<rparr> = default_selection"
    by (rule find_best_tier_no_match) (simp add: catalog_match_iff)
  then show ?thesis
    by (simp only: default_not_in_catalog catalog_last) simp
qed

text \<open>
  C3, as the code has it. The loop is a first-match scan: if the catalog splits into
  entries that do not match, then one that does, then the rest, the selection of that entry
  is returned; if no entry matches, the preset selection is returned; one of the two is
  always the case. The snapshot \<open>(24, 32)\<close> gets the first entry of the catalog; the
  snapshot \<open>(0, 8)\<close> is matched by no entry and gets the preset selection.
\<close>

theorem find_best_tier_first_match:
  "(\<forall>pre t post. MODEL_TIERS = pre @ t # post
        \<and> (\<forall>u \<in> set pre. \<not> tier_matches (hw_vram h) (hw_ram h) u)
        \<and> tier_matches (hw_vram h) (hw_ram h) t
      \<longrightarrow> find_best_tier h = selection_of_tier t)
   \<and> ((\<forall>t \<in> set MODEL_TIERS. \<not> tier_matches (hw_vram h) (hw_ram h) t)
      \<longrightarrow> find_best_tier h = default_selection)
   \<and> ((\<exists>pre t post. MODEL_TIERS = pre @ t # post
        \<and> (\<forall>u \<in> set pre. \<not> tier_matches (hw_vram h) (hw_ram h) u)
        \<and> tier_matches (hw_vram h) (hw_ram h) t)
      \<or> (\<forall>t \<in> set MODEL_TIERS. \<not> tier_matches (hw_vram h) (hw_ram h) t))
   \<and> (hw_vram h = 24 \<and> hw_ram h = 32 \<longrightarrow> find_best_tier h = selection_of_tier (hd MODEL_TIERS))
   \<and> (hw_vram h = 0 \<and> hw_ram h = 8 \<longrightarrow> find_best_tier h = default_selection)"
proof -
  have a: "\<forall>pre t post. MODEL_TIERS = pre @ t # post
        \<and> (\<forall>u \<in> set pre. \<not> tier_matches (hw_vram h) (hw_ram h) u)
        \<and> tier_matches (hw_vram h) (hw_ram h) t
      \<longrightarrow> find_best_tier h = selection_of_tier t"
    unfolding find_best_tier_def using tier_loop_first_match by blast
  have b: "(\<forall>t \<in> set MODEL_TIERS. \<not> tier_matches (hw_vram h) (hw_ram h) t)
      \<longrightarrow> find_best_tier h = default_selection"
    using find_best_tier_no_match by blast
  have c: "hw_vram h = 24 \<and> hw_ram h = 32 \<longrightarrow> find_best_tier h = selection_of_tier (hd MODEL_TIERS)"
    using find_best_tier_24_32 by blast
  have d: "hw_vram h = 0 \<and> hw_ram h = 8 \<longrightarrow> find_best_tier h = default_selection"
  proof
    assume "hw_vram h = 0 \<and> hw_ram h = 8"
    then have "\<not> (\<exists>t \<in> set MODEL_TIERS. tier_matches (hw_vram h) (hw_ram h) t)"
      by (simp only: catalog_match_iff) simp
    then show "find_best_tier h = default_selection"
      by (rule find_best_tier_no_match)
  qed
  from a b c d tier_loop_cases[of MODEL_TIERS "hw_vram h" "hw_ram h"] show ?thesis
    by blast
qed

theorem find_best_tier_first_match_witness:
  "find_best_tier \<lparr>hw_has_gpu = True, hw_gpu_type = ''nvidia'', hw_gpu_name = Some ''RTX'',
      hw_vram = 24, hw_ram = 32, hw_cores = Some 8\<rparr> = selection_of_tier (hd MODEL_TIERS)
   \<and> find_best_tier \<lparr>hw_has_gpu = True, hw_gpu_type = ''nvidia'', hw_gpu_name = Some ''RTX'',
      hw_vram = 16, hw_ram = 48, hw_cores = Some 8\<rparr> = selection_of_tier (MODEL_TIERS ! 1)
   \<and> find_best_tier \<lparr>hw_has_gpu = False, hw_gpu_type = ''none'', hw_gpu_name = None,
      hw_vram = 0, hw_ram = 8, hw_cores = Some 8\<rparr> = default_selection"
proof -
  let ?a = "\<lparr>hw_has_gpu = True, hw_gpu_type = ''nvidia'', hw_gpu_name = Some ''RTX'',
      hw_vram = 24, hw_ram = 32, hw_cores = Some 8\<rparr>"
  let ?b = "\<lparr>hw_has_gpu = True, hw_gpu_type = ''nvidia'', hw_gpu_name = Some ''RTX'',
      hw_vram = 16, hw_ram = 48, hw_cores = Some 8\<rparr>"
  let ?c = "\<lparr>hw_has_gpu = False, hw_gpu_type = ''none'', hw_gpu_name = None,
      hw_vram = 0, hw_ram = 8, hw_cores = Some 8\<rparr>"
  have split: "MODEL_TIERS = [hd MODEL_TIERS] @ (MODEL_TIERS ! 1) # drop 2 MODEL_TIERS"
    by (simp add: MODEL_TIERS_def)
  have pre: "\<forall>u \<in> set [hd MODEL_TIERS]. \<not> tier_matches (hw_vram ?b) (hw_ram ?b) u"
    by (simp add: MODEL_TIERS_def mk_tier_def tier_matches_def)
  have hit: "tier_matches (hw_vram ?b) (hw_ram ?b) (MODEL_TIERS ! 1)"
    by (simp add: MODEL_TIERS_def mk_tier_def tier_matches_def)
  have "find_best_tier ?a = selection_of_tier (hd MODEL_TIERS)"
    using find_best_tier_first_match[of ?a] by simp
  moreover have "find_best_tier ?b = selection_of_tier (MODEL_TIERS ! 1)"
    using find_best_tier_first_match[of ?b] split pre hit by blast
  moreover have "find_best_tier ?c = default_selection"
    using find_best_tier_first_match[of ?c] by simp
  ultimately show ?thesis by blast
qed

text \<open>
  C3 as stated fails at the snapshot \<open>(0, 8)\<close>: no entry of the catalog has both
  thresholds met, so the selection returned is not the first such entry, and it differs
  from the selection of the catalog's final entry (the tier name is "Minimum", the final
  entry's label is "Minimum (16 GB RAM)").
\<close>

theorem find_best_tier_first_match_counterexample:
  "\<not> (\<exists>t \<in> set MODEL_TIERS. tier_matches 0 8 t)
   \<and> find_best_tier \<lparr>hw_has_gpu = False, hw_gpu_type = ''none'', hw_gpu_name = None,
      hw_vram = 0, hw_ram = 8, hw_cores = Some 8\<rparr> \<noteq> selection_of_tier (last MODEL_TIERS)
   \<and> sel_tier_name (find_best_tier \<lparr>hw_has_gpu = False, hw_gpu_type = ''none'',
      hw_gpu_name = None, hw_vram = 0, hw_ram = 8, hw_cores = Some 8\<rparr>) = ''Minimum''
   \<and> tier_label (last MODEL_TIERS) = ''Minimum (16 GB RAM)''"
proof -
  have "find_best_tier \<lparr>hw_has_gpu = False, hw_gpu_type = ''none'', hw_gpu_name = None,
      hw_vram = 0, hw_ram = 8, hw_cores = Some 8\<rparr> = default_selection"
    by (rule find_best_tier_no_match) (simp add: catalog_match_iff)
  moreover have "default_selection \<noteq> selection_of_tier (last MODEL_TIERS)"
    by (simp add: MODEL_TIERS_def mk_tier_def default_selection_def selection_of_tier_def)
  moreover have "sel_tier_name default_selection = ''Minimum''"
    by (simp add: default_selection_def)
  moreover have "tier_label (last MODEL_TIERS) = ''Minimum (16 GB RAM)''"
    by (simp add: MODEL_TIERS_def mk_tier_def)
  ultimately show ?thesis by (simp add: catalog_match_iff)
qed

text \<open>
  C4. Two snapshots that agree on one resource while the other is larger in the second:
  the selection for the second has a capability rank at least as high as the selection
  for the first, that is, its position in the catalog is not later. The rank of the
  selection taken from the \<open>i\<close>-th entry is \<open>i\<close>, and the preset selection ranks below
  all entries.
\<close>

theorem find_best_tier_monotone:
  assumes "(hw_vram b = hw_vram a \<and> hw_ram a < hw_ram b)
         \<or> (hw_ram b = hw_ram a \<and> hw_vram a < hw_vram b)"
  shows "capability_rank (find_best_tier b) \<le> capability_rank (find_best_tier a)
       \<and> (\<forall>i < length MODEL_TIERS. capability_rank (selection_of_tier (MODEL_TIERS ! i)) = i)
       \<and> capability_rank default_selection = length MODEL_TIERS"
proof -
  from assms have "hw_vram a \<le> hw_vram b" and "hw_ram a \<le> hw_ram b" by auto
  then have "capability_rank (find_best_tier b) \<le> capability_rank (find_best_tier a)"
    by (simp add: rank_first_match first_match_mono)
  moreover have "\<forall>i < length MODEL_TIERS. capability_rank (selection_of_tier (MODEL_TIERS ! i)) = i"
    by (simp add: capability_rank_def selection_of_tier_def
        label_position_nth[OF catalog_labels_distinct])
  moreover have "capability_rank default_selection = length MODEL_TIERS"
    unfolding capability_rank_def by (rule label_position_absent[OF default_label_fresh])
  ultimately show ?thesis by blast
qed

theorem find_best_tier_monotone_witness:
  "capability_rank (find_best_tier \<lparr>hw_has_gpu = True, hw_gpu_type = ''amd'',
       hw_gpu_name = Some ''RX'', hw_vram = 16, hw_ram = 32, hw_cores = Some 8\<rparr>)
   \<le> capability_rank (find_best_tier \<lparr>hw_has_gpu = True, hw_gpu_type = ''amd'',
       hw_gpu_name = Some ''RX'', hw_vram = 12, hw_ram = 32, hw_cores = Some 8\<rparr>)
   \<and> capability_rank (find_best_tier \<lparr>hw_has_gpu = True, hw_gpu_type = ''amd'',
       hw_gpu_name = Some ''RX'', hw_vram = 12, hw_ram = 32, hw_cores = Some 8\<rparr>)
   \<le> capability_rank (find_best_tier \<lparr>hw_has_gpu = True, hw_gpu_type = ''amd'',
       hw_gpu_name = Some ''RX'', hw_vram = 12, hw_ram = 8, hw_cores = Some 8\<rparr>)"
  using find_best_tier_monotone[of
      "\<lparr>hw_has_gpu = True, hw_gpu_type = ''amd'', hw_gpu_name = Some ''RX'',
        hw_vram = 16, hw_ram = 32, hw_cores = Some 8\<rparr>"
      "\<lparr>hw_has_gpu = True, hw_gpu_type = ''amd'', hw_gpu_name = Some ''RX'',
        hw_vram = 12, hw_ram = 32, hw_cores = Some 8\<rparr>"]
    find_best_tier_monotone[of
      "\<lparr>hw_has_gpu = True, hw_gpu_type = ''amd'', hw_gpu_name = Some ''RX'',
        hw_vram = 12, hw_ram = 32, hw_cores = Some 8\<rparr>"
      "\<lparr>hw_has_gpu = True, hw_gpu_type = ''amd'', hw_gpu_name = Some ''RX'',
        hw_vram = 12, hw_ram = 8, hw_cores = Some 8\<rparr>"]
  by simp

text \<open>
  C10. For every snapshot with \<open>ram < 16\<close>: no entry of the catalog matches, every entry
  asks for at least 16 GB of RAM, and the loop leaves the preset values in place:
  \<^verbatim>\<open>phi3:mini\<close> for extract, verify and write, and the tier name "Minimum". That selection
  is not the selection of any catalog entry, and "Minimum" is no label of the catalog.
\<close>

theorem find_best_tier_low_ram:
  assumes "hw_ram h < 16"
  shows "(\<forall>t \<in> set MODEL_TIERS. \<not> tier_matches (hw_vram h) (hw_ram h) t)
       \<and> (\<forall>t \<in> set MODEL_TIERS. 16 \<le> tier_min_ram t)
       \<and> sel_extract (find_best_tier h) = ''phi3:mini''
       \<and> sel_verify (find_best_tier h) = ''phi3:mini''
       \<and> sel_write (find_best_tier h) = ''phi3:mini''
       \<and> sel_tier_name (find_best_tier h) = ''Minimum''
       \<and> find_best_tier h \<notin> set (map selection_of_tier MODEL_TIERS)
       \<and> ''Minimum'' \<notin> set (map tier_label MODEL_TIERS)"
proof -
  from assms have none: "\<not> (\<exists>t \<in> set MODEL_TIERS. tier_matches (hw_vram h) (hw_ram h) t)"
    by (simp only: catalog_match_iff) simp
  then have d: "find_best_tier h = default_selection"
    by (rule find_best_tier_no_match)
  have floor: "\<forall>t \<in> set MODEL_TIERS. 16 \<le> tier_min_ram t"
    by (simp add: MODEL_TIERS_def mk_tier_def)
  have fresh: "''Minimum'' \<notin> set (map tier_label MODEL_TIERS)"
    by (simp add: MODEL_TIERS_def mk_tier_def)
  have vals: "sel_extract default_selection = ''phi3:mini'' \<and> sel_verify default_selection = ''phi3:mini''
      \<and> sel_write default_selection = ''phi3:mini'' \<and> sel_tier_name default_selection = ''Minimum''"
    by (simp add: default_selection_def)
  from none floor fresh vals default_not_in_catalog show ?thesis
    unfolding d by blast
qed

theorem find_best_tier_low_ram_witness:
  "find_best_tier \<lparr>hw_has_gpu = True, hw_gpu_type = ''nvidia'', hw_gpu_name = Some ''RTX 4090'',
      hw_vram = 24, hw_ram = 8, hw_cores = Some 8\<rparr> \<notin> set (map selection_of_tier MODEL_TIERS)
   \<and> sel_tier_name (find_best_tier \<lparr>hw_has_gpu = True, hw_gpu_type = ''nvidia'',
      hw_gpu_name = Some ''RTX 4090'', hw_vram = 24, hw_ram = 8, hw_cores = Some 8\<rparr>) = ''Minimum''
   \<and> sel_verify (find_best_tier \<lparr>hw_has_gpu = True, hw_gpu_type = ''nvidia'',
      hw_gpu_name = Some ''RTX 4090'', hw_vram = 24, hw_ram = 8, hw_cores = Some 8\<rparr>) = ''phi3:mini''"
  using find_best_tier_low_ram[of "\<lparr>hw_has_gpu = True, hw_gpu_type = ''nvidia'',
      hw_gpu_name = Some ''RTX 4090'', hw_vram = 24, hw_ram = 8, hw_cores = Some 8\<rparr>"]
  by simp

section \<open>Basic facts about the world and sequencing\<close>

lemma emit_fs [simp]: "fs (emit ev w) = fs w"
  by (simp add: emit_def)

lemma emit_stdin [simp]: "stdin (emit ev w) = stdin w"
  by (simp add: emit_def)

lemma emit_trace [simp]: "trace (emit ev w) = trace w @ [ev]"
  by (simp add: emit_def)

lemma path_exists_emit [simp]: "path_exists (emit ev w) p = path_exists w p"
  by (simp add: path_exists_def)

lemma bind_Inr [simp]: "bind (Inr a, w) f = f a w"
  by (simp add: bind_def)

lemma bind_Inl [simp]: "bind (Inl x, w) f = (Inl x, w)"
  by (simp add: bind_def)

lemma catch_Inr [simp]: "catch h (Inr a, w) f = (Inr a, w)"
  by (simp add: catch_def)

section \<open>Properties of hardware detection\<close>

subsection \<open>Strings and exceptions\<close>

lemma startswith_iff: "startswith s p \<longleftrightarrow> (\<exists>b. s = p @ b)"
  unfolding startswith_def
  by (metis append_eq_conv_conj append_take_drop_id)

lemma contains_iff: "contains s p \<longleftrightarrow> (\<exists>a b. s = a @ p @ b)"
proof (induction s)
  case Nil
  then show ?case by auto
next
  case (Cons c cs)
  show ?case
  proof
    assume "contains (c # cs) p"
    then consider "startswith (c # cs) p" | "contains cs p" by auto
    then show "\<exists>a b. c # cs = a @ p @ b"
    proof cases
      case 1
      then obtain b where "c # cs = [] @ p @ b" by (auto simp: startswith_iff)
      then show ?thesis by blast
    next
      case 2
      with Cons.IH obtain a b where "cs = a @ p @ b" by blast
      then have "c # cs = (c # a) @ p @ b" by simp
      then show ?thesis by blast
    qed
  next
    assume "\<exists>a b. c # cs = a @ p @ b"
    then obtain a b where ab: "c # cs = a @ p @ b" by blast
    show "contains (c # cs) p"
    proof (cases a)
      case Nil
      with ab have "startswith (c # cs) p" by (auto simp: startswith_iff)
      then show ?thesis by simp
    next
      case (Cons x a')
      with ab have "cs = a' @ p @ b" by simp
      with Cons.IH have "contains cs p" by blast
      then show ?thesis by simp
    qed
  qed
qed

lemma run_result_Exception: "run_result p capture check = Inl x \<Longrightarrow> is_Exception x"
  by (cases p) (auto simp: run_result_def split: if_splits)

lemma run_Exception: "run e cmd capture check w = (Inl x, w') \<Longrightarrow> is_Exception x"
  by (auto simp: run_def dest: run_result_Exception)

lemma run_result_no_check:
  "run_result p True False = (case p of Exited rc out \<Rightarrow> Inr (Some (strip out))
      | NotFound \<Rightarrow> Inr None | TimedOut \<Rightarrow> Inr None | LaunchError \<Rightarrow> Inl OSError)"
  by (cases p) (auto simp: run_result_def)

lemma or_not_found_Inr:
  assumes "\<And>x w'. r = (Inl x, w') \<Longrightarrow> is_Exception x"
  shows "\<exists>g w'. or_not_found r = (Inr g, w')"
proof (cases r)
  case (Pair a w')
  show ?thesis
  proof (cases a)
    case (Inl x)
    with Pair assms have "is_Exception x" by blast
    with Pair Inl show ?thesis by (auto simp: or_not_found_def not_found_def)
  next
    case (Inr o')
    with Pair show ?thesis by (cases o') (auto simp: or_not_found_def not_found_def)
  qed
qed

lemma nvidia_parse_Exception: "nvidia_parse e out = Inl x \<Longrightarrow> is_Exception x"
  by (auto simp: nvidia_parse_def split: list.splits option.splits)

lemma detect_nvidia_returns: "\<exists>g w'. detect_nvidia e w = (Inr g, w')"
  unfolding detect_nvidia_def
  by (rule or_not_found_Inr)
     (auto split: prod.splits sum.splits if_splits dest: run_Exception nvidia_parse_Exception)

lemma int_true_div_Exception: "int_true_div a b = Inl x \<Longrightarrow> is_Exception x"
  by (auto simp: int_true_div_def split: if_splits)

lemma adapter_ram_raw_Exception: "adapter_ram_raw e line = Inl x \<Longrightarrow> is_Exception x"
  by (auto simp: adapter_ram_raw_def Let_def split: option.splits if_splits dest: int_true_div_Exception)

lemma adapter_ram_vram_Exception: "adapter_ram_vram e n line = Inl x \<Longrightarrow> is_Exception x"
  by (auto simp: adapter_ram_vram_def Let_def split: sum.splits if_splits dest: adapter_ram_raw_Exception)

lemma amd_windows_scan_Exception: "amd_windows_scan e g ls = Inl x \<Longrightarrow> is_Exception x"
  by (induction e g ls rule: amd_windows_scan.induct)
     (auto simp: Let_def split: if_splits sum.splits dest: adapter_ram_vram_Exception)

lemma detect_amd_windows_returns: "\<exists>g w'. detect_amd_windows e w = (Inr g, w')"
proof (cases "platform_system e = ''Windows''")
  case False
  then show ?thesis by (auto simp: detect_amd_windows_def not_found_def)
next
  case True
  have "\<exists>g w'. or_not_found
        (case run e wmi_query True False w of
           (Inl x, w') \<Rightarrow> (Inl x, w')
         | (Inr out, w') \<Rightarrow>
             (if \<not> truthy out then (Inr (Some not_found), w')
              else (amd_windows_scan e None (split_on CHR 0x0A (the out)), w'))) = (Inr g, w')"
    by (rule or_not_found_Inr)
       (auto split: prod.splits sum.splits if_splits dest: run_Exception amd_windows_scan_Exception)
  with True show ?thesis by (simp add: detect_amd_windows_def)
qed

lemma detect_amd_rocm_returns: "\<exists>g w'. detect_amd_rocm e w = (Inr g, w')"
  unfolding detect_amd_rocm_def
  by (rule or_not_found_Inr)
     (auto simp: Let_def split: prod.splits sum.splits if_splits dest: run_Exception)

lemma check_ollama_gpu_returns: "\<exists>b w'. check_ollama_gpu e w = (Inr b, w')"
  by (auto simp: check_ollama_gpu_def split: prod.splits sum.splits dest: run_Exception)

lemma detect_amd_returns: "\<exists>g w'. detect_amd e w = (Inr g, w')"
proof -
  obtain g1 w1 where 1: "(if platform_system e = ''Windows'' then detect_amd_windows e w
            else (Inr (False, None, 0), w)) = (Inr g1, w1)"
    using detect_amd_windows_returns[of e w] by (cases "platform_system e = ''Windows''") auto
  obtain f1 n1 v1 where g1: "g1 = (f1, n1, v1)" by (cases g1) 
  obtain g2 w2 where 2: "(if \<not> f1 then detect_amd_rocm e w1 else (Inr (f1, n1, v1), w1)) = (Inr g2, w2)"
    using detect_amd_rocm_returns[of e w1] by (cases f1) auto
  obtain f2 n2 v2 where g2: "g2 = (f2, n2, v2)" by (cases g2)
  obtain b w3 where 3: "check_ollama_gpu e w2 = (Inr b, w3)"
    using check_ollama_gpu_returns by blast
  show ?thesis
    unfolding detect_amd_def 1 g1 by (auto simp: 2 g2 3)
qed

lemma step_hardware_returns:
  assumes "can_import e ''psutil'' (now w)"
  shows "\<exists>h w'. step_hardware e w = (Inr h, w')"
proof -
  obtain g w1 where 1: "detect_nvidia e (emit (Import ''psutil'') w) = (Inr g, w1)"
    using detect_nvidia_returns by blast
  obtain f n v where g: "g = (f, n, v)" by (cases g)
  obtain g2 w2 where 2: "detect_amd e w1 = (Inr g2, w2)"
    using detect_amd_returns by blast
  obtain f2 n2 v2 where g2: "g2 = (f2, n2, v2)" by (cases g2)
  show ?thesis
    using assms unfolding step_hardware_def by (auto simp: 1 g 2 g2)
qed

subsection \<open>Nothing to read, or nothing recognised\<close>

lemma or_not_found_simps:
  "or_not_found (Inr (Some g), w) = (Inr g, w)"
  "or_not_found (Inr None, w) = (Inr not_found, w)"
  "is_Exception x \<Longrightarrow> or_not_found (Inl x, w) = (Inr not_found, w)"
  by (simp_all add: or_not_found_def)

lemma run_no_output:
  "no_output (exec e cmd (now w)) \<Longrightarrow>
   (\<exists>x. is_Exception x \<and> run e cmd True False w = (Inl x, emit (Exec cmd) w))
   \<or> (\<exists>out. \<not> truthy out \<and> run e cmd True False w = (Inr out, emit (Exec cmd) w))"
  by (cases "exec e cmd (now w)") (auto simp: run_def run_result_no_check)

lemma run_Exited:
  "exec e cmd (now w) = Exited rc out \<Longrightarrow>
   run e cmd True False w = (Inr (Some (strip out)), emit (Exec cmd) w)"
  by (simp add: run_def run_result_no_check)

lemma detect_nvidia_no_output:
  assumes "no_output (exec e nvidia_smi (now w))"
  shows "fst (detect_nvidia e w) = Inr not_found"
  using run_no_output[OF assms]
  by (auto simp: detect_nvidia_def or_not_found_simps)

lemma detect_nvidia_unparsable:
  assumes "exec e nvidia_smi (now w) = Exited rc out"
    and "length (split_on CHR '','' (strip out)) < 2
       \<or> py_float e (strip (split_on CHR '','' (strip out) ! 1)) = None"
  shows "fst (detect_nvidia e w) = Inr not_found"
proof (cases "truthy (Some (strip out))")
  case False
  then show ?thesis using assms(1)
    by (simp add: detect_nvidia_def run_Exited or_not_found_simps)
next
  case True
  from assms(2) have "\<exists>x. is_Exception x \<and> nvidia_parse e (strip out) = Inl x"
    by (auto simp: nvidia_parse_def split: list.splits option.splits)
  then obtain x where "is_Exception x" "nvidia_parse e (strip out) = Inl x" by blast
  with True assms(1) show ?thesis
    by (simp add: detect_nvidia_def run_Exited or_not_found_simps)
qed

lemma detect_nvidia_parsed:
  assumes "exec e nvidia_smi (now w) = Exited rc out"
    and "split_on CHR '','' (strip out) = p0 # p1 # rest"
    and "py_float e (strip p1) = Some mib"
  shows "fst (detect_nvidia e w) = Inr (True, Some (strip p0), mib / 1024)"
proof -
  from assms(2) have "strip out \<noteq> []" by auto
  with assms show ?thesis
    by (simp add: detect_nvidia_def run_Exited nvidia_parse_def or_not_found_simps)
qed

lemma amd_windows_scan_no_name:
  "\<not> truthy g \<Longrightarrow> \<forall>l \<in> set ls. \<not> amd_name_line l \<Longrightarrow> amd_windows_scan e g ls = Inr None"
  by (induction ls) (auto simp: amd_name_line_def Let_def)

lemma detect_amd_windows_no_output:
  assumes "no_output (exec e wmi_query (now w))"
  shows "fst (detect_amd_windows e w) = Inr not_found"
  using run_no_output[OF assms]
  by (auto simp: detect_amd_windows_def or_not_found_simps)

lemma detect_amd_windows_no_name:
  assumes "exec e wmi_query (now w) = Exited rc out"
    and "\<forall>l \<in> set (split_on CHR 0x0A (strip out)). \<not> amd_name_line l"
  shows "fst (detect_amd_windows e w) = Inr not_found"
  using assms
  by (simp add: detect_amd_windows_def run_Exited or_not_found_simps amd_windows_scan_no_name)

lemma detect_amd_rocm_no_output:
  assumes "no_output (exec e rocm_smi (now w))"
  shows "fst (detect_amd_rocm e w) = Inr not_found"
  using run_no_output[OF assms]
  by (auto simp: detect_amd_rocm_def or_not_found_simps)

lemma detect_amd_rocm_no_name:
  assumes "exec e rocm_smi (now w) = Exited rc out"
    and "\<not> contains (strip out) ''GPU'' \<or> \<not> truthy (rocm_name (split_on CHR 0x0A (strip out)))"
  shows "fst (detect_amd_rocm e w) = Inr not_found"
  using assms
  by (auto simp: detect_amd_rocm_def run_Exited or_not_found_simps Let_def)

subsection \<open>The AMD table\<close>

lemma amd_table_loop_find:
  "amd_table_loop tbl name d =
     (case find (\<lambda>(pattern, known). contains name pattern) tbl of None \<Rightarrow> d | Some (k, v) \<Rightarrow> v)"
  by (induction tbl name d rule: amd_table_loop.induct) auto

lemma table_values_nonzero: "\<forall>(k, v) \<in> set AMD_VRAM_TABLE. v \<noteq> 0"
  by (simp add: AMD_VRAM_TABLE_def)

lemma find_Some_set: "find P xs = Some x \<Longrightarrow> x \<in> set xs \<and> P x"
  by (induction xs) (auto split: if_splits)

lemma find_in_table:
  assumes "(k, v) \<in> set AMD_VRAM_TABLE" and "contains name k"
  shows "\<exists>k' v'. find (\<lambda>(pattern, known). contains name pattern) AMD_VRAM_TABLE = Some (k', v')
      \<and> (k', v') \<in> set AMD_VRAM_TABLE \<and> contains name k' \<and> v' \<noteq> 0"
proof (cases "find (\<lambda>(pattern, known). contains name pattern) AMD_VRAM_TABLE")
  case None
  with assms show ?thesis by (auto simp: find_None_iff)
next
  case (Some a)
  obtain k' v' where a: "a = (k', v')" by (cases a)
  from find_Some_set[OF Some]
  have "a \<in> set AMD_VRAM_TABLE" and "(\<lambda>(pattern, known). contains name pattern) a"
    by blast+
  with a table_values_nonzero Some show ?thesis by auto
qed

lemma adapter_ram_vram_table:
  assumes "find (\<lambda>(pattern, known). contains name pattern) AMD_VRAM_TABLE = Some (k', v')" and "v' \<noteq> 0"
  shows "adapter_ram_vram e name line = Inr v'"
  using assms by (simp add: adapter_ram_vram_def amd_table_loop_find)

lemma adapter_ram_vram_raw:
  assumes "\<not> (\<exists>(k, v) \<in> set AMD_VRAM_TABLE. contains name k)"
  shows "adapter_ram_vram e name line =
     (case adapter_ram_raw e line of
        Inr v \<Rightarrow> Inr v
      | Inl x \<Rightarrow> (if x \<in> {ValueError, IndexError} then Inr 0 else Inl x))"
proof -
  from assms have "find (\<lambda>(pattern, known). contains name pattern) AMD_VRAM_TABLE = None"
    by (auto simp: find_None_iff)
  then show ?thesis by (simp add: adapter_ram_vram_def amd_table_loop_find)
qed

lemma not_name_line: "startswith s ''AdapterRAM'' \<Longrightarrow> \<not> startswith s ''Name''"
  by (auto simp: startswith_iff)

lemma amd_windows_scan_adapter:
  assumes "name \<noteq> []" and "startswith (strip line) ''AdapterRAM''"
  shows "amd_windows_scan e (Some name) (line # rest) =
     (case adapter_ram_vram e name (strip line) of
        Inl x \<Rightarrow> Inl x | Inr vram \<Rightarrow> Inr (Some (True, Some name, vram)))"
  using assms not_name_line[OF assms(2)] by (simp add: Let_def)

subsection \<open>The claims about detection\<close>

text \<open>
  C6. Take an adapter name that contains a key of \<^verbatim>\<open>AMD_VRAM_TABLE\<close> as a substring.
  Then the table loop stops at the first key, in the table's order, that the name
  contains, and the VRAM reported for the adapter is that key's value, whatever the
  \<^verbatim>\<open>AdapterRAM\<close> line says: both in the branch that handles the line and in the scan of
  the WMI output when it reaches an \<^verbatim>\<open>AdapterRAM\<close> line with this adapter name. When the
  name contains no key, the value is read from the line (0.0 when it does not parse).
\<close>

theorem amd_vram_from_table:
  "((\<exists>(k, v) \<in> set AMD_VRAM_TABLE. \<exists>a b. name = a @ k @ b) \<longrightarrow>
      (\<exists>k' v'. find (\<lambda>(pattern, known). contains name pattern) AMD_VRAM_TABLE = Some (k', v')
         \<and> (k', v') \<in> set AMD_VRAM_TABLE \<and> (\<exists>a b. name = a @ k' @ b)
         \<and> (\<forall>e line. adapter_ram_vram e name line = Inr v')
         \<and> (\<forall>e line rest. name \<noteq> [] \<and> startswith (strip line) ''AdapterRAM'' \<longrightarrow>
              amd_windows_scan e (Some name) (line # rest) = Inr (Some (True, Some name, v')))))
   \<and> (\<not> (\<exists>(k, v) \<in> set AMD_VRAM_TABLE. \<exists>a b. name = a @ k @ b) \<longrightarrow>
      (\<forall>e line. adapter_ram_vram e name line =
         (case adapter_ram_raw e line of
            Inr v \<Rightarrow> Inr v
          | Inl x \<Rightarrow> (if x \<in> {ValueError, IndexError} then Inr 0 else Inl x))))"
  unfolding contains_iff[symmetric]
proof (intro conjI impI)
  assume "\<exists>(k, v) \<in> set AMD_VRAM_TABLE. contains name k"
  then obtain k v where "(k, v) \<in> set AMD_VRAM_TABLE" "contains name k" by blast
  from find_in_table[OF this] obtain k' v' where
    f: "find (\<lambda>(pattern, known). contains name pattern) AMD_VRAM_TABLE = Some (k', v')"
    and m: "(k', v') \<in> set AMD_VRAM_TABLE" and c: "contains name k'" and nz: "v' \<noteq> 0"
    by blast
  have t: "\<forall>e line. adapter_ram_vram e name line = Inr v'"
    using adapter_ram_vram_table[OF f nz] by blast
  have s: "\<forall>e line rest. name \<noteq> [] \<and> startswith (strip line) ''AdapterRAM'' \<longrightarrow>
      amd_windows_scan e (Some name) (line # rest) = Inr (Some (True, Some name, v'))"
  proof (intro allI impI)
    fix e line rest
    assume h: "name \<noteq> [] \<and> startswith (strip line) ''AdapterRAM''"
    then have "amd_windows_scan e (Some name) (line # rest) =
        (case adapter_ram_vram e name (strip line) of
           Inl x \<Rightarrow> Inl x | Inr vram \<Rightarrow> Inr (Some (True, Some name, vram)))"
      by (intro amd_windows_scan_adapter) blast+
    also have "\<dots> = Inr (Some (True, Some name, v'))"
      using t by simp
    finally show "amd_windows_scan e (Some name) (line # rest) = Inr (Some (True, Some name, v'))" .
  qed
  from f m c t s show "\<exists>k' v'. find (\<lambda>(pattern, known). contains name pattern) AMD_VRAM_TABLE = Some (k', v')
         \<and> (k', v') \<in> set AMD_VRAM_TABLE \<and> contains name k'
         \<and> (\<forall>e line. adapter_ram_vram e name line = Inr v')
         \<and> (\<forall>e line rest. name \<noteq> [] \<and> startswith (strip line) ''AdapterRAM'' \<longrightarrow>
              amd_windows_scan e (Some name) (line # rest) = Inr (Some (True, Some name, v')))"
    by blast
next
  assume "\<not> (\<exists>(k, v) \<in> set AMD_VRAM_TABLE. contains name k)"
  then show "\<forall>e line. adapter_ram_vram e name line =
         (case adapter_ram_raw e line of
            Inr v \<Rightarrow> Inr v
          | Inl x \<Rightarrow> (if x \<in> {ValueError, IndexError} then Inr 0 else Inl x))"
    using adapter_ram_vram_raw by blast
qed

theorem amd_vram_from_table_witness:
  "adapter_ram_vram (bare_env\<lparr>py_int := (\<lambda>s. if s = ''4293918720'' then Some 4293918720 else None)\<rparr>)
      ''AMD Radeon RX 7900 XTX'' ''AdapterRAM : 4293918720'' = Inr 24
   \<and> adapter_ram_vram (bare_env\<lparr>py_int := (\<lambda>s. if s = ''4293918720'' then Some 4293918720 else None)\<rparr>)
      ''AMD Radeon RX 580'' ''AdapterRAM : 4293918720'' = Inr (4293918720 / 1024 ^ 3)
   \<and> fst (detect_amd_windows
       (bare_env\<lparr>platform_system := ''Windows'',
          exec := (\<lambda>cmd t. if cmd = wmi_query
            then Exited 0 (''Name : AMD Radeon RX 7900 XTX'' @ [CHR 0x0A] @ ''AdapterRAM : 4293918720'')
            else NotFound)\<rparr>) empty_world) = Inr (True, Some ''AMD Radeon RX 7900 XTX'', 24)"
proof -
  let ?e = "bare_env\<lparr>py_int := (\<lambda>s. if s = ''4293918720'' then Some 4293918720 else None)\<rparr>"
  have hit: "\<exists>(k, v) \<in> set AMD_VRAM_TABLE. contains ''AMD Radeon RX 7900 XTX'' k"
    by (simp add: AMD_VRAM_TABLE_def startswith_def)
  have first: "find (\<lambda>(pattern, known). contains ''AMD Radeon RX 7900 XTX'' pattern) AMD_VRAM_TABLE
      = Some (''7900 XTX'', 24)"
    by (simp add: AMD_VRAM_TABLE_def startswith_def)
  have miss: "\<not> (\<exists>(k, v) \<in> set AMD_VRAM_TABLE. contains ''AMD Radeon RX 580'' k)"
    by (simp add: AMD_VRAM_TABLE_def startswith_def)
  have raw: "adapter_ram_raw ?e ''AdapterRAM : 4293918720'' = Inr (4293918720 / 1024 ^ 3)"
    by (simp add: adapter_ram_raw_def after_first_def strip_def is_space_def bare_env_def
        int_true_div_def)
  have a: "adapter_ram_vram ?e ''AMD Radeon RX 7900 XTX'' ''AdapterRAM : 4293918720'' = Inr 24"
    using amd_vram_from_table[of "''AMD Radeon RX 7900 XTX''"] hit[unfolded contains_iff] first by auto
  have b: "adapter_ram_vram ?e ''AMD Radeon RX 580'' ''AdapterRAM : 4293918720''
      = Inr (4293918720 / 1024 ^ 3)"
    using amd_vram_from_table[of "''AMD Radeon RX 580''"] miss[unfolded contains_iff] raw by simp
  have c: "fst (detect_amd_windows
       (bare_env\<lparr>platform_system := ''Windows'',
          exec := (\<lambda>cmd t. if cmd = wmi_query
            then Exited 0 (''Name : AMD Radeon RX 7900 XTX'' @ [CHR 0x0A] @ ''AdapterRAM : 4293918720'')
            else NotFound)\<rparr>) empty_world) = Inr (True, Some ''AMD Radeon RX 7900 XTX'', 24)"
    by (simp add: detect_amd_windows_def run_def run_result_def now_def emit_def empty_world_def
        bare_env_def strip_def is_space_def or_not_found_def Let_def startswith_def after_first_def
        adapter_ram_vram_def AMD_VRAM_TABLE_def)
  from a b c show ?thesis by blast
qed

text \<open>
  C7. When \<^verbatim>\<open>nvidia-smi\<close> prints a name and a number separated by a comma, the VRAM of the
  snapshot is that number divided by 1024; for a number other than 0 this differs from
  the number divided by 1000.
\<close>

theorem detect_nvidia_gib:
  assumes "exec e nvidia_smi (now w) = Exited rc out"
    and "split_on CHR '','' (strip out) = p0 # p1 # rest"
    and "py_float e (strip p1) = Some mib"
  shows "fst (detect_nvidia e w) = Inr (True, Some (strip p0), mib / 1024)
       \<and> (mib \<noteq> 0 \<longrightarrow> mib / 1024 \<noteq> mib / 1000)"
  using detect_nvidia_parsed[OF assms] by simp

theorem detect_nvidia_gib_witness:
  "fst (detect_nvidia
     (bare_env\<lparr>exec := (\<lambda>cmd t. if cmd = nvidia_smi
          then Exited 0 (''NVIDIA GeForce RTX 3090, 24576'' @ [CHR 0x0A]) else NotFound),
        py_float := (\<lambda>s. if s = ''24576'' then Some 24576 else None)\<rparr>) empty_world)
   = Inr (True, Some ''NVIDIA GeForce RTX 3090'', 24)
   \<and> (24576 :: real) / 1024 \<noteq> 24576 / 1000"
proof -
  let ?e = "bare_env\<lparr>exec := (\<lambda>cmd t. if cmd = nvidia_smi
          then Exited 0 (''NVIDIA GeForce RTX 3090, 24576'' @ [CHR 0x0A]) else NotFound),
        py_float := (\<lambda>s. if s = ''24576'' then Some 24576 else None)\<rparr>"
  have 1: "exec ?e nvidia_smi (now empty_world)
      = Exited 0 (''NVIDIA GeForce RTX 3090, 24576'' @ [CHR 0x0A])"
    by simp
  have 2: "split_on CHR '','' (strip (''NVIDIA GeForce RTX 3090, 24576'' @ [CHR 0x0A]))
      = ''NVIDIA GeForce RTX 3090'' # '' 24576'' # []"
    by (simp add: strip_def is_space_def)
  have 3: "py_float ?e (strip '' 24576'') = Some 24576"
    by (simp add: strip_def is_space_def)
  from detect_nvidia_gib[OF 1 2 3] show ?thesis
    by (simp add: strip_def is_space_def)
qed

text \<open>
  C9. Whatever the commands do, each of the three detection paths returns a result and
  raises nothing. A command that is absent, times out, cannot be started or prints nothing
  gives "not found" (\<open>False, None, 0.0\<close>); so does an output in which the path recognises
  nothing: for \<^verbatim>\<open>nvidia-smi\<close> fewer than two fields or a second field that is no number,
  for the WMI query no \<^verbatim>\<open>Name\<close> line of an AMD adapter, for \<^verbatim>\<open>rocm-smi\<close> no "GPU" or no
  product line. Once \<^verbatim>\<open>psutil\<close> is imported, \<^verbatim>\<open>step_hardware\<close> returns a snapshot.
\<close>

theorem detection_never_raises:
  "(\<exists>g w'. detect_nvidia e w = (Inr g, w'))
   \<and> (\<exists>g w'. detect_amd_windows e w = (Inr g, w'))
   \<and> (\<exists>g w'. detect_amd_rocm e w = (Inr g, w'))
   \<and> (no_output (exec e nvidia_smi (now w)) \<longrightarrow> fst (detect_nvidia e w) = Inr not_found)
   \<and> (no_output (exec e wmi_query (now w)) \<longrightarrow> fst (detect_amd_windows e w) = Inr not_found)
   \<and> (no_output (exec e rocm_smi (now w)) \<longrightarrow> fst (detect_amd_rocm e w) = Inr not_found)
   \<and> (\<forall>rc out. exec e nvidia_smi (now w) = Exited rc out
        \<and> (length (split_on CHR '','' (strip out)) < 2
           \<or> py_float e (strip (split_on CHR '','' (strip out) ! 1)) = None)
        \<longrightarrow> fst (detect_nvidia e w) = Inr not_found)
   \<and> (\<forall>rc out. exec e wmi_query (now w) = Exited rc out
        \<and> (\<forall>l \<in> set (split_on CHR 0x0A (strip out)). \<not> amd_name_line l)
        \<longrightarrow> fst (detect_amd_windows e w) = Inr not_found)
   \<and> (\<forall>rc out. exec e rocm_smi (now w) = Exited rc out
        \<and> (\<not> contains (strip out) ''GPU''
           \<or> \<not> truthy (rocm_name (split_on CHR 0x0A (strip out))))
        \<longrightarrow> fst (detect_amd_rocm e w) = Inr not_found)
   \<and> (can_import e ''psutil'' (now w) \<longrightarrow> (\<exists>h w'. step_hardware e w = (Inr h, w')))"
proof -
  have a: "\<forall>rc out. exec e nvidia_smi (now w) = Exited rc out
        \<and> (length (split_on CHR '','' (strip out)) < 2
           \<or> py_float e (strip (split_on CHR '','' (strip out) ! 1)) = None)
        \<longrightarrow> fst (detect_nvidia e w) = Inr not_found"
    using detect_nvidia_unparsable by blast
  have b: "\<forall>rc out. exec e wmi_query (now w) = Exited rc out
        \<and> (\<forall>l \<in> set (split_on CHR 0x0A (strip out)). \<not> amd_name_line l)
        \<longrightarrow> fst (detect_amd_windows e w) = Inr not_found"
    using detect_amd_windows_no_name by blast
  have c: "\<forall>rc out. exec e rocm_smi (now w) = Exited rc out
        \<and> (\<not> contains (strip out) ''GPU''
           \<or> \<not> truthy (rocm_name (split_on CHR 0x0A (strip out))))
        \<longrightarrow> fst (detect_amd_rocm e w) = Inr not_found"
    using detect_amd_rocm_no_name by blast
  from a b c detect_nvidia_returns[of e w] detect_amd_windows_returns[of e w]
    detect_amd_rocm_returns[of e w] detect_nvidia_no_output[of e w]
    detect_amd_windows_no_output[of e w] detect_amd_rocm_no_output[of e w]
    step_hardware_returns[of e w]
  show ?thesis by blast
qed

theorem detection_never_raises_witness:
  "fst (detect_nvidia bare_env empty_world) = Inr not_found
   \<and> fst (detect_nvidia (bare_env\<lparr>exec := (\<lambda>cmd t. TimedOut)\<rparr>) empty_world) = Inr not_found
   \<and> fst (detect_nvidia (bare_env\<lparr>exec := (\<lambda>cmd t. Exited 9 ''No devices were found'')\<rparr>)
        empty_world) = Inr not_found
   \<and> fst (detect_amd_windows (bare_env\<lparr>platform_system := ''Windows'',
        exec := (\<lambda>cmd t. LaunchError)\<rparr>) empty_world) = Inr not_found
   \<and> fst (detect_amd_rocm (bare_env\<lparr>exec := (\<lambda>cmd t. Exited 0 ''ERROR: no devices'')\<rparr>)
        empty_world) = Inr not_found
   \<and> (\<exists>h w'. step_hardware bare_env empty_world = (Inr h, w'))"
proof -
  have 1: "no_output (exec bare_env nvidia_smi (now empty_world))"
    by (simp add: bare_env_def)
  have 2: "no_output (exec (bare_env\<lparr>exec := (\<lambda>cmd t. TimedOut)\<rparr>) nvidia_smi (now empty_world))"
    by simp
  let ?e3 = "bare_env\<lparr>exec := (\<lambda>cmd t. Exited 9 ''No devices were found'')\<rparr>"
  have 3: "exec ?e3 nvidia_smi (now empty_world) = Exited 9 ''No devices were found''
      \<and> length (split_on CHR '','' (strip ''No devices were found'')) < 2"
    by (simp add: strip_def is_space_def)
  let ?e4 = "bare_env\<lparr>platform_system := ''Windows'', exec := (\<lambda>cmd t. LaunchError)\<rparr>"
  have 4: "no_output (exec ?e4 wmi_query (now empty_world))"
    by simp
  let ?e5 = "bare_env\<lparr>exec := (\<lambda>cmd t. Exited 0 ''ERROR: no devices'')\<rparr>"
  have 5: "exec ?e5 rocm_smi (now empty_world) = Exited 0 ''ERROR: no devices''
      \<and> \<not> contains (strip ''ERROR: no devices'') ''GPU''"
    by (simp add: strip_def is_space_def startswith_def)
  have 6: "can_import bare_env ''psutil'' (now empty_world)"
    by (simp add: bare_env_def)
  from 1 have "fst (detect_nvidia bare_env empty_world) = Inr not_found"
    using detection_never_raises[of bare_env empty_world] by blast
  moreover from 2 have "fst (detect_nvidia (bare_env\<lparr>exec := (\<lambda>cmd t. TimedOut)\<rparr>) empty_world)
      = Inr not_found"
    using detection_never_raises[of "bare_env\<lparr>exec := (\<lambda>cmd t. TimedOut)\<rparr>" empty_world] by blast
  moreover from 3 have "fst (detect_nvidia ?e3 empty_world) = Inr not_found"
    using detection_never_raises[of ?e3 empty_world] by blast
  moreover from 4 have "fst (detect_amd_windows ?e4 empty_world) = Inr not_found"
    using detection_never_raises[of ?e4 empty_world] by blast
  moreover from 5 have "fst (detect_amd_rocm ?e5 empty_world) = Inr not_found"
    using detection_never_raises[of ?e5 empty_world] by blast
  moreover from 6 have "\<exists>h w'. step_hardware bare_env empty_world = (Inr h, w')"
    using detection_never_raises[of bare_env empty_world] by blast
  ultimately show ?thesis by blast
qed

section \<open>Properties of the service steps\<close>

subsection \<open>Waiting loops\<close>

lemma ollama_wait_never:
  "\<forall>t. \<not> truthy (get_resp e ollama_tags t) \<Longrightarrow>
   ollama_wait e n w = (False, w\<lparr>trace := trace w @ concat (replicate n [Sleep 5, HttpGet ollama_tags])\<rparr>)"
  by (induction n arbitrary: w) (simp_all add: http_get_def emit_def)

lemma searxng_wait_never:
  "\<forall>t. get_resp e searxng_probe t = None \<Longrightarrow>
   searxng_wait e n w = (False, w\<lparr>trace := trace w @ concat (replicate n [Sleep 5, HttpGet searxng_probe])\<rparr>)"
  by (induction n arbitrary: w) (simp_all add: searxng_is_running_def http_get_def emit_def)

lemma ollama_wait_bounded:
  "\<exists>k \<le> n. snd (ollama_wait e n w) = w\<lparr>trace := trace w @ concat (replicate k [Sleep 5, HttpGet ollama_tags])\<rparr>"
proof (induction n arbitrary: w)
  case 0
  then show ?case by simp
next
  case (Suc n)
  let ?w' = "emit (HttpGet ollama_tags) (emit (Sleep 5) w)"
  show ?case
  proof (cases "truthy (get_resp e ollama_tags (now (emit (Sleep 5) w)))")
    case True
    then have "snd (ollama_wait e (Suc n) w) = w\<lparr>trace := trace w @ concat (replicate 1 [Sleep 5, HttpGet ollama_tags])\<rparr>"
      by (simp add: http_get_def emit_def)
    then show ?thesis by (metis Suc_leI zero_less_Suc One_nat_def)
  next
    case False
    then have eq: "ollama_wait e (Suc n) w = ollama_wait e n ?w'"
      by (simp add: http_get_def)
    from Suc.IH[of ?w'] obtain k where k: "k \<le> n"
      "snd (ollama_wait e n ?w') = ?w'\<lparr>trace := trace ?w' @ concat (replicate k [Sleep 5, HttpGet ollama_tags])\<rparr>"
      by blast
    have "snd (ollama_wait e (Suc n) w) = snd (ollama_wait e n ?w')"
      by (simp only: eq)
    also have "\<dots> = ?w'\<lparr>trace := trace ?w' @ concat (replicate k [Sleep 5, HttpGet ollama_tags])\<rparr>"
      by (rule k(2))
    also have "\<dots> = w\<lparr>trace := trace w @ concat (replicate (Suc k) [Sleep 5, HttpGet ollama_tags])\<rparr>"
      by (simp add: emit_def)
    finally show ?thesis using k(1) by (metis Suc_le_mono)
  qed
qed

lemma cli_check:
  assumes "cli_present e w"
  shows "catch is_Exception
             (bind (run e [''ollama'', ''--version''] True False w) (\<lambda>ver w1. (Inr (truthy ver), w1)))
             (\<lambda>w1. (Inr False, w1)) = (Inr True, emit (Exec [''ollama'', ''--version'']) w)"
  using assms by (auto simp: cli_present_def catch_def bind_def run_def run_result_def)

lemma step_ollama_already_running:
  assumes "cli_present e w" and "truthy (get_resp e ollama_tags (Suc (now w)))"
  shows "step_ollama e check_only w =
     (Inr True, w\<lparr>trace := trace w @ [Exec [''ollama'', ''--version''], HttpGet ollama_tags]\<rparr>)"
  using assms(2) unfolding step_ollama_def cli_check[OF assms(1)]
  by (simp add: bind_def http_get_def emit_def now_def)

lemma step_ollama_check_only:
  assumes "cli_present e w" and "\<not> truthy (get_resp e ollama_tags (Suc (now w)))"
  shows "step_ollama e True w =
     (Inr False, w\<lparr>trace := trace w @ [Exec [''ollama'', ''--version''], HttpGet ollama_tags]\<rparr>)"
  using assms(2) unfolding step_ollama_def cli_check[OF assms(1)]
  by (simp add: bind_def http_get_def emit_def now_def)

lemma step_ollama_never_ready:
  assumes "cli_present e w" and "\<forall>t. \<not> truthy (get_resp e ollama_tags t)"
    and "popen_ok e ollama_serve (now w + 2)"
  shows "step_ollama e False w =
     (Inr False, w\<lparr>trace := trace w @ [Exec [''ollama'', ''--version''], HttpGet ollama_tags,
        Popen ollama_serve] @ concat (replicate 12 [Sleep 5, HttpGet ollama_tags])\<rparr>)"
  using assms(2,3) unfolding step_ollama_def cli_check[OF assms(1)]
  by (simp add: bind_def catch_def popen_def http_get_def emit_def now_def ollama_wait_never[OF assms(2)])

lemma step_ollama_start_fails:
  assumes "cli_present e w" and "\<not> truthy (get_resp e ollama_tags (Suc (now w)))"
    and "\<not> popen_ok e ollama_serve (now w + 2)"
  shows "step_ollama e False w =
     (Inr False, w\<lparr>trace := trace w @ [Exec [''ollama'', ''--version''], HttpGet ollama_tags,
        Popen ollama_serve]\<rparr>)"
  using assms(2,3) unfolding step_ollama_def cli_check[OF assms(1)]
  by (simp add: bind_def catch_def popen_def http_get_def emit_def now_def)

subsection \<open>SearXNG\<close>

lemma create_searxng_config_ok:
  assumes "\<forall>c. fs w SEARXNG_DIR \<noteq> Some (File c)"
  shows "\<exists>cfg w'. create_searxng_config e w = (Inr (), w') \<and> trace w' = trace w @ cfg
     \<and> set cfg \<subseteq> {Mkdir SEARXNG_DIR, WriteText ''searxng/settings.yml'', WriteText ''searxng/limiter.toml''}"
proof -
  have "\<exists>w1 c1. mkdir_exist_ok SEARXNG_DIR w = (Inr (), w1) \<and> trace w1 = trace w @ c1
      \<and> set c1 \<subseteq> {Mkdir SEARXNG_DIR}"
    using assms by (auto simp: mkdir_exist_ok_def split: option.splits node.splits)
  then obtain w1 c1 where m: "mkdir_exist_ok SEARXNG_DIR w = (Inr (), w1)" "trace w1 = trace w @ c1"
    "set c1 \<subseteq> {Mkdir SEARXNG_DIR}"
    by blast
  define w2 where "w2 = (if \<not> path_exists w1 ''searxng/settings.yml''
                    then write_text ''searxng/settings.yml'' (SearxngSettings (token_hex e)) w1
                    else w1)"
  define w3 where "w3 = (if \<not> path_exists w2 ''searxng/limiter.toml''
                    then write_text ''searxng/limiter.toml'' LimiterToml w2
                    else w2)"
  obtain c2 where c2: "trace w2 = trace w1 @ c2" "set c2 \<subseteq> {WriteText ''searxng/settings.yml''}"
    unfolding w2_def by (cases "path_exists w1 ''searxng/settings.yml''") (auto simp: write_text_def)
  obtain c3 where c3: "trace w3 = trace w2 @ c3" "set c3 \<subseteq> {WriteText ''searxng/limiter.toml''}"
    unfolding w3_def by (cases "path_exists w2 ''searxng/limiter.toml''") (auto simp: write_text_def)
  have "create_searxng_config e w = (Inr (), w3)"
    by (simp add: create_searxng_config_def m(1) bind_def w2_def w3_def Let_def)
  moreover have "trace w3 = trace w @ (c1 @ c2 @ c3)"
    by (simp add: c3 c2 m)
  moreover have "set (c1 @ c2 @ c3) \<subseteq> {Mkdir SEARXNG_DIR, WriteText ''searxng/settings.yml'', WriteText ''searxng/limiter.toml''}"
    using m(3) c2(2) c3(2) by auto
  ultimately show ?thesis by blast
qed

lemma step_searxng_already_running:
  assumes "get_resp e searxng_probe (now w) \<noteq> None"
  shows "step_searxng e check_only w = (Inr True, w\<lparr>trace := trace w @ [HttpGet searxng_probe]\<rparr>)"
  using assms by (simp add: step_searxng_def searxng_is_running_def http_get_def emit_def)

lemma step_searxng_check_only:
  assumes "get_resp e searxng_probe (now w) = None"
  shows "step_searxng e True w = (Inr False, w\<lparr>trace := trace w @ [HttpGet searxng_probe]\<rparr>)"
  using assms by (simp add: step_searxng_def searxng_is_running_def http_get_def emit_def)

lemma step_searxng_no_compose_file:
  assumes "get_resp e searxng_probe (now w) = None" and "\<not> path_exists w COMPOSE_FILE"
  shows "step_searxng e False w = (Inr False, w\<lparr>trace := trace w @ [HttpGet searxng_probe]\<rparr>)"
  using assms by (simp add: step_searxng_def searxng_is_running_def http_get_def emit_def path_exists_def)

lemma compose_ps_caught:
  "catch is_Exception (bind (run e compose_ps True False w) (\<lambda>out w5. (Inr False, w5)))
      (\<lambda>w5. (Inr False, w5)) = (Inr False, emit (Exec compose_ps) w)"
  by (cases "exec e compose_ps (now w)")
     (auto simp: catch_def bind_def run_def run_result_def)

lemma step_searxng_never_ready:
  assumes "\<forall>t. get_resp e searxng_probe t = None" and "path_exists w COMPOSE_FILE"
    and "\<forall>c. fs w SEARXNG_DIR \<noteq> Some (File c)"
    and "\<forall>t. \<exists>out. exec e compose_up t = Exited 0 out"
  shows "\<exists>cfg w'. step_searxng e False w = (Inr False, w')
     \<and> trace w' = trace w @ [HttpGet searxng_probe] @ cfg @ [Exec compose_up]
          @ concat (replicate 18 [Sleep 5, HttpGet searxng_probe]) @ [Exec compose_ps]
     \<and> set cfg \<subseteq> {Mkdir SEARXNG_DIR, WriteText ''searxng/settings.yml'', WriteText ''searxng/limiter.toml''}"
proof -
  let ?w1 = "emit (HttpGet searxng_probe) w"
  have p: "searxng_is_running e w = (False, ?w1)"
    using assms(1) by (simp add: searxng_is_running_def http_get_def)
  from assms(3) have "\<forall>c. fs ?w1 SEARXNG_DIR \<noteq> Some (File c)" by simp
  from create_searxng_config_ok[OF this, of e] obtain cfg w2 where
    c: "create_searxng_config e ?w1 = (Inr (), w2)" "trace w2 = trace ?w1 @ cfg"
    "set cfg \<subseteq> {Mkdir SEARXNG_DIR, WriteText ''searxng/settings.yml'', WriteText ''searxng/limiter.toml''}"
    by blast
  from assms(4) obtain out where "exec e compose_up (now w2) = Exited 0 out" by blast
  then have up: "catch (\<lambda>x. x = CalledProcessError \<or> x = TimeoutExpired)
       (bind (run e compose_up False True w2) (\<lambda>out w3. (Inr True, w3)))
       (\<lambda>w3. (Inr False, w3)) = (Inr True, emit (Exec compose_up) w2)"
    by (simp add: catch_def bind_def run_def run_result_def)
  let ?w3 = "emit (Exec compose_up) w2"
  let ?w4 = "?w3\<lparr>trace := trace ?w3 @ concat (replicate 18 [Sleep 5, HttpGet searxng_probe])\<rparr>"
  have wt: "searxng_wait e 18 ?w3 = (False, ?w4)"
    by (rule searxng_wait_never[OF assms(1)])
  have "step_searxng e False w = (Inr False, emit (Exec compose_ps) ?w4)"
    using assms(2) unfolding step_searxng_def p
    by (simp add: c(1) up wt compose_ps_caught del: searxng_wait.simps)
  moreover have "trace (emit (Exec compose_ps) ?w4) = trace w @ [HttpGet searxng_probe] @ cfg @ [Exec compose_up]
          @ concat (replicate 18 [Sleep 5, HttpGet searxng_probe]) @ [Exec compose_ps]"
    by (simp add: c(2))
  ultimately show ?thesis using c(3) by blast
qed

lemma step_searxng_start_fails:
  assumes "get_resp e searxng_probe (now w) = None" and "path_exists w COMPOSE_FILE"
    and "\<forall>c. fs w SEARXNG_DIR \<noteq> Some (File c)"
    and "\<forall>t. exec e compose_up t = TimedOut \<or> (\<exists>rc out. rc \<noteq> 0 \<and> exec e compose_up t = Exited rc out)"
  shows "\<exists>cfg w'. step_searxng e False w = (Inr False, w')
     \<and> trace w' = trace w @ [HttpGet searxng_probe] @ cfg @ [Exec compose_up]
     \<and> set cfg \<subseteq> {Mkdir SEARXNG_DIR, WriteText ''searxng/settings.yml'', WriteText ''searxng/limiter.toml''}"
proof -
  let ?w1 = "emit (HttpGet searxng_probe) w"
  have p: "searxng_is_running e w = (False, ?w1)"
    using assms(1) by (simp add: searxng_is_running_def http_get_def)
  from assms(3) have "\<forall>c. fs ?w1 SEARXNG_DIR \<noteq> Some (File c)" by simp
  from create_searxng_config_ok[OF this, of e] obtain cfg w2 where
    c: "create_searxng_config e ?w1 = (Inr (), w2)" "trace w2 = trace ?w1 @ cfg"
    "set cfg \<subseteq> {Mkdir SEARXNG_DIR, WriteText ''searxng/settings.yml'', WriteText ''searxng/limiter.toml''}"
    by blast
  from assms(4) have "exec e compose_up (now w2) = TimedOut
      \<or> (\<exists>rc out. rc \<noteq> 0 \<and> exec e compose_up (now w2) = Exited rc out)" by blast
  then have up: "catch (\<lambda>x. x = CalledProcessError \<or> x = TimeoutExpired)
       (bind (run e compose_up False True w2) (\<lambda>out w3. (Inr True, w3)))
       (\<lambda>w3. (Inr False, w3)) = (Inr False, emit (Exec compose_up) w2)"
    by (auto simp: catch_def bind_def run_def run_result_def)
  have "step_searxng e False w = (Inr False, emit (Exec compose_up) w2)"
    using assms(2) unfolding step_searxng_def p
    by (simp add: c(1) up)
  moreover have "trace (emit (Exec compose_up) w2) = trace w @ [HttpGet searxng_probe] @ cfg @ [Exec compose_up]"
    by (simp add: c(2))
  ultimately show ?thesis using c(3) by blast
qed

subsection \<open>The launch contract\<close>

text \<open>
  C5, as the code has it, for \<^verbatim>\<open>step_ollama\<close> and \<^verbatim>\<open>step_searxng\<close>.
  (a) When the first probe of the service succeeds, the step returns success at once and
  starts nothing; for Ollama the probe is made once \<^verbatim>\<open>ollama --version\<close> has answered.
  (b) In setup mode, when the probe never succeeds: \<^verbatim>\<open>step_ollama\<close>, with the command line
  tool present, launches \<^verbatim>\<open>ollama serve\<close> exactly once; when the launch succeeded, the
  probe is repeated after 5 seconds of sleep each time, 12 times (60 s), and the step
  returns failure; when the launch raised, the step returns failure without waiting.
  \<^verbatim>\<open>step_searxng\<close>, when the compose file exists and the path \<^verbatim>\<open>searxng\<close> is not a regular
  file, runs \<^verbatim>\<open>docker compose up -d\<close> exactly once; when that command exits with 0, the
  probe is repeated after 5 seconds of sleep each time, 18 times (90 s), and the step
  returns failure; when it exits with another code or runs past its timeout, the step
  returns failure without waiting.
  (c) In validate-only mode a failing first probe gives failure at once, and nothing is
  started; so does a missing compose file in setup mode.
\<close>

theorem service_launch_contract:
  "(cli_present e w \<and> truthy (get_resp e ollama_tags (Suc (now w))) \<longrightarrow>
      step_ollama e check_only w =
        (Inr True, w\<lparr>trace := trace w @ [Exec [''ollama'', ''--version''], HttpGet ollama_tags]\<rparr>))
   \<and> (get_resp e searxng_probe (now w) \<noteq> None \<longrightarrow>
      step_searxng e check_only w = (Inr True, w\<lparr>trace := trace w @ [HttpGet searxng_probe]\<rparr>))
   \<and> (cli_present e w \<and> (\<forall>t. \<not> truthy (get_resp e ollama_tags t))
        \<and> popen_ok e ollama_serve (now w + 2) \<longrightarrow>
      step_ollama e False w =
        (Inr False, w\<lparr>trace := trace w @ [Exec [''ollama'', ''--version''], HttpGet ollama_tags,
           Popen ollama_serve] @ concat (replicate 12 [Sleep 5, HttpGet ollama_tags])\<rparr>))
   \<and> (cli_present e w \<and> \<not> truthy (get_resp e ollama_tags (Suc (now w)))
        \<and> \<not> popen_ok e ollama_serve (now w + 2) \<longrightarrow>
      step_ollama e False w =
        (Inr False, w\<lparr>trace := trace w @ [Exec [''ollama'', ''--version''], HttpGet ollama_tags,
           Popen ollama_serve]\<rparr>))
   \<and> ((\<forall>t. get_resp e searxng_probe t = None) \<and> path_exists w COMPOSE_FILE
        \<and> (\<forall>c. fs w SEARXNG_DIR \<noteq> Some (File c))
        \<and> (\<forall>t. \<exists>out. exec e compose_up t = Exited 0 out) \<longrightarrow>
      (\<exists>cfg w'. step_searxng e False w = (Inr False, w')
         \<and> trace w' = trace w @ [HttpGet searxng_probe] @ cfg @ [Exec compose_up]
              @ concat (replicate 18 [Sleep 5, HttpGet searxng_probe]) @ [Exec compose_ps]
         \<and> set cfg \<subseteq> {Mkdir SEARXNG_DIR, WriteText ''searxng/settings.yml'',
              WriteText ''searxng/limiter.toml''}))
   \<and> (get_resp e searxng_probe (now w) = None \<and> path_exists w COMPOSE_FILE
        \<and> (\<forall>c. fs w SEARXNG_DIR \<noteq> Some (File c))
        \<and> (\<forall>t. exec e compose_up t = TimedOut
               \<or> (\<exists>rc out. rc \<noteq> 0 \<and> exec e compose_up t = Exited rc out)) \<longrightarrow>
      (\<exists>cfg w'. step_searxng e False w = (Inr False, w')
         \<and> trace w' = trace w @ [HttpGet searxng_probe] @ cfg @ [Exec compose_up]
         \<and> set cfg \<subseteq> {Mkdir SEARXNG_DIR, WriteText ''searxng/settings.yml'',
              WriteText ''searxng/limiter.toml''}))
   \<and> (cli_present e w \<and> \<not> truthy (get_resp e ollama_tags (Suc (now w))) \<longrightarrow>
      step_ollama e True w =
        (Inr False, w\<lparr>trace := trace w @ [Exec [''ollama'', ''--version''], HttpGet ollama_tags]\<rparr>))
   \<and> (get_resp e searxng_probe (now w) = None \<longrightarrow>
      step_searxng e True w = (Inr False, w\<lparr>trace := trace w @ [HttpGet searxng_probe]\<rparr>))
   \<and> (get_resp e searxng_probe (now w) = None \<and> \<not> path_exists w COMPOSE_FILE \<longrightarrow>
      step_searxng e False w = (Inr False, w\<lparr>trace := trace w @ [HttpGet searxng_probe]\<rparr>))"
  using step_ollama_already_running[of e w check_only] step_searxng_already_running[of e w check_only]
    step_ollama_never_ready[of e w] step_ollama_start_fails[of e w]
    step_searxng_never_ready[of e w] step_searxng_start_fails[of e w]
    step_ollama_check_only[of e w] step_searxng_check_only[of e w]
    step_searxng_no_compose_file[of e w]
  by blast

theorem service_launch_contract_witness:
  "step_ollama
     (bare_env\<lparr>exec := (\<lambda>cmd t. if cmd = [''ollama'', ''--version'']
          then Exited 0 ''ollama version is 0.5.7'' else NotFound),
        get_resp := (\<lambda>url t. if url = ollama_tags then Some ''{}'' else None)\<rparr>)
     False empty_world
   = (Inr True, empty_world\<lparr>trace := [Exec [''ollama'', ''--version''], HttpGet ollama_tags]\<rparr>)
   \<and> step_ollama
     (bare_env\<lparr>exec := (\<lambda>cmd t. if cmd = [''ollama'', ''--version'']
          then Exited 0 ''ollama version is 0.5.7'' else NotFound),
        popen_ok := (\<lambda>cmd t. True)\<rparr>)
     False empty_world
   = (Inr False, empty_world\<lparr>trace := [Exec [''ollama'', ''--version''], HttpGet ollama_tags,
        Popen ollama_serve] @ concat (replicate 12 [Sleep 5, HttpGet ollama_tags])\<rparr>)
   \<and> fst (step_searxng (bare_env\<lparr>exec := (\<lambda>cmd t. Exited 0 [])\<rparr>) False
        (empty_world\<lparr>fs := (\<lambda>p. if p = COMPOSE_FILE then Some (File (Text ''services:'')) else None)\<rparr>))
     = Inr False"
proof -
  let ?e1 = "bare_env\<lparr>exec := (\<lambda>cmd t. if cmd = [''ollama'', ''--version'']
          then Exited 0 ''ollama version is 0.5.7'' else NotFound),
        get_resp := (\<lambda>url t. if url = ollama_tags then Some ''{}'' else None)\<rparr>"
  let ?e2 = "bare_env\<lparr>exec := (\<lambda>cmd t. if cmd = [''ollama'', ''--version'']
          then Exited 0 ''ollama version is 0.5.7'' else NotFound),
        popen_ok := (\<lambda>cmd t. True)\<rparr>"
  let ?e3 = "bare_env\<lparr>exec := (\<lambda>cmd t. Exited 0 [])\<rparr>"
  let ?w3 = "empty_world\<lparr>fs := (\<lambda>p. if p = COMPOSE_FILE then Some (File (Text ''services:'')) else None)\<rparr>"
  have v: "strip ''ollama version is 0.5.7'' \<noteq> []"
    by (simp add: strip_def is_space_def)
  have c1: "cli_present ?e1 empty_world" and c2: "cli_present ?e2 empty_world"
    using v by (simp_all add: cli_present_def)
  have p1: "truthy (get_resp ?e1 ollama_tags (Suc (now empty_world)))"
    by simp
  have p2: "\<forall>t. \<not> truthy (get_resp ?e2 ollama_tags t)" and s2: "popen_ok ?e2 ollama_serve (now empty_world + 2)"
    by (simp_all add: bare_env_def)
  have h3: "(\<forall>t. get_resp ?e3 searxng_probe t = None) \<and> path_exists ?w3 COMPOSE_FILE
        \<and> (\<forall>c. fs ?w3 SEARXNG_DIR \<noteq> Some (File c))
        \<and> (\<forall>t. \<exists>out. exec ?e3 compose_up t = Exited 0 out)"
    by (simp add: bare_env_def path_exists_def COMPOSE_FILE_def SEARXNG_DIR_def)
  have t0: "trace empty_world = []"
    by (simp add: empty_world_def)
  from c1 p1 have "step_ollama ?e1 False empty_world
      = (Inr True, empty_world\<lparr>trace := trace empty_world @ [Exec [''ollama'', ''--version''],
           HttpGet ollama_tags]\<rparr>)"
    using service_launch_contract[of ?e1 empty_world False] by blast
  then have "step_ollama ?e1 False empty_world
      = (Inr True, empty_world\<lparr>trace := [Exec [''ollama'', ''--version''], HttpGet ollama_tags]\<rparr>)"
    by (simp add: t0)
  moreover from c2 p2 s2 have "step_ollama ?e2 False empty_world
      = (Inr False, empty_world\<lparr>trace := trace empty_world @ [Exec [''ollama'', ''--version''],
           HttpGet ollama_tags, Popen ollama_serve]
           @ concat (replicate 12 [Sleep 5, HttpGet ollama_tags])\<rparr>)"
    using service_launch_contract[of ?e2 empty_world False] by blast
  then have "step_ollama ?e2 False empty_world
      = (Inr False, empty_world\<lparr>trace := [Exec [''ollama'', ''--version''], HttpGet ollama_tags,
        Popen ollama_serve] @ concat (replicate 12 [Sleep 5, HttpGet ollama_tags])\<rparr>)"
    by (simp add: t0)
  moreover from h3 have "fst (step_searxng ?e3 False ?w3) = Inr False"
    using service_launch_contract[of ?e3 ?w3 False] by force
  ultimately show ?thesis by blast
qed

text \<open>
  C5 as stated fails in validate-only mode: with the Ollama command line tool installed and
  a service that never answers, \<^verbatim>\<open>step_ollama\<close> returns failure after the first probe and
  has not started \<^verbatim>\<open>ollama serve\<close>; \<^verbatim>\<open>step_searxng\<close> likewise has not run
  \<^verbatim>\<open>docker compose up\<close>, and in setup mode it does not run it either when the compose file
  is missing.
\<close>

theorem service_launch_contract_counterexample:
  "(\<forall>t. get_resp (bare_env\<lparr>exec := (\<lambda>cmd t. if cmd = [''ollama'', ''--version'']
          then Exited 0 ''ollama version is 0.5.7'' else NotFound),
        popen_ok := (\<lambda>cmd t. True)\<rparr>) ollama_tags t = None)
   \<and> fst (step_ollama (bare_env\<lparr>exec := (\<lambda>cmd t. if cmd = [''ollama'', ''--version'']
          then Exited 0 ''ollama version is 0.5.7'' else NotFound),
        popen_ok := (\<lambda>cmd t. True)\<rparr>) True empty_world) = Inr False
   \<and> count_list (trace (snd (step_ollama (bare_env\<lparr>exec := (\<lambda>cmd t. if cmd = [''ollama'', ''--version'']
          then Exited 0 ''ollama version is 0.5.7'' else NotFound),
        popen_ok := (\<lambda>cmd t. True)\<rparr>) True empty_world))) (Popen ollama_serve) = 0
   \<and> (\<forall>t. get_resp (bare_env\<lparr>exec := (\<lambda>cmd t. Exited 0 [])\<rparr>) searxng_probe t = None)
   \<and> fst (step_searxng (bare_env\<lparr>exec := (\<lambda>cmd t. Exited 0 [])\<rparr>) True empty_world) = Inr False
   \<and> count_list (trace (snd (step_searxng (bare_env\<lparr>exec := (\<lambda>cmd t. Exited 0 [])\<rparr>) True
        empty_world))) (Exec compose_up) = 0
   \<and> fst (step_searxng (bare_env\<lparr>exec := (\<lambda>cmd t. Exited 0 [])\<rparr>) False empty_world) = Inr False
   \<and> count_list (trace (snd (step_searxng (bare_env\<lparr>exec := (\<lambda>cmd t. Exited 0 [])\<rparr>) False
        empty_world))) (Exec compose_up) = 0"
proof -
  let ?e2 = "bare_env\<lparr>exec := (\<lambda>cmd t. if cmd = [''ollama'', ''--version'']
          then Exited 0 ''ollama version is 0.5.7'' else NotFound),
        popen_ok := (\<lambda>cmd t. True)\<rparr>"
  let ?e3 = "bare_env\<lparr>exec := (\<lambda>cmd t. Exited 0 [])\<rparr>"
  have v: "strip ''ollama version is 0.5.7'' \<noteq> []"
    by (simp add: strip_def is_space_def)
  have c2: "cli_present ?e2 empty_world"
    using v by (simp add: cli_present_def)
  have p2: "\<forall>t. get_resp ?e2 ollama_tags t = None"
    by (simp add: bare_env_def)
  then have "\<not> truthy (get_resp ?e2 ollama_tags (Suc (now empty_world)))"
    by simp
  from step_ollama_check_only[OF c2 this]
  have a: "step_ollama ?e2 True empty_world
      = (Inr False, empty_world\<lparr>trace := trace empty_world @ [Exec [''ollama'', ''--version''],
           HttpGet ollama_tags]\<rparr>)" .
  have p3: "\<forall>t. get_resp ?e3 searxng_probe t = None"
    by (simp add: bare_env_def)
  then have n3: "get_resp ?e3 searxng_probe (now empty_world) = None"
    by blast
  have b: "step_searxng ?e3 True empty_world
      = (Inr False, empty_world\<lparr>trace := trace empty_world @ [HttpGet searxng_probe]\<rparr>)"
    by (rule step_searxng_check_only[OF n3])
  have "\<not> path_exists empty_world COMPOSE_FILE"
    by (simp add: path_exists_def empty_world_def)
  from step_searxng_no_compose_file[OF n3 this]
  have c: "step_searxng ?e3 False empty_world
      = (Inr False, empty_world\<lparr>trace := trace empty_world @ [HttpGet searxng_probe]\<rparr>)" .
  have t0: "trace empty_world = []"
    by (simp add: empty_world_def)
  show ?thesis
    unfolding a b c using p2 p3 by (simp add: t0)
qed

section \<open>Properties of the smoke test\<close>

subsection \<open>The bodies that are handled without an exception\<close>

lemma llm_body_ok_iff:
  "llm_body e body = Inr () \<longleftrightarrow>
     json_loads e body = None
     \<or> (\<exists>kvs. json_loads e body = Some (JObj kvs)
          \<and> (\<exists>s. (case map_of (rev kvs) ''response'' of None \<Rightarrow> JStr [] | Some v \<Rightarrow> v) = JStr s)
          \<and> ((\<exists>n. (case map_of (rev kvs) ''total_duration'' of None \<Rightarrow> JInt 0 | Some v \<Rightarrow> v) = JInt n
                   \<and> \<bar>n\<bar> < 2 ^ 1024 - 2 ^ 970)
             \<or> (\<exists>d. (case map_of (rev kvs) ''total_duration'' of None \<Rightarrow> JInt 0 | Some v \<Rightarrow> v) = JFloat d)
             \<or> (\<exists>b. (case map_of (rev kvs) ''total_duration'' of None \<Rightarrow> JInt 0 | Some v \<Rightarrow> v) = JBool b)))"
proof (cases "json_loads e body")
  case None
  then show ?thesis by (simp add: llm_body_def)
next
  case (Some data)
  show ?thesis
  proof (cases data)
    case (JObj kvs)
    with Some show ?thesis
      by (auto simp: llm_body_def int_as_float_def split: json.splits option.splits if_splits)
  qed (use Some in \<open>simp_all add: llm_body_def\<close>)
qed

lemma search_body_ok_iff:
  "search_body e body = Inr () \<longleftrightarrow>
     json_loads e body = None
     \<or> (\<exists>kvs. json_loads e body = Some (JObj kvs)
          \<and> (case map_of (rev kvs) ''results'' of None \<Rightarrow> JArr [] | Some v \<Rightarrow> v)
               \<notin> {JNull} \<union> range JBool \<union> range JInt \<union> range JFloat)"
proof (cases "json_loads e body")
  case None
  then show ?thesis by (simp add: search_body_def)
next
  case (Some data)
  show ?thesis
  proof (cases data)
    case (JObj kvs)
    with Some show ?thesis
      by (auto simp: search_body_def split: json.splits option.splits)
  qed (use Some in \<open>simp_all add: search_body_def\<close>)
qed

subsection \<open>The bodies that raise\<close>

text \<open>A body that is valid JSON and not an object has no \<^verbatim>\<open>get\<close>.\<close>

lemma llm_body_not_object:
  assumes "json_loads e body = Some j" and "\<forall>kvs. j \<noteq> JObj kvs"
  shows "llm_body e body = Inl AttributeError"
  using assms by (cases j) (simp_all add: llm_body_def)

lemma search_body_not_object:
  assumes "json_loads e body = Some j" and "\<forall>kvs. j \<noteq> JObj kvs"
  shows "search_body e body = Inl AttributeError"
  using assms by (cases j) (simp_all add: search_body_def)

text \<open>An integer duration beyond the range of a float cannot be divided by \<^verbatim>\<open>1e9\<close>.\<close>

lemma llm_body_overflow:
  assumes "json_loads e body = Some (JObj [(''response'', JStr s), (''total_duration'', JInt n)])"
    and "\<bar>n\<bar> \<ge> 2 ^ 1024 - 2 ^ 970"
  shows "llm_body e body = Inl OverflowError"
  using assms by (simp add: llm_body_def int_as_float_def)

subsection \<open>The verdict\<close>

text \<open>
  When the handling of the two bodies raises nothing, all three sub-checks are made and
  the verdict is success exactly when the LLM and the search both answered; what the
  network endpoints answer does not enter it.
\<close>

lemma smoke_test_verdict:
  assumes "\<not> truthy (post_resp e ollama_generate (now w))
         \<or> llm_body e (the (post_resp e ollama_generate (now w))) = Inr ()"
    and "\<not> truthy (get_resp e searxng_query (now w + 1))
         \<or> search_body e (the (get_resp e searxng_query (now w + 1))) = Inr ()"
  shows "smoke_test e ms w =
     (Inr (truthy (post_resp e ollama_generate (now w)) \<and> truthy (get_resp e searxng_query (now w + 1))),
      w\<lparr>trace := trace w @ [HttpPost ollama_generate, HttpGet searxng_query,
           HttpGet ''https://httpbin.org/get'']
         @ (if truthy (get_resp e ''https://httpbin.org/get'' (now w + 2)) then []
            else [HttpGet ''https://example.com''])\<rparr>)"
  using assms
  by (auto simp: smoke_test_def http_post_json_def http_get_def bind_def emit_def now_def Let_def)

lemma smoke_test_success_only_if:
  "fst (smoke_test e ms w) = Inr True \<Longrightarrow>
   truthy (post_resp e ollama_generate (now w)) \<and> truthy (get_resp e searxng_query (now w + 1))"
  by (auto simp: smoke_test_def http_post_json_def http_get_def bind_def emit_def now_def Let_def
      split: if_splits sum.splits)

text \<open>
  When the handling of the LLM's body raises, the smoke test raises with it, and neither
  the search nor the network is asked; when the handling of the search's body raises, the
  network is not asked.
\<close>

lemma smoke_test_llm_raises:
  assumes "truthy (post_resp e ollama_generate (now w))"
    and "llm_body e (the (post_resp e ollama_generate (now w))) = Inl x"
  shows "smoke_test e ms w = (Inl x, w\<lparr>trace := trace w @ [HttpPost ollama_generate]\<rparr>)"
  using assms by (simp add: smoke_test_def http_post_json_def emit_def)

lemma smoke_test_search_raises:
  assumes "\<not> truthy (post_resp e ollama_generate (now w))
         \<or> llm_body e (the (post_resp e ollama_generate (now w))) = Inr ()"
    and "truthy (get_resp e searxng_query (now w + 1))"
    and "search_body e (the (get_resp e searxng_query (now w + 1))) = Inl x"
  shows "smoke_test e ms w
     = (Inl x, w\<lparr>trace := trace w @ [HttpPost ollama_generate, HttpGet searxng_query]\<rparr>)"
  using assms
  by (auto simp: smoke_test_def http_post_json_def http_get_def emit_def now_def)

section \<open>A validate-only run\<close>

subsection \<open>The steps on the machine that has everything\<close>

lemma dropWhile_hd: "xs \<noteq> [] \<Longrightarrow> \<not> P (hd xs) \<Longrightarrow> dropWhile P xs = xs"
  by (cases xs) auto

lemma strip_plain: "\<not> is_space (hd s) \<Longrightarrow> \<not> is_space (last s) \<Longrightarrow> s \<noteq> [] \<Longrightarrow> strip s = s"
  by (simp add: strip_def dropWhile_hd hd_rev)

lemma ready_run:
  "run ready_env [''ollama'', ''--version''] True False w = (Inr (Some ''ollama version is 0.5.7''), emit (Exec [''ollama'', ''--version'']) w)"
  "run ready_env [''docker'', ''--version''] True False w = (Inr (Some ''Docker version 27.0.3''), emit (Exec [''docker'', ''--version'']) w)"
  "run ready_env [''docker'', ''compose'', ''version''] True False w = (Inr (Some ''Docker Compose version v2.28.1''), emit (Exec [''docker'', ''compose'', ''version'']) w)"
  "run ready_env [''docker'', ''info''] True True w = (Inr (Some ''Server Version: 27.0.3''), emit (Exec [''docker'', ''info'']) w)"
  "run ready_env [''ffmpeg'', ''-version''] True False w = (Inr (Some ''ffmpeg version 6.1''), emit (Exec [''ffmpeg'', ''-version'']) w)"
  by (simp_all add: run_def run_result_def ready_env_def strip_plain is_space_def)

lemma ready_python: "step_python_deps ready_env True w = (Inr True, snd (missing_packages ready_env packages_checked w))"
  by (simp add: step_python_deps_def ready_env_def bare_env_def packages_checked_def)

lemma missing_packages_snd:
  "snd (missing_packages e ((pkg, m) # ps) w) = snd (missing_packages e ps (emit (Import m) w))"
  by (simp split: prod.splits)

lemma missing_packages_fs: "fs (snd (missing_packages e ps w)) = fs w"
proof (induction ps arbitrary: w)
  case Nil
  then show ?case by simp
next
  case (Cons a ps)
  obtain pkg m where "a = (pkg, m)" by (cases a)
  then show ?case by (simp only: missing_packages_snd Cons.IH emit_fs)
qed

lemma missing_packages_stdin: "stdin (snd (missing_packages e ps w)) = stdin w"
proof (induction ps arbitrary: w)
  case Nil
  then show ?case by simp
next
  case (Cons a ps)
  obtain pkg m where "a = (pkg, m)" by (cases a)
  then show ?case by (simp only: missing_packages_snd Cons.IH emit_stdin)
qed

lemma ready_get:
  "http_get ready_env ollama_tags w = (Some tags_body, emit (HttpGet ollama_tags) w)"
  "http_get ready_env searxng_probe w = (Some results_body, emit (HttpGet searxng_probe) w)"
  "http_get ready_env searxng_query w = (Some results_body, emit (HttpGet searxng_query) w)"
  "http_get ready_env ''https://httpbin.org/get'' w = (Some ''{}'', emit (HttpGet ''https://httpbin.org/get'') w)"
  by (simp_all add: http_get_def ready_env_def ollama_tags_def searxng_probe_def searxng_query_def
      OLLAMA_URL_def SEARXNG_URL_def)

lemma ready_ollama: "step_ollama ready_env True w =
   (Inr True, emit (HttpGet ollama_tags) (emit (Exec [''ollama'', ''--version'']) w))"
  by (simp add: step_ollama_def ready_run ready_get tags_body_def)

lemma ready_docker: "step_docker_and_ffmpeg ready_env True w =
   (Inr True, emit (Exec [''ffmpeg'', ''-version'']) (emit (Exec [''docker'', ''info''])
      (emit (Exec [''docker'', ''compose'', ''version'']) (emit (Exec [''docker'', ''--version'']) w))))"
  by (simp add: step_docker_and_ffmpeg_def check_ffmpeg_def ready_run)

lemma ready_not_found:
  "run ready_env nvidia_smi True False w = (Inr None, emit (Exec nvidia_smi) w)"
  "run ready_env rocm_smi True False w = (Inr None, emit (Exec rocm_smi) w)"
  by (simp_all add: run_def run_result_def ready_env_def bare_env_def nvidia_smi_def rocm_smi_def)

lemma ready_hardware:
  "step_hardware ready_env w =
    (Inr \<lparr>hw_has_gpu = False, hw_gpu_type = ''none'', hw_gpu_name = None, hw_vram = 0,
          hw_ram = 8, hw_cores = Some 4\<rparr>,
     emit (Exec rocm_smi) (emit (Exec nvidia_smi) (emit (Import ''psutil'') w)))"
  by (simp add: step_hardware_def detect_nvidia_def detect_amd_def detect_amd_rocm_def
      ready_not_found or_not_found_def not_found_def cpu_cores_def)
     (simp add: ready_env_def bare_env_def)

lemma ready_tier:
  "find_best_tier \<lparr>hw_has_gpu = False, hw_gpu_type = ''none'', hw_gpu_name = None, hw_vram = 0,
          hw_ram = 8, hw_cores = Some 4\<rparr> = default_selection"
  by (simp add: find_best_tier_def MODEL_TIERS_def mk_tier_def tier_matches_def)

lemma ready_json: "json_loads ready_env tags_body
    = Some (JObj [(''models'', JArr [JObj [(''name'', JStr ''phi3:mini'')]])])"
  by (simp add: ready_env_def)

lemma ready_ollama_models:
  "ollama_models ready_env w = (Inr {JStr ''phi3:mini''}, emit (HttpGet ollama_tags) w)"
  by (simp add: ollama_models_def ready_get tags_models_def ready_json)
     (simp add: tags_body_def)

lemma ready_models:
  "step_models ready_env \<lparr>hw_has_gpu = False, hw_gpu_type = ''none'', hw_gpu_name = None, hw_vram = 0,
          hw_ram = 8, hw_cores = Some 4\<rparr> True w =
    (Inr \<lparr>m_extract = ''phi3:mini'', m_verify = ''phi3:mini'', m_write = ''phi3:mini''\<rparr>,
     emit (HttpGet ollama_tags) w)"
  by (simp add: step_models_def ready_tier default_selection_def ready_ollama_models Let_def)

lemma ready_searxng:
  "step_searxng ready_env True w = (Inr True, emit (HttpGet searxng_probe) w)"
  by (simp add: step_searxng_def searxng_is_running_def ready_get)

lemma make_dirs_ok:
  assumes "\<forall>d \<in> set ds. \<forall>c. fs w d \<noteq> Some (File c)"
  shows "\<exists>w'. make_dirs ds w = (Inr (), w')
      \<and> fs w' = (\<lambda>p. if p \<in> set ds then Some Dir else fs w p)
      \<and> stdin w' = stdin w
      \<and> (\<exists>evs. trace w' = trace w @ evs \<and> set evs = Mkdir ` {d \<in> set ds. fs w d = None})"
  using assms
proof (induction ds arbitrary: w)
  case Nil
  then show ?case by auto
next
  case (Cons d ds)
  from Cons.prems have nf: "\<forall>c. fs w d \<noteq> Some (File c)" by simp
  show ?case
  proof (cases "fs w d")
    case None
    let ?w1 = "emit (Mkdir d) (w\<lparr>fs := (fs w)(d \<mapsto> Dir)\<rparr>)"
    have m: "mkdir_exist_ok d w = (Inr (), ?w1)"
      using None by (simp add: mkdir_exist_ok_def)
    have "\<forall>x \<in> set ds. \<forall>c. fs ?w1 x \<noteq> Some (File c)"
      using Cons.prems by simp
    from Cons.IH[OF this] obtain w' evs where
      w': "make_dirs ds ?w1 = (Inr (), w')"
      "fs w' = (\<lambda>p. if p \<in> set ds then Some Dir else fs ?w1 p)"
      "stdin w' = stdin ?w1" "trace w' = trace ?w1 @ evs"
      "set evs = Mkdir ` {x \<in> set ds. fs ?w1 x = None}"
      by blast
    have "make_dirs (d # ds) w = (Inr (), w')"
      by (simp add: m w'(1))
    moreover have "fs w' = (\<lambda>p. if p \<in> set (d # ds) then Some Dir else fs w p)"
      by (auto simp: w'(2))
    moreover have "stdin w' = stdin w"
      by (simp add: w'(3))
    moreover have "trace w' = trace w @ (Mkdir d # evs)"
      by (simp add: w'(4))
    moreover have "set (Mkdir d # evs) = Mkdir ` {x \<in> set (d # ds). fs w x = None}"
      using None by (auto simp: w'(5))
    ultimately show ?thesis by blast
  next
    case (Some n)
    with nf have dir: "fs w d = Some Dir" by (cases n) auto
    then have m: "mkdir_exist_ok d w = (Inr (), w)"
      by (simp add: mkdir_exist_ok_def)
    have "\<forall>x \<in> set ds. \<forall>c. fs w x \<noteq> Some (File c)"
      using Cons.prems by simp
    from Cons.IH[OF this] obtain w' evs where
      w': "make_dirs ds w = (Inr (), w')"
      "fs w' = (\<lambda>p. if p \<in> set ds then Some Dir else fs w p)"
      "stdin w' = stdin w" "trace w' = trace w @ evs"
      "set evs = Mkdir ` {x \<in> set ds. fs w x = None}"
      by blast
    have "make_dirs (d # ds) w = (Inr (), w')"
      by (simp add: m w'(1))
    moreover have "fs w' = (\<lambda>p. if p \<in> set (d # ds) then Some Dir else fs w p)"
      using dir by (auto simp: w'(2))
    moreover have "set evs = Mkdir ` {x \<in> set (d # ds). fs w x = None}"
      using dir by (auto simp: w'(5))
    ultimately show ?thesis using w'(3,4) by blast
  qed
qed

lemma step_config_check_only_makes_dirs:
  assumes "path_exists w CONFIG_FILE"
    and "\<forall>d \<in> set runtime_dirs. \<forall>c. fs w d \<noteq> Some (File c)"
  shows "\<exists>w'. step_config e ms h True w = (Inr True, w')
      \<and> fs w' = (\<lambda>p. if p \<in> set runtime_dirs then Some Dir else fs w p)
      \<and> stdin w' = stdin w
      \<and> (\<exists>evs. trace w' = trace w @ evs \<and> set evs = Mkdir ` {d \<in> set runtime_dirs. fs w d = None})"
proof -
  from make_dirs_ok[OF assms(2)] obtain w' where
    "make_dirs runtime_dirs w = (Inr (), w')"
    "fs w' = (\<lambda>p. if p \<in> set runtime_dirs then Some Dir else fs w p)"
    "stdin w' = stdin w"
    "\<exists>evs. trace w' = trace w @ evs \<and> set evs = Mkdir ` {d \<in> set runtime_dirs. fs w d = None}"
    by blast
  moreover from this(1) assms(1) have "step_config e ms h True w = (Inr True, w')"
    by (simp add: step_config_def Let_def)
  ultimately show ?thesis by blast
qed

lemma ready_service_checks:
  assumes "path_exists w CONFIG_FILE" and "\<forall>d \<in> set runtime_dirs. is_dir w d"
  shows "service_checks ready_env \<lparr>m_extract = ''phi3:mini'', m_verify = ''phi3:mini'', m_write = ''phi3:mini''\<rparr> w
     = (Inr True, emit (HttpGet searxng_probe) (emit (HttpGet ollama_tags) (emit (HttpGet ollama_tags) w)))"
  using assms
  by (simp add: service_checks_def ready_get ready_ollama_models models_available_def
      searxng_is_running_def path_exists_def is_dir_def)
     (simp add: tags_body_def)

lemma ready_smoke:
  "smoke_test ready_env ms w
     = (Inr True, emit (HttpGet ''https://httpbin.org/get'') (emit (HttpGet searxng_query)
          (emit (HttpPost ollama_generate) w)))"
  by (simp add: smoke_test_def http_post_json_def ready_get llm_body_def search_body_def Let_def)
     (simp add: ready_env_def generate_body_def results_body_def tags_body_def int_as_float_def)

lemma check_flag: "''--check'' \<in> set [''--check'']"
  by simp

lemma main_check_ready:
  "\<exists>w'. main ready_env [''--check''] configured_world = (Inr (), w')
     \<and> fs w' = (\<lambda>p. if p \<in> set runtime_dirs then Some Dir else fs configured_world p)"
proof -
  let ?ms = "\<lparr>m_extract = ''phi3:mini'', m_verify = ''phi3:mini'', m_write = ''phi3:mini''\<rparr>"
  let ?h = "\<lparr>hw_has_gpu = False, hw_gpu_type = ''none'', hw_gpu_name = None, hw_vram = 0,
          hw_ram = 8, hw_cores = Some 4\<rparr>"
  define w1 where "w1 = snd (missing_packages ready_env packages_checked configured_world)"
  define w2 where "w2 = emit (HttpGet ollama_tags) (emit (Exec [''ollama'', ''--version'']) w1)"
  define w3 where "w3 = emit (Exec [''ffmpeg'', ''-version'']) (emit (Exec [''docker'', ''info''])
      (emit (Exec [''docker'', ''compose'', ''version'']) (emit (Exec [''docker'', ''--version'']) w2)))"
  define w4 where "w4 = emit (Exec rocm_smi) (emit (Exec nvidia_smi) (emit (Import ''psutil'') w3))"
  define w5 where "w5 = emit (HttpGet ollama_tags) w4"
  define w6 where "w6 = emit (HttpGet searxng_probe) w5"
  have s1: "step_python_deps ready_env True configured_world = (Inr True, w1)"
    by (simp add: ready_python w1_def)
  have s2: "step_ollama ready_env True w1 = (Inr True, w2)"
    by (simp add: ready_ollama w2_def)
  have s3: "step_docker_and_ffmpeg ready_env True w2 = (Inr True, w3)"
    by (simp add: ready_docker w3_def)
  have s4: "step_hardware ready_env w3 = (Inr ?h, w4)"
    by (simp add: ready_hardware w4_def)
  have s5: "step_models ready_env ?h True w4 = (Inr ?ms, w5)"
    by (simp add: ready_models w5_def)
  have s6: "step_searxng ready_env True w5 = (Inr True, w6)"
    by (simp add: ready_searxng w6_def)
  have fs6: "fs w6 = fs configured_world"
    by (simp add: w6_def w5_def w4_def w3_def w2_def w1_def missing_packages_fs)
  have c6: "path_exists w6 CONFIG_FILE"
    by (simp add: path_exists_def fs6 configured_world_def)
  have d6: "\<forall>d \<in> set runtime_dirs. \<forall>c. fs w6 d \<noteq> Some (File c)"
    by (simp add: fs6 configured_world_def runtime_dirs_def CONFIG_FILE_def)
  from step_config_check_only_makes_dirs[OF c6 d6, of ready_env ?ms ?h] obtain w7 where
    s7: "step_config ready_env ?ms ?h True w6 = (Inr True, w7)"
    and fs7: "fs w7 = (\<lambda>p. if p \<in> set runtime_dirs then Some Dir else fs w6 p)"
    by blast
  have c7: "path_exists w7 CONFIG_FILE"
    by (simp add: path_exists_def fs7 fs6 configured_world_def)
  have d7: "\<forall>d \<in> set runtime_dirs. is_dir w7 d"
    by (simp add: is_dir_def fs7)
  define w8 where "w8 = emit (HttpGet ''https://httpbin.org/get'') (emit (HttpGet searxng_query)
          (emit (HttpPost ollama_generate)
            (emit (HttpGet searxng_probe) (emit (HttpGet ollama_tags) (emit (HttpGet ollama_tags) w7)))))"
  have s8: "step_validate_and_test ready_env ?ms True w7 = (Inr True, w8)"
    by (simp add: step_validate_and_test_def ready_service_checks[OF c7 d7] ready_smoke w8_def)
  have "main ready_env [''--check''] configured_world = (Inr (), w8)"
    unfolding main_def Let_def by (simp only: check_flag if_True if_False bind_Inr s1 s2 s3 s4 s5 s6 s7 s8 simp_thms)
  moreover have "fs w8 = (\<lambda>p. if p \<in> set runtime_dirs then Some Dir else fs configured_world p)"
    by (simp add: w8_def fs7 fs6 cong: if_cong)
  ultimately show ?thesis by blast
qed

subsection \<open>What a validate-only run leaves behind\<close>

lemma check_ffmpeg_installs:
  "Exec apt_ffmpeg \<in> set (trace (snd (step_docker_and_ffmpeg
      (ready_env\<lparr>exec := (\<lambda>cmd t.
         if cmd = [''docker'', ''--version''] then Exited 0 ''Docker version 27.0.3''
         else if cmd = [''docker'', ''compose'', ''version''] then Exited 0 ''Docker Compose version v2.28.1''
         else if cmd = [''docker'', ''info''] then Exited 0 ''Server Version: 27.0.3''
         else if cmd = apt_ffmpeg then Exited 0 []
         else NotFound)\<rparr>) True empty_world)))"
  by (simp add: step_docker_and_ffmpeg_def check_ffmpeg_def run_def run_result_def ready_env_def
      bare_env_def strip_plain is_space_def catch_def apt_ffmpeg_def)

text \<open>
  C2 fails on the code. The wizard is started with \<^verbatim>\<open>--check\<close> in a project directory that
  holds \<^verbatim>\<open>config.yaml\<close> and none of the runtime directories, on a machine where everything
  is installed and running. The run exits with 0, and afterwards the five runtime
  directories exist: \<^verbatim>\<open>step_config\<close> makes them after the parts that look at
  \<open>check_only\<close>. On a Linux machine without FFmpeg, the validate-only run of
  \<^verbatim>\<open>step_docker_and_ffmpeg\<close> also starts \<^verbatim>\<open>sudo apt-get install -y ffmpeg\<close>.
\<close>

theorem validate_only_creates_directories:
  "fst (script ready_env [''--check''] configured_world) = 0
   \<and> map (fs configured_world) runtime_dirs = [None, None, None, None, None]
   \<and> map (fs (snd (script ready_env [''--check''] configured_world))) runtime_dirs
       = [Some Dir, Some Dir, Some Dir, Some Dir, Some Dir]
   \<and> Exec apt_ffmpeg \<in> set (trace (snd (step_docker_and_ffmpeg
      (ready_env\<lparr>exec := (\<lambda>cmd t.
         if cmd = [''docker'', ''--version''] then Exited 0 ''Docker version 27.0.3''
         else if cmd = [''docker'', ''compose'', ''version''] then Exited 0 ''Docker Compose version v2.28.1''
         else if cmd = [''docker'', ''info''] then Exited 0 ''Server Version: 27.0.3''
         else if cmd = apt_ffmpeg then Exited 0 []
         else NotFound)\<rparr>) True empty_world)))"
proof -
  from main_check_ready obtain w' where
    m: "main ready_env [''--check''] configured_world = (Inr (), w')"
    and f: "fs w' = (\<lambda>p. if p \<in> set runtime_dirs then Some Dir else fs configured_world p)"
    by blast
  have "script ready_env [''--check''] configured_world = (0, w')"
    by (simp add: script_def m)
  moreover have "map (fs configured_world) runtime_dirs = [None, None, None, None, None]"
    by (simp add: configured_world_def runtime_dirs_def CONFIG_FILE_def empty_world_def)
  moreover have "map (fs w') runtime_dirs = [Some Dir, Some Dir, Some Dir, Some Dir, Some Dir]"
    by (simp add: f runtime_dirs_def)
  ultimately show ?thesis using check_ffmpeg_installs by simp
qed

section \<open>The smoke test on an answer that is not a JSON object\<close>

lemma installed_checks:
  "path_exists (installed_world\<lparr>trace := tr\<rparr>) CONFIG_FILE"
  "\<forall>d \<in> set runtime_dirs. is_dir (installed_world\<lparr>trace := tr\<rparr>) d"
  by (simp_all add: installed_world_def empty_world_def path_exists_def is_dir_def
      CONFIG_FILE_def runtime_dirs_def)

lemma installed_trace: "trace installed_world = []" "installed_world\<lparr>trace := []\<rparr> = installed_world"
  by (simp_all add: installed_world_def empty_world_def)

lemma service_checks_post_resp:
  "service_checks (e\<lparr>post_resp := p\<rparr>) ms w = service_checks e ms w"
  by (simp add: service_checks_def ollama_models_def tags_models_def searxng_is_running_def
      http_get_def)

lemma array_search_get:
  "http_get array_search_env ollama_tags w = http_get ready_env ollama_tags w"
  "http_get array_search_env searxng_probe w = http_get ready_env searxng_probe w"
  "http_get array_search_env searxng_query w = (Some array_body, emit (HttpGet searxng_query) w)"
  by (simp_all add: http_get_def array_search_env_def ollama_tags_def searxng_probe_def
      searxng_query_def OLLAMA_URL_def SEARXNG_URL_def)

lemma array_search_service_checks:
  "service_checks array_search_env ms w = service_checks ready_env ms w"
proof -
  have tm: "tags_models array_search_env resp = tags_models ready_env resp" for resp
    by (simp add: tags_models_def array_search_env_def)
  have om: "ollama_models array_search_env w1 = ollama_models ready_env w1" for w1
    by (simp add: ollama_models_def array_search_get tm cong: if_cong)
  show ?thesis
    by (simp add: service_checks_def searxng_is_running_def array_search_get om cong: if_cong)
qed

lemma installed_service_checks:
  "service_checks ready_env phi3_models installed_world
     = (Inr True, installed_world\<lparr>trace := [HttpGet ollama_tags, HttpGet ollama_tags,
          HttpGet searxng_probe]\<rparr>)"
  using ready_service_checks[of installed_world] installed_checks[of "[]"]
  by (simp add: installed_trace phi3_models_def emit_def)

lemma array_bodies:
  "llm_body ready_env array_body = Inl AttributeError"
  "search_body ready_env array_body = Inl AttributeError"
  "llm_body ready_env generate_body = Inr ()"
proof -
  have "json_loads ready_env array_body = Some (JArr [])"
    by (simp add: ready_env_def array_body_def tags_body_def generate_body_def results_body_def)
  then show "llm_body ready_env array_body = Inl AttributeError"
    "search_body ready_env array_body = Inl AttributeError"
    by (simp_all add: llm_body_not_object search_body_not_object)
  show "llm_body ready_env generate_body = Inr ()"
    by (simp add: llm_body_def ready_env_def generate_body_def tags_body_def int_as_float_def)
qed

lemma body_env:
  "llm_body array_llm_env = llm_body ready_env"
  "llm_body array_search_env = llm_body ready_env"
  "search_body array_search_env = search_body ready_env"
  by (simp_all add: llm_body_def search_body_def array_llm_env_def array_search_env_def fun_eq_iff)

lemma array_llm_smoke:
  "smoke_test array_llm_env ms w = (Inl AttributeError, w\<lparr>trace := trace w @ [HttpPost ollama_generate]\<rparr>)"
proof -
  have p: "post_resp array_llm_env ollama_generate (now w) = Some array_body"
    by (simp add: array_llm_env_def)
  have "truthy (post_resp array_llm_env ollama_generate (now w))"
    by (simp add: p array_body_def)
  moreover have "llm_body array_llm_env (the (post_resp array_llm_env ollama_generate (now w)))
      = Inl AttributeError"
    by (simp add: p body_env array_bodies)
  ultimately show ?thesis
    by (rule smoke_test_llm_raises)
qed

lemma array_search_smoke:
  "smoke_test array_search_env ms w
     = (Inl AttributeError, w\<lparr>trace := trace w @ [HttpPost ollama_generate, HttpGet searxng_query]\<rparr>)"
proof -
  have p: "post_resp array_search_env ollama_generate (now w) = Some generate_body"
    by (simp add: array_search_env_def ready_env_def)
  have g: "get_resp array_search_env searxng_query t = Some array_body" for t
    by (simp add: array_search_env_def)
  have "\<not> truthy (post_resp array_search_env ollama_generate (now w))
      \<or> llm_body array_search_env (the (post_resp array_search_env ollama_generate (now w))) = Inr ()"
    by (simp add: p body_env array_bodies)
  moreover have "truthy (get_resp array_search_env searxng_query (now w + 1))"
    by (simp add: g array_body_def)
  moreover have "search_body array_search_env (the (get_resp array_search_env searxng_query (now w + 1)))
      = Inl AttributeError"
    by (simp add: g body_env array_bodies)
  ultimately show ?thesis
    by (rule smoke_test_search_raises)
qed

text \<open>
  C8 fails on the code. \<^verbatim>\<open>step_validate_and_test\<close> is run in a project directory that holds
  \<^verbatim>\<open>config.yaml\<close> and the five runtime directories, on a machine where all services run
  and every service check passes. When the LLM answers the generate request of the smoke
  test with a body that is valid JSON but not an object (here the empty array), the LLM
  probe has responded, yet the step raises \<^verbatim>\<open>AttributeError\<close> (\<^verbatim>\<open>data.get\<close> on a list, and
  only \<^verbatim>\<open>JSONDecodeError\<close> is caught): it returns no verdict, and neither the search
  sub-check nor the network sub-check is run. When it is the search that answers with such
  a body, the step raises after the search sub-check, and the network sub-check is not
  run. On the same machine with answers that are JSON objects all three sub-checks are
  run and the verdict is success.
\<close>

theorem smoke_test_raises_on_json_array:
  "(\<forall>t. post_resp array_llm_env ollama_generate t = Some ''[]'')
   \<and> step_validate_and_test array_llm_env phi3_models True installed_world
       = (Inl AttributeError, installed_world\<lparr>trace := [HttpGet ollama_tags, HttpGet ollama_tags,
            HttpGet searxng_probe, HttpPost ollama_generate]\<rparr>)
   \<and> (\<forall>t. post_resp array_search_env ollama_generate t = Some generate_body)
   \<and> (\<forall>t. get_resp array_search_env searxng_query t = Some ''[]'')
   \<and> step_validate_and_test array_search_env phi3_models True installed_world
       = (Inl AttributeError, installed_world\<lparr>trace := [HttpGet ollama_tags, HttpGet ollama_tags,
            HttpGet searxng_probe, HttpPost ollama_generate, HttpGet searxng_query]\<rparr>)
   \<and> step_validate_and_test ready_env phi3_models True installed_world
       = (Inr True, installed_world\<lparr>trace := [HttpGet ollama_tags, HttpGet ollama_tags,
            HttpGet searxng_probe, HttpPost ollama_generate, HttpGet searxng_query,
            HttpGet ''https://httpbin.org/get'']\<rparr>)"
proof -
  let ?w = "installed_world\<lparr>trace := [HttpGet ollama_tags, HttpGet ollama_tags,
          HttpGet searxng_probe]\<rparr>"
  have c1: "service_checks array_llm_env phi3_models installed_world = (Inr True, ?w)"
    by (simp add: array_llm_env_def service_checks_post_resp installed_service_checks)
  have c2: "service_checks array_search_env phi3_models installed_world = (Inr True, ?w)"
    by (simp add: array_search_service_checks installed_service_checks)
  have "\<forall>t. post_resp array_llm_env ollama_generate t = Some ''[]''"
    by (simp add: array_llm_env_def array_body_def)
  moreover have "step_validate_and_test array_llm_env phi3_models True installed_world
       = (Inl AttributeError, installed_world\<lparr>trace := [HttpGet ollama_tags, HttpGet ollama_tags,
            HttpGet searxng_probe, HttpPost ollama_generate]\<rparr>)"
    by (simp add: step_validate_and_test_def c1 array_llm_smoke)
  moreover have "\<forall>t. post_resp array_search_env ollama_generate t = Some generate_body"
    by (simp add: array_search_env_def ready_env_def)
  moreover have "\<forall>t. get_resp array_search_env searxng_query t = Some ''[]''"
    by (simp add: array_search_env_def array_body_def)
  moreover have "step_validate_and_test array_search_env phi3_models True installed_world
       = (Inl AttributeError, installed_world\<lparr>trace := [HttpGet ollama_tags, HttpGet ollama_tags,
            HttpGet searxng_probe, HttpPost ollama_generate, HttpGet searxng_query]\<rparr>)"
    by (simp add: step_validate_and_test_def c2 array_search_smoke)
  moreover have "step_validate_and_test ready_env phi3_models True installed_world
       = (Inr True, installed_world\<lparr>trace := [HttpGet ollama_tags, HttpGet ollama_tags,
            HttpGet searxng_probe, HttpPost ollama_generate, HttpGet searxng_query,
            HttpGet ''https://httpbin.org/get'']\<rparr>)"
    by (simp add: step_validate_and_test_def installed_service_checks ready_smoke emit_def)
  ultimately show ?thesis by blast
qed

section \<open>What validate-only mode leaves untouched\<close>

lemma only_dirs_added_refl: "only_dirs_added ds w w"
  by (simp add: only_dirs_added_def)

lemma only_dirs_added_fs: "only_dirs_added ds w w1 \<Longrightarrow> fs w2 = fs w1 \<Longrightarrow> only_dirs_added ds w w2"
  by (simp add: only_dirs_added_def)

lemma only_dirs_added_trans:
  "only_dirs_added ds w w1 \<Longrightarrow> only_dirs_added ds w1 w2 \<Longrightarrow> only_dirs_added ds w w2"
  unfolding only_dirs_added_def by metis

lemma only_dirs_added_mono: "only_dirs_added ds w w' \<Longrightarrow> set ds \<subseteq> set ds' \<Longrightarrow> only_dirs_added ds' w w'"
  unfolding only_dirs_added_def by blast

lemma bind_pred:
  assumes "P (snd m)" and "\<And>a w1. P w1 \<Longrightarrow> P (snd (f a w1))"
  shows "P (snd (bind m f))"
proof (cases m)
  case (Pair r w1)
  with assms(1) have "P w1" by simp
  with Pair assms(2) show ?thesis by (cases r) (simp_all add: bind_def)
qed

lemma catch_pred:
  assumes "P (snd m)" and "\<And>w1. P w1 \<Longrightarrow> P (snd (h w1))"
  shows "P (snd (catch handled m h))"
proof (cases m)
  case (Pair r w1)
  with assms(1) have "P w1" by simp
  with Pair assms(2) show ?thesis by (cases r) (simp_all add: catch_def)
qed

lemma run_fs [simp]: "fs (snd (run e cmd capture check w)) = fs w"
  by (simp add: run_def)

lemma http_get_fs [simp]: "fs (snd (http_get e url w)) = fs w"
  by (simp add: http_get_def)

lemma http_post_json_fs [simp]: "fs (snd (http_post_json e url w)) = fs w"
  by (simp add: http_post_json_def)

lemma or_not_found_snd [simp]: "snd (or_not_found r) = snd r"
  by (auto simp: or_not_found_def split: prod.splits sum.splits option.splits)

lemma step_python_deps_check_fs: "fs (snd (step_python_deps e True w)) = fs w"
proof -
  obtain m w1 where mp: "missing_packages e packages_checked w = (m, w1)"
    by (cases "missing_packages e packages_checked w")
  then have "fs w1 = fs w"
    using missing_packages_fs[of e packages_checked w] by simp
  with mp show ?thesis by (simp add: step_python_deps_def)
qed

lemma step_ollama_check_fs: "fs (snd (step_ollama e True w)) = fs w"
  unfolding step_ollama_def
  by (rule bind_pred[where P = "\<lambda>w'. fs w' = fs w"], rule catch_pred, rule bind_pred)
     (auto simp: http_get_def split: prod.splits)

lemma check_ffmpeg_fs: "fs (snd (check_ffmpeg e w)) = fs w"
  unfolding check_ffmpeg_def
  by (rule bind_pred[where P = "\<lambda>w'. fs w' = fs w"], rule catch_pred, rule bind_pred)
     (auto intro!: catch_pred[where P = "\<lambda>w'. fs w' = fs w"] bind_pred[where P = "\<lambda>w'. fs w' = fs w"])

lemma step_docker_and_ffmpeg_fs: "fs (snd (step_docker_and_ffmpeg e check_only w)) = fs w"
  unfolding step_docker_and_ffmpeg_def
  by (auto intro!: catch_pred[where P = "\<lambda>w'. fs w' = fs w"] bind_pred[where P = "\<lambda>w'. fs w' = fs w"]
      simp: check_ffmpeg_fs)

lemma detect_nvidia_fs: "fs (snd (detect_nvidia e w)) = fs w"
proof -
  have "snd (case run e nvidia_smi True False w of
        (Inl x, w') \<Rightarrow> (Inl x, w')
      | (Inr out, w') \<Rightarrow>
          (if truthy out then (nvidia_parse e (the out), w') else (Inr None, w')))
      = snd (run e nvidia_smi True False w)"
    by (auto split: prod.splits sum.splits)
  then show ?thesis by (simp add: detect_nvidia_def)
qed

lemma detect_amd_windows_fs: "fs (snd (detect_amd_windows e w)) = fs w"
proof -
  have "snd (case run e wmi_query True False w of
           (Inl x, w') \<Rightarrow> (Inl x, w')
         | (Inr out, w') \<Rightarrow>
             (if \<not> truthy out then (Inr (Some not_found), w')
              else (amd_windows_scan e None (split_on CHR 0x0A (the out)), w')))
      = snd (run e wmi_query True False w)"
    by (auto split: prod.splits sum.splits)
  then show ?thesis by (simp add: detect_amd_windows_def)
qed

lemma detect_amd_rocm_fs: "fs (snd (detect_amd_rocm e w)) = fs w"
proof -
  have "snd (case run e rocm_smi True False w of
        (Inl x, w') \<Rightarrow> (Inl x, w')
      | (Inr out, w') \<Rightarrow>
          (if truthy out \<and> contains (the out) ''GPU'' then
             (let name = rocm_name (split_on CHR 0x0A (the out)) in
              if truthy name
              then (Inr (Some (True, name, amd_table_loop AMD_VRAM_TABLE (the name) 0)), w')
              else (Inr None, w'))
           else (Inr None, w')))
      = snd (run e rocm_smi True False w)"
    by (auto simp: Let_def split: prod.splits sum.splits)
  then show ?thesis by (simp add: detect_amd_rocm_def)
qed

lemma check_ollama_gpu_fs: "fs (snd (check_ollama_gpu e w)) = fs w"
proof -
  have "snd (check_ollama_gpu e w) = snd (run e [''ollama'', ''ps''] True False w)"
    by (auto simp: check_ollama_gpu_def split: prod.splits sum.splits)
  then show ?thesis by simp
qed

lemma detect_amd_fs: "fs (snd (detect_amd e w)) = fs w"
  unfolding detect_amd_def
  by (rule bind_pred[where P = "\<lambda>w'. fs w' = fs w"])
     (auto intro!: bind_pred[where P = "\<lambda>w'. fs w' = fs w"]
        simp: detect_amd_windows_fs detect_amd_rocm_fs check_ollama_gpu_fs)

lemma step_hardware_fs: "fs (snd (step_hardware e w)) = fs w"
proof (cases "can_import e ''psutil'' (now w)")
  case False
  then show ?thesis by (simp add: step_hardware_def)
next
  case True
  have "fs (snd (bind (detect_nvidia e (emit (Import ''psutil'') w))
          (\<lambda>(found_nv, nv_name, nv_vram) w1.
             bind (if found_nv then (Inr (True, ''nvidia'', nv_name, nv_vram), w1)
                   else bind (detect_amd e w1)
                          (\<lambda>(found_amd, amd_name, amd_vram) w2.
                             if found_amd then (Inr (True, ''amd'', amd_name, amd_vram), w2)
                             else (Inr (False, ''none'', None, 0), w2)))
               (\<lambda>(has_gpu, gpu_type, gpu_name, vram) w3.
                  (Inr \<lparr>hw_has_gpu = has_gpu, hw_gpu_type = gpu_type, hw_gpu_name = gpu_name,
                        hw_vram = vram,
                        hw_ram = real (virtual_memory_total e) / 1024 ^ 3,
                        hw_cores = cpu_cores e\<rparr>, w3))))) = fs w"
    by (rule bind_pred[where P = "\<lambda>w'. fs w' = fs w"])
       (auto intro!: bind_pred[where P = "\<lambda>w'. fs w' = fs w"] simp: detect_nvidia_fs detect_amd_fs)
  with True show ?thesis by (simp add: step_hardware_def)
qed

lemma ollama_models_fs: "fs (snd (ollama_models e w)) = fs w"
  by (auto simp: ollama_models_def http_get_def catch_def split: prod.splits sum.splits)

lemma step_models_check_fs: "fs (snd (step_models e h True w)) = fs w"
  unfolding step_models_def Let_def
  by (auto intro!: bind_pred[where P = "\<lambda>w'. fs w' = fs w"] simp: ollama_models_fs)

lemma step_searxng_check_fs: "fs (snd (step_searxng e True w)) = fs w"
  by (simp add: step_searxng_def searxng_is_running_def http_get_def split: prod.splits)

lemma service_checks_fs: "fs (snd (service_checks e ms w)) = fs w"
  unfolding service_checks_def
  by (auto intro!: bind_pred[where P = "\<lambda>w'. fs w' = fs w"]
      simp: http_get_def searxng_is_running_def ollama_models_fs split: prod.splits)

lemma smoke_test_fs: "fs (snd (smoke_test e ms w)) = fs w"
  unfolding smoke_test_def
  by (auto intro!: bind_pred[where P = "\<lambda>w'. fs w' = fs w"]
      simp: http_get_def http_post_json_def Let_def split: prod.splits)

lemma step_validate_and_test_fs: "fs (snd (step_validate_and_test e ms check_only w)) = fs w"
  unfolding step_validate_and_test_def
  by (auto intro!: bind_pred[where P = "\<lambda>w'. fs w' = fs w"] simp: service_checks_fs smoke_test_fs)

lemma mkdir_only_dirs: "only_dirs_added [d] w (snd (mkdir_exist_ok d w))"
  by (auto simp: mkdir_exist_ok_def only_dirs_added_def split: option.splits node.splits)

lemma make_dirs_only_dirs: "only_dirs_added ds w (snd (make_dirs ds w))"
proof (induction ds arbitrary: w)
  case Nil
  then show ?case by (simp add: only_dirs_added_refl)
next
  case (Cons d ds)
  obtain r w1 where m: "mkdir_exist_ok d w = (r, w1)" by (cases "mkdir_exist_ok d w")
  from mkdir_only_dirs[of d w] m have 1: "only_dirs_added (d # ds) w w1"
    by (auto elim: only_dirs_added_mono)
  show ?case
  proof (cases r)
    case (Inl x)
    with m 1 show ?thesis by simp
  next
    case (Inr u)
    from Cons.IH[of w1] have "only_dirs_added (d # ds) w1 (snd (make_dirs ds w1))"
      by (auto elim: only_dirs_added_mono)
    with 1 have "only_dirs_added (d # ds) w (snd (make_dirs ds w1))"
      by (rule only_dirs_added_trans)
    with m Inr show ?thesis by simp
  qed
qed

lemma step_config_check_only_dirs:
  "only_dirs_added runtime_dirs w (snd (step_config e ms h True w))"
proof (cases "path_exists w CONFIG_FILE")
  case False
  then show ?thesis by (simp add: step_config_def only_dirs_added_refl)
next
  case True
  have "only_dirs_added runtime_dirs w (snd (bind (make_dirs runtime_dirs w) (\<lambda>u w3. (Inr True, w3))))"
    by (rule bind_pred) (simp_all add: make_dirs_only_dirs)
  with True show ?thesis
    by (simp add: step_config_def Let_def)
qed

text \<open>
  In validate-only mode no step writes or changes a file, whatever the machine answers; the
  only change a run can make below the project root is that runtime directories which
  were missing exist afterwards.
\<close>

lemma main_check_only_dirs:
  assumes "''--check'' \<in> set argv"
  shows "only_dirs_added runtime_dirs w (snd (main e argv w))"
proof -
  let ?P = "only_dirs_added runtime_dirs w"
  have keep: "\<And>w1 w2. ?P w1 \<Longrightarrow> fs w2 = fs w1 \<Longrightarrow> ?P w2"
    by (rule only_dirs_added_fs)
  have s8: "\<And>ms w7. ?P w7 \<Longrightarrow>
      ?P (snd (bind (step_validate_and_test e ms True w7) (\<lambda>success w8.
          if success then (Inr (), w8) else (Inl (SystemExit 1), w8))))"
    by (rule bind_pred) (auto intro: keep simp: step_validate_and_test_fs)
  have s7: "\<And>ms h w6. ?P w6 \<Longrightarrow>
      ?P (snd (bind (step_config e ms h True w6) (\<lambda>config_ok w7.
          if \<not> config_ok \<and> True then (Inl (SystemExit 1), w7) else
          bind (step_validate_and_test e ms True w7) (\<lambda>success w8.
          if success then (Inr (), w8) else (Inl (SystemExit 1), w8)))))"
    by (rule bind_pred) (auto intro: s8 only_dirs_added_trans step_config_check_only_dirs)
  have s6: "\<And>ms h w5. ?P w5 \<Longrightarrow>
      ?P (snd (bind (step_searxng e True w5) (\<lambda>searxng_ok w6.
          if \<not> searxng_ok \<and> True then (Inl (SystemExit 1), w6) else
          bind (step_config e ms h True w6) (\<lambda>config_ok w7.
          if \<not> config_ok \<and> True then (Inl (SystemExit 1), w7) else
          bind (step_validate_and_test e ms True w7) (\<lambda>success w8.
          if success then (Inr (), w8) else (Inl (SystemExit 1), w8))))))"
    by (rule bind_pred) (auto intro: s7 keep simp: step_searxng_check_fs)
  have s5: "\<And>h w4. ?P w4 \<Longrightarrow>
      ?P (snd (bind (step_models e h True w4) (\<lambda>ms w5.
          bind (step_searxng e True w5) (\<lambda>searxng_ok w6.
          if \<not> searxng_ok \<and> True then (Inl (SystemExit 1), w6) else
          bind (step_config e ms h True w6) (\<lambda>config_ok w7.
          if \<not> config_ok \<and> True then (Inl (SystemExit 1), w7) else
          bind (step_validate_and_test e ms True w7) (\<lambda>success w8.
          if success then (Inr (), w8) else (Inl (SystemExit 1), w8)))))))"
    by (rule bind_pred) (auto intro: s6 keep simp: step_models_check_fs)
  have s4: "\<And>w3. ?P w3 \<Longrightarrow>
      ?P (snd (bind (step_hardware e w3) (\<lambda>h w4.
          bind (step_models e h True w4) (\<lambda>ms w5.
          bind (step_searxng e True w5) (\<lambda>searxng_ok w6.
          if \<not> searxng_ok \<and> True then (Inl (SystemExit 1), w6) else
          bind (step_config e ms h True w6) (\<lambda>config_ok w7.
          if \<not> config_ok \<and> True then (Inl (SystemExit 1), w7) else
          bind (step_validate_and_test e ms True w7) (\<lambda>success w8.
          if success then (Inr (), w8) else (Inl (SystemExit 1), w8))))))))"
    by (rule bind_pred) (auto intro: s5 keep simp: step_hardware_fs)
  have s3: "\<And>w2. ?P w2 \<Longrightarrow>
      ?P (snd (bind (step_docker_and_ffmpeg e True w2) (\<lambda>docker_ok w3.
          if \<not> docker_ok then (Inl (SystemExit 1), w3) else
          bind (step_hardware e w3) (\<lambda>h w4.
          bind (step_models e h True w4) (\<lambda>ms w5.
          bind (step_searxng e True w5) (\<lambda>searxng_ok w6.
          if \<not> searxng_ok \<and> True then (Inl (SystemExit 1), w6) else
          bind (step_config e ms h True w6) (\<lambda>config_ok w7.
          if \<not> config_ok \<and> True then (Inl (SystemExit 1), w7) else
          bind (step_validate_and_test e ms True w7) (\<lambda>success w8.
          if success then (Inr (), w8) else (Inl (SystemExit 1), w8)))))))))"
    by (rule bind_pred) (auto intro: s4 keep simp: step_docker_and_ffmpeg_fs)
  have s2: "\<And>w1. ?P w1 \<Longrightarrow>
      ?P (snd (bind (step_ollama e True w1) (\<lambda>ollama_ok w2.
          if \<not> ollama_ok then (Inl (SystemExit 1), w2) else
          bind (step_docker_and_ffmpeg e True w2) (\<lambda>docker_ok w3.
          if \<not> docker_ok then (Inl (SystemExit 1), w3) else
          bind (step_hardware e w3) (\<lambda>h w4.
          bind (step_models e h True w4) (\<lambda>ms w5.
          bind (step_searxng e True w5) (\<lambda>searxng_ok w6.
          if \<not> searxng_ok \<and> True then (Inl (SystemExit 1), w6) else
          bind (step_config e ms h True w6) (\<lambda>config_ok w7.
          if \<not> config_ok \<and> True then (Inl (SystemExit 1), w7) else
          bind (step_validate_and_test e ms True w7) (\<lambda>success w8.
          if success then (Inr (), w8) else (Inl (SystemExit 1), w8))))))))))"
    by (rule bind_pred) (auto intro: s3 keep simp: step_ollama_check_fs)
  have s1: "?P (snd (bind (step_python_deps e True w) (\<lambda>deps_ok w1.
          if \<not> deps_ok then (Inl (SystemExit 1), w1) else
          bind (step_ollama e True w1) (\<lambda>ollama_ok w2.
          if \<not> ollama_ok then (Inl (SystemExit 1), w2) else
          bind (step_docker_and_ffmpeg e True w2) (\<lambda>docker_ok w3.
          if \<not> docker_ok then (Inl (SystemExit 1), w3) else
          bind (step_hardware e w3) (\<lambda>h w4.
          bind (step_models e h True w4) (\<lambda>ms w5.
          bind (step_searxng e True w5) (\<lambda>searxng_ok w6.
          if \<not> searxng_ok \<and> True then (Inl (SystemExit 1), w6) else
          bind (step_config e ms h True w6) (\<lambda>config_ok w7.
          if \<not> config_ok \<and> True then (Inl (SystemExit 1), w7) else
          bind (step_validate_and_test e ms True w7) (\<lambda>success w8.
          if success then (Inr (), w8) else (Inl (SystemExit 1), w8)))))))))))"
    by (rule bind_pred)
       (auto intro: s2 keep[OF only_dirs_added_refl] simp: step_python_deps_check_fs)
  from assms s1 show ?thesis
    by (simp add: main_def Let_def)
qed

lemma script_check_only_dirs:
  assumes "''--check'' \<in> set argv"
  shows "only_dirs_added runtime_dirs w (snd (script e argv w))"
proof -
  have "snd (script e argv w) = snd (main e argv w)"
    by (auto simp: script_def split: prod.splits sum.splits exn.splits)
  with main_check_only_dirs[OF assms] show ?thesis by simp
qed

end
